theory Spec2Isabelle
  imports Main "HOL-Library.Word"
begin

unbundle bit_operations_syntax

section \<open>EMM Attach procedure of the MME (SRC/NAS/EMM/Attach.c)\<close>

text \<open>
  A shallow embedding of the attach procedure executed by the MME. Each C function of
  Attach.c becomes a HOL function of the same name; the leading underscore of the static
  functions is dropped, since an Isabelle name cannot start with one
  (\<^verbatim>\<open>_emm_send_attach_accept\<close> is \<open>emm_send_attach_accept\<close>).
\<close>

subsection \<open>Data model\<close>

text \<open>
  A C object that is compared with \<^verbatim>\<open>memcmp\<close> or copied as a whole (GUTI, IMSI, IMEI, TAI,
  ECGI, the network capabilities, an ESM message) is its memory image, a list of bytes.
  A pointer that may be \<^verbatim>\<open>NULL\<close> is an \<open>option\<close>.
\<close>

type_synonym bytes = "8 word list"

text \<open>\<^verbatim>\<open>memcmp(p, q, sizeof *p)\<close> on two objects of the same type: non-zero iff the images differ.\<close>

definition memcmp :: "bytes \<Rightarrow> bytes \<Rightarrow> bool" where
  "memcmp p q = (p \<noteq> q)"

datatype emm_proc_attach_type_t =
    EMM_ATTACH_TYPE_EPS
  | EMM_ATTACH_TYPE_COMBINED_EPS_IMSI
  | EMM_ATTACH_TYPE_EMERGENCY
  | EMM_ATTACH_TYPE_RESERVED

text \<open>\<^verbatim>\<open>nas_message_decode_status_t\<close> is declared outside Attach.c; only this field is read.\<close>

record nas_message_decode_status_t =
  mac_matched :: bool

record emm_attach_request_ies_t =
  is_initial :: bool
  type :: emm_proc_attach_type_t
  is_native_sc :: bool
  ksi :: "8 word"
  is_native_guti :: bool
  guti :: "bytes option"
  imsi :: "bytes option"
  imei :: "bytes option"
  last_visited_registered_tai :: "bytes option"
  originating_tai :: "bytes option"
  originating_ecgi :: "bytes option"
  ue_network_capability :: bytes
  ms_network_capability :: "bytes option"
  drx_parameter :: "bytes option"
  esm_msg :: "bytes option"
  decode_status :: nas_message_decode_status_t

text \<open>
  \<^verbatim>\<open>RETURNok\<close> and \<^verbatim>\<open>RETURNerror\<close>, the two results the functions of Attach.c document.
\<close>

datatype return_t = RETURNok | RETURNerror

text \<open>The EMM causes this procedure uses, and any other code a caller may pass.\<close>

datatype emm_cause_t =
    EMM_CAUSE_SUCCESS
  | EMM_CAUSE_ILLEGAL_UE
  | EMM_CAUSE_IMEI_NOT_ACCEPTED
  | EMM_CAUSE_ESM_FAILURE
  | EMM_CAUSE_PROTOCOL_ERROR
  | EMM_CAUSE_OTHER nat

datatype emm_fsm_state_t =
    EMM_DEREGISTERED
  | EMM_REGISTERED_INITIATED
  | EMM_REGISTERED
  | EMM_COMMON_PROCEDURE_INITIATED
  | EMM_DEREGISTERED_INITIATED

text \<open>
  A function pointer stored in a procedure is a tag naming the function of Attach.c it
  points to.
\<close>

datatype nas_callback_t =
    CB_NULL
  | CB_emm_attach_abort
  | CB_emm_attach_reject
  | CB_emm_attach_t3450_handler
  | CB_emm_attach_success_identification_cb
  | CB_emm_attach_failure_identification_cb
  | CB_emm_attach_success_authentication_cb
  | CB_emm_attach_failure_authentication_cb
  | CB_emm_attach_success_security_cb
  | CB_emm_attach_failure_security_cb
  | CB_emm_attach
  | CB_emm_attach_release

datatype nas_timer_id_t = NAS_TIMER_INACTIVE_ID | NAS_TIMER_ACTIVE_ID

text \<open>
  \<^verbatim>\<open>nas_emm_attach_proc_t\<close> is declared outside Attach.c: the record has the fields Attach.c
  reads and writes. \<^verbatim>\<open>attach_proc->ies\<close> is set at the only place a procedure is created, so the
  record holds the snapshot itself. \<^verbatim>\<open>attach_accept_sent\<close> is printed with \<^verbatim>\<open>%d\<close>: it is a C
  \<^verbatim>\<open>int\<close>, here a 32-bit word whose increment wraps around and which is read signed
  (\<open>sint\<close>) where it is compared.
\<close>

record nas_emm_attach_proc_t =
  ue_id :: "32 word"
  ies :: emm_attach_request_ies_t
  proc_guti :: bytes
  proc_ksi :: "8 word"
  emm_cause :: emm_cause_t
  attach_accept_sent :: "32 word"
  attach_reject_sent :: bool
  attach_complete_received :: bool
  T3450 :: nas_timer_id_t
  esm_msg_out :: "bytes option"
  abort :: nas_callback_t
  fail_in :: nas_callback_t
  time_out :: nas_callback_t

text \<open>The specific procedure of a context: an attach, or one of the other kinds.\<close>

datatype emm_specific_proc_t =
    EMM_SPEC_PROC_TYPE_ATTACH nas_emm_attach_proc_t
  | EMM_SPEC_PROC_TYPE_DETACH
  | EMM_SPEC_PROC_TYPE_TAU

text \<open>
  The common procedures of a context. Identification carries \<^verbatim>\<open>is_cause_is_attach\<close> and its
  two continuations, security mode control its two continuations.
\<close>

datatype emm_common_proc_t =
    EMM_COMM_PROC_GUTI
  | EMM_COMM_PROC_AUTH nas_callback_t nas_callback_t
  | EMM_COMM_PROC_SMC nas_callback_t nas_callback_t
  | EMM_COMM_PROC_IDENT bool nas_callback_t nas_callback_t

text \<open>The part of \<^verbatim>\<open>emm_security_context_t\<close> (emmData.h) that the Attach Accept carries.\<close>

record emm_security_context_t =
  eksi :: "8 word"
  encryption :: "4 word"
  integrity :: "4 word"
  activated :: bool

datatype emm_ctxt_member_t =
    EMM_CTXT_MEMBER_IMSI
  | EMM_CTXT_MEMBER_IMEI
  | EMM_CTXT_MEMBER_GUTI
  | EMM_CTXT_MEMBER_OLD_GUTI
  | EMM_CTXT_MEMBER_TAI_LIST
  | EMM_CTXT_MEMBER_UE_NETWORK_CAPABILITY_IE
  | EMM_CTXT_MEMBER_MS_NETWORK_CAPABILITY_IE
  | EMM_CTXT_MEMBER_CURRENT_DRX_PARAMETER
  | EMM_CTXT_MEMBER_AUTH_VECTORS
  | EMM_CTXT_MEMBER_SECURITY
  | EMM_CTXT_MEMBER_NON_CURRENT_SECURITY

text \<open>
  \<^verbatim>\<open>emm_context_t\<close> is declared outside Attach.c: the record has the members Attach.c
  touches. \<^verbatim>\<open>emm_procedures\<close> is flattened into the specific procedure and the list of common
  procedures; a \<^verbatim>\<open>NULL\<close> \<^verbatim>\<open>emm_procedures\<close> is no specific procedure and no common one.
  \<^verbatim>\<open>num_attach_request\<close> is taken as a C \<^verbatim>\<open>int\<close> like the counter of the procedure: a 32-bit
  word whose increment wraps around, read signed where it is compared.
\<close>

record emm_context_t =
  num_attach_request :: "32 word"
  is_attached :: bool
  is_emergency :: bool
  ctx_ksi :: "8 word"
  ctx_originating_tai :: bytes
  ctx_guti :: bytes
  ctx_old_guti :: bytes
  ctx_imsi :: bytes
  ctx_imsi64 :: "64 word"
  ctx_imei :: bytes
  ctx_tai_list :: bytes
  ctx_ue_network_capability :: bytes
  ctx_ms_network_capability :: bytes
  ctx_drx_parameter :: bytes
  ctx_security :: emm_security_context_t
  ue_radio_capability_information :: "bytes option"
  member_present_mask :: "emm_ctxt_member_t set"
  member_valid_mask :: "emm_ctxt_member_t set"
  emm_fsm_state :: emm_fsm_state_t
  emm_specific_proc :: "emm_specific_proc_t option"
  emm_common_procs :: "emm_common_proc_t list"

text \<open>
  \<^verbatim>\<open>ue_mm_context_t\<close>, the parent structure of an EMM context. \<open>coll_imsi64\<close> and \<open>coll_guti\<close> are
  the IMSI and GUTI keys under which the context store files the context.
\<close>

record ue_mm_context_t =
  enb_s1ap_id_key :: "64 word"
  enb_ue_s1ap_id :: "32 word"
  mme_ue_s1ap_id :: "32 word"
  mme_teid_s11 :: "32 word"
  coll_imsi64 :: "64 word"
  coll_guti :: "bytes option"
  emm_context :: emm_context_t

subsection \<open>Service access points and the other collaborators\<close>

text \<open>
  \<^verbatim>\<open>emm_sap_t\<close> and \<^verbatim>\<open>esm_sap_t\<close> with the members Attach.c fills in. The procedure pointer of
  an EMMREG primitive is \<^verbatim>\<open>NULL\<close>, the local zeroed \<^verbatim>\<open>dummy_attach_proc\<close> (of which only the
  cause and \<^verbatim>\<open>fail_out\<close> are set), or the procedure of the context, shown as it is when the
  primitive is sent. The context pointer is the identifier of the UE context it points
  into, or \<open>None\<close> when it was computed from a \<^verbatim>\<open>NULL\<close> UE context.
\<close>

datatype emm_primitive_t =
    EMMREG_ATTACH_REJ
  | EMMREG_ATTACH_ABORT
  | EMMREG_ATTACH_CNF
  | EMMREG_COMMON_PROC_ABORT
  | EMMAS_ESTABLISH_CNF
  | EMMAS_ESTABLISH_REJ

datatype attach_proc_ptr_t =
    PROC_NULL
  | PROC_DUMMY emm_cause_t nas_callback_t
  | PROC_ATTACH nas_emm_attach_proc_t

record emm_reg_t =
  reg_ue_id :: "32 word"
  reg_ctx :: "32 word option"
  notify :: bool
  free_proc :: bool
  reg_proc :: attach_proc_ptr_t
  reg_is_emergency :: bool
  reg_common_proc :: "emm_common_proc_t option"

record emm_as_establish_t =
  as_ue_id :: "32 word"
  eps_id_guti :: "bytes option"
  new_guti :: "bytes option"
  as_emm_cause :: emm_cause_t
  nas_msg :: "bytes option"
  as_tai_list :: "bytes option"
  eps_network_feature_support :: "8 word option"
  sctx :: emm_security_context_t
  as_encryption :: "4 word"
  as_integrity :: "4 word"
  t3402 :: "32 word option"

datatype emm_sap_t =
    EMMREG emm_primitive_t emm_reg_t
  | EMMAS emm_primitive_t emm_as_establish_t

datatype esm_primitive_t =
    ESM_UNITDATA_IND
  | ESM_DEFAULT_EPS_BEARER_CONTEXT_ACTIVATE_CNF
  | ESM_PDN_CONNECTIVITY_REJ

record esm_sap_t =
  esm_primitive :: esm_primitive_t
  is_standalone :: bool
  esm_ue_id :: "32 word"
  recv :: "bytes option"

datatype remove_context_t = REMOVE_OLD_CONTEXT | REMOVE_NEW_CONTEXT

text \<open>
  What the attach procedure asks of the code outside Attach.c, in the order it asks: the
  primitives it sends, the timer calls, the common procedures it starts and the calls
  into the MME application.
\<close>

datatype action_t =
    EMM_SAP_SEND emm_sap_t
  | ESM_SAP_SEND esm_sap_t
  | NAS_STOP_T3450 "32 word"
  | NAS_START_T3450 "32 word" nas_callback_t
  | EMM_PROC_IDENTIFICATION "32 word" nas_callback_t nas_callback_t
  | EMM_PROC_AUTHENTICATION "32 word" nas_callback_t nas_callback_t
  | EMM_PROC_SECURITY_MODE_CONTROL "32 word" "8 word" nas_callback_t nas_callback_t
  | MME_API_NOTIFIED_NEW_UE_S1AP_ID_ASSOCIATION "32 word" bytes "32 word"
  | MME_API_DUPLICATE_ENB_UE_S1AP_ID_DETECTED "64 word" "32 word" remove_context_t

text \<open>
  One UE context together with the calls made so far: what a function of Attach.c that
  takes an \<^verbatim>\<open>emm_context_t *\<close> can read and change.
\<close>

record world_t =
  ue :: ue_mm_context_t
  out :: "action_t list"

text \<open>\<^verbatim>\<open>mme_app_desc\<close>: the context store, and the calls made so far.\<close>

record mme_app_desc_t =
  mme_ue_contexts :: "ue_mm_context_t list"
  calls :: "action_t list"

text \<open>
  \<^verbatim>\<open>AssertFatal\<close> stops the process, and so does reading through a \<^verbatim>\<open>NULL\<close> pointer: a function
  that can do either returns \<open>Inl\<close> of the reason, or \<open>Inr\<close> of its result.
\<close>

datatype fatal_t = AssertFatal string | NullPointerDereference

text \<open>
  The answers of the collaborators and the constants declared outside Attach.c. The error
  code of \<^verbatim>\<open>esm_sap_t\<close> is the C integer; \<^verbatim>\<open>ESM_SAP_SUCCESS\<close> and \<^verbatim>\<open>ESM_SAP_DISCARDED\<close> are the
  values of the two enumerators Attach.c compares it with.
\<close>

record env_t =
  emm_sap_rc :: "emm_sap_t \<Rightarrow> return_t"
  esm_sap_rc :: "esm_sap_t \<Rightarrow> return_t \<times> nat \<times> bytes option"
  ESM_SAP_SUCCESS :: nat
  ESM_SAP_DISCARDED :: nat
  mme_api_new_guti :: "bytes \<Rightarrow> bytes \<Rightarrow> bytes \<Rightarrow> (bytes \<times> bytes) option"
  imsi_to_imsi64 :: "bytes \<Rightarrow> 64 word"
  emm_proc_identification_rc :: "ue_mm_context_t \<Rightarrow> return_t"
  emm_proc_authentication_rc :: "ue_mm_context_t \<Rightarrow> return_t"
  emm_proc_security_mode_control_rc :: "ue_mm_context_t \<Rightarrow> return_t"
  emm_ctx_get_new_ue_id :: "ue_mm_context_t \<Rightarrow> 32 word"
  INVALID_MME_UE_S1AP_ID :: "32 word"
  conf_eps_network_feature_support :: "8 word"
  EMERGENCY_BEARER_SERVICES_IN_S1_MODE_SUPPORTED :: "8 word"
  t3402_min :: "32 word"

subsection \<open>The IE-change predicate\<close>

text \<open>
  \<^verbatim>\<open>_emm_attach_ies_have_changed\<close>, statement by statement. The \<^verbatim>\<open>ue_id\<close> argument and the
  calls of \<^verbatim>\<open>imsi_to_imsi64\<close> only feed the log and are left out. The third test of the
  IMSI block is written as the source has it: its guard and its \<^verbatim>\<open>memcmp\<close> read the GUTIs.
\<close>

definition emm_attach_ies_have_changed ::
  "emm_attach_request_ies_t \<Rightarrow> emm_attach_request_ies_t \<Rightarrow> bool" where
  "emm_attach_ies_have_changed ies1 ies2 =
    (if type ies1 \<noteq> type ies2 then True
     else if is_native_sc ies1 \<noteq> is_native_sc ies2 then True
     else if ksi ies1 \<noteq> ksi ies2 then True
     else if is_native_guti ies1 \<noteq> is_native_guti ies2 then True
     else if guti ies1 \<noteq> None \<and> guti ies2 = None then True
     else if guti ies1 = None \<and> guti ies2 \<noteq> None then True
     else if guti ies1 \<noteq> None \<and> guti ies2 \<noteq> None
             \<and> memcmp (the (guti ies1)) (the (guti ies2)) then True
     else if imsi ies1 \<noteq> None \<and> imsi ies2 = None then True
     else if imsi ies1 = None \<and> imsi ies2 \<noteq> None then True
     else if guti ies1 \<noteq> None \<and> guti ies2 \<noteq> None
             \<and> memcmp (the (guti ies1)) (the (guti ies2)) then True
     else if imei ies1 \<noteq> None \<and> imei ies2 = None then True
     else if imei ies1 = None \<and> imei ies2 \<noteq> None then True
     else if imei ies1 \<noteq> None \<and> imei ies2 \<noteq> None
             \<and> memcmp (the (imei ies1)) (the (imei ies2)) then True
     else if last_visited_registered_tai ies1 \<noteq> None
             \<and> last_visited_registered_tai ies2 = None then True
     else if last_visited_registered_tai ies1 = None
             \<and> last_visited_registered_tai ies2 \<noteq> None then True
     else if last_visited_registered_tai ies1 \<noteq> None
             \<and> last_visited_registered_tai ies2 \<noteq> None
             \<and> memcmp (the (last_visited_registered_tai ies1))
                       (the (last_visited_registered_tai ies2)) then True
     else if originating_tai ies1 \<noteq> None \<and> originating_tai ies2 = None then True
     else if originating_tai ies1 = None \<and> originating_tai ies2 \<noteq> None then True
     else if originating_tai ies1 \<noteq> None \<and> originating_tai ies2 \<noteq> None
             \<and> memcmp (the (originating_tai ies1)) (the (originating_tai ies2)) then True
     else if originating_ecgi ies1 \<noteq> None \<and> originating_ecgi ies2 = None then True
     else if originating_ecgi ies1 = None \<and> originating_ecgi ies2 \<noteq> None then True
     else if originating_ecgi ies1 \<noteq> None \<and> originating_ecgi ies2 \<noteq> None
             \<and> memcmp (the (originating_ecgi ies1)) (the (originating_ecgi ies2)) then True
     else if memcmp (ue_network_capability ies1) (ue_network_capability ies2) then True
     else if ms_network_capability ies1 \<noteq> None \<and> ms_network_capability ies2 = None then True
     else if ms_network_capability ies1 = None \<and> ms_network_capability ies2 \<noteq> None then True
     else if ms_network_capability ies1 \<noteq> None \<and> ms_network_capability ies2 \<noteq> None
             \<and> memcmp (the (ms_network_capability ies1))
                       (the (ms_network_capability ies2)) then True
     else False)"

subsection \<open>Reading and writing the context\<close>

definition ctx :: "world_t \<Rightarrow> emm_context_t" where
  "ctx w = emm_context (ue w)"

definition upd_ctx :: "(emm_context_t \<Rightarrow> emm_context_t) \<Rightarrow> world_t \<Rightarrow> world_t" where
  "upd_ctx f w = w\<lparr>ue := (ue w)\<lparr>emm_context := f (emm_context (ue w))\<rparr>\<rparr>"

definition call :: "action_t \<Rightarrow> world_t \<Rightarrow> world_t" where
  "call a w = w\<lparr>out := out w @ [a]\<rparr>"

text \<open>A write through the pointer to the attach procedure of the context.\<close>

definition upd_attach_proc ::
  "(nas_emm_attach_proc_t \<Rightarrow> nas_emm_attach_proc_t) \<Rightarrow> emm_context_t \<Rightarrow> emm_context_t" where
  "upd_attach_proc f c =
    (case emm_specific_proc c of
       Some (EMM_SPEC_PROC_TYPE_ATTACH p) \<Rightarrow>
         c\<lparr>emm_specific_proc := Some (EMM_SPEC_PROC_TYPE_ATTACH (f p))\<rparr>
     | _ \<Rightarrow> c)"

subsection \<open>The procedure registry\<close>

text \<open>
  Modelled from the spec: the procedure registry (section 4.3), whose functions are defined
  outside Attach.c. \<open>get_specific_attach\<close> returns the attach procedure or none;
  \<open>is_specific_running\<close> says whether there is one.
\<close>

definition get_nas_specific_procedure_attach ::
  "emm_context_t \<Rightarrow> nas_emm_attach_proc_t option" where
  "get_nas_specific_procedure_attach c =
    (case emm_specific_proc c of
       Some (EMM_SPEC_PROC_TYPE_ATTACH p) \<Rightarrow> Some p
     | _ \<Rightarrow> None)"

definition is_nas_specific_procedure_attach_running :: "emm_context_t \<Rightarrow> bool" where
  "is_nas_specific_procedure_attach_running c = (get_nas_specific_procedure_attach c \<noteq> None)"

text \<open>
  Modelled from the spec: the three queries on an attach procedure, defined outside
  Attach.c. An Accept counts as sent when the \<^verbatim>\<open>attach_accept_sent\<close> counter is not zero, which
  is how Attach.c itself negates the query in \<^verbatim>\<open>emm_proc_attach_request\<close>.
\<close>

definition is_nas_attach_accept_sent :: "nas_emm_attach_proc_t \<Rightarrow> bool" where
  "is_nas_attach_accept_sent p = (attach_accept_sent p \<noteq> 0)"

definition is_nas_attach_reject_sent :: "nas_emm_attach_proc_t \<Rightarrow> bool" where
  "is_nas_attach_reject_sent p = attach_reject_sent p"

definition is_nas_attach_complete_received :: "nas_emm_attach_proc_t \<Rightarrow> bool" where
  "is_nas_attach_complete_received p = attach_complete_received p"

text \<open>Modelled from the spec: \<open>is_common_running\<close> and the getters of the common procedures.\<close>

definition is_nas_common_procedure_guti_realloc_running :: "emm_context_t \<Rightarrow> bool" where
  "is_nas_common_procedure_guti_realloc_running c = (EMM_COMM_PROC_GUTI \<in> set (emm_common_procs c))"

fun is_smc :: "emm_common_proc_t \<Rightarrow> bool" where
  "is_smc (EMM_COMM_PROC_SMC _ _) = True"
| "is_smc _ = False"

fun is_auth :: "emm_common_proc_t \<Rightarrow> bool" where
  "is_auth (EMM_COMM_PROC_AUTH _ _) = True"
| "is_auth _ = False"

fun is_ident :: "emm_common_proc_t \<Rightarrow> bool" where
  "is_ident (EMM_COMM_PROC_IDENT _ _ _) = True"
| "is_ident _ = False"

definition get_nas_common_procedure_smc :: "emm_context_t \<Rightarrow> emm_common_proc_t option" where
  "get_nas_common_procedure_smc c = find is_smc (emm_common_procs c)"

definition is_nas_common_procedure_smc_running :: "emm_context_t \<Rightarrow> bool" where
  "is_nas_common_procedure_smc_running c = (get_nas_common_procedure_smc c \<noteq> None)"

definition get_nas_common_procedure_identification ::
  "emm_context_t \<Rightarrow> emm_common_proc_t option" where
  "get_nas_common_procedure_identification c = find is_ident (emm_common_procs c)"

definition is_nas_common_procedure_identification_running :: "emm_context_t \<Rightarrow> bool" where
  "is_nas_common_procedure_identification_running c =
    (get_nas_common_procedure_identification c \<noteq> None)"

fun is_cause_is_attach :: "emm_common_proc_t \<Rightarrow> bool" where
  "is_cause_is_attach (EMM_COMM_PROC_IDENT b _ _) = b"
| "is_cause_is_attach _ = False"

text \<open>
  Modelled from the spec: \<open>new_attach(context)\<close>, defined outside Attach.c, fails with Busy
  (\<^verbatim>\<open>NULL\<close>) if a specific procedure already runs, and otherwise installs a fresh procedure:
  nothing sent or received, no timer, no cause, no ESM buffer. The IE snapshot is the one
  the only caller assigns next.
\<close>

definition new_attach_proc ::
  "32 word \<Rightarrow> emm_attach_request_ies_t \<Rightarrow> nas_emm_attach_proc_t" where
  "new_attach_proc uid i =
    \<lparr>ue_id = uid, ies = i, proc_guti = [], proc_ksi = 0, emm_cause = EMM_CAUSE_SUCCESS,
     attach_accept_sent = 0, attach_reject_sent = False, attach_complete_received = False,
     T3450 = NAS_TIMER_INACTIVE_ID, esm_msg_out = None,
     abort = CB_NULL, fail_in = CB_NULL, time_out = CB_NULL\<rparr>"

definition nas_new_attach_procedure ::
  "emm_attach_request_ies_t \<Rightarrow> world_t \<Rightarrow> world_t option" where
  "nas_new_attach_procedure i w =
    (if emm_specific_proc (ctx w) \<noteq> None then None
     else Some (upd_ctx (\<lambda>c. c\<lparr>emm_specific_proc :=
             Some (EMM_SPEC_PROC_TYPE_ATTACH (new_attach_proc (mme_ue_s1ap_id (ue w)) i))\<rparr>) w))"

text \<open>Modelled from the spec: \<open>delete_attach(context)\<close> clears the specific slot of an attach.\<close>

definition nas_delete_attach_procedure :: "emm_context_t \<Rightarrow> emm_context_t" where
  "nas_delete_attach_procedure c =
    (if is_nas_specific_procedure_attach_running c then c\<lparr>emm_specific_proc := None\<rparr> else c)"

text \<open>
  Modelled from the spec: stopping and arming T3450 (\<^verbatim>\<open>nas_stop_T3450\<close>, \<^verbatim>\<open>nas_start_T3450\<close>,
  defined outside Attach.c). Each call is recorded, and the handle in the attach procedure
  becomes inactive or active.
\<close>

definition nas_stop_T3450 :: "32 word \<Rightarrow> world_t \<Rightarrow> world_t" where
  "nas_stop_T3450 uid w =
    call (NAS_STOP_T3450 uid) (upd_ctx (upd_attach_proc (\<lambda>p. p\<lparr>T3450 := NAS_TIMER_INACTIVE_ID\<rparr>)) w)"

definition nas_start_T3450 :: "32 word \<Rightarrow> nas_callback_t \<Rightarrow> world_t \<Rightarrow> world_t" where
  "nas_start_T3450 uid cb w =
    call (NAS_START_T3450 uid cb) (upd_ctx (upd_attach_proc (\<lambda>p. p\<lparr>T3450 := NAS_TIMER_ACTIVE_ID\<rparr>)) w)"

subsection \<open>Attributes of the EMM context\<close>

text \<open>
  Modelled from the spec: the setters of the EMM context (\<^verbatim>\<open>emm_ctx_set_...\<close>,
  \<^verbatim>\<open>emm_ctx_clear_...\<close>) and the \<^verbatim>\<open>IS_EMM_CTXT_...\<close> tests are defined outside Attach.c. An
  attribute is present, and on top of that valid ("present, not yet valid" for a new
  GUTI); clearing an attribute makes it absent and empties its value.
\<close>

definition emm_ctx_set_attribute_present ::
  "emm_ctxt_member_t \<Rightarrow> emm_context_t \<Rightarrow> emm_context_t" where
  "emm_ctx_set_attribute_present m c = c\<lparr>member_present_mask := insert m (member_present_mask c)\<rparr>"

definition emm_ctx_set_attribute_valid ::
  "emm_ctxt_member_t \<Rightarrow> emm_context_t \<Rightarrow> emm_context_t" where
  "emm_ctx_set_attribute_valid m c =
    c\<lparr>member_present_mask := insert m (member_present_mask c),
      member_valid_mask := insert m (member_valid_mask c)\<rparr>"

definition emm_ctx_clear_attribute ::
  "emm_ctxt_member_t \<Rightarrow> emm_context_t \<Rightarrow> emm_context_t" where
  "emm_ctx_clear_attribute m c =
    c\<lparr>member_present_mask := member_present_mask c - {m},
      member_valid_mask := member_valid_mask c - {m}\<rparr>"

definition IS_EMM_CTXT_PRESENT_GUTI :: "emm_context_t \<Rightarrow> bool" where
  "IS_EMM_CTXT_PRESENT_GUTI c = (EMM_CTXT_MEMBER_GUTI \<in> member_present_mask c)"

definition IS_EMM_CTXT_VALID_GUTI :: "emm_context_t \<Rightarrow> bool" where
  "IS_EMM_CTXT_VALID_GUTI c = (EMM_CTXT_MEMBER_GUTI \<in> member_valid_mask c)"

definition IS_EMM_CTXT_PRESENT_OLD_GUTI :: "emm_context_t \<Rightarrow> bool" where
  "IS_EMM_CTXT_PRESENT_OLD_GUTI c = (EMM_CTXT_MEMBER_OLD_GUTI \<in> member_present_mask c)"

definition emm_ctx_set_guti :: "bytes \<Rightarrow> emm_context_t \<Rightarrow> emm_context_t" where
  "emm_ctx_set_guti g c = emm_ctx_set_attribute_present EMM_CTXT_MEMBER_GUTI (c\<lparr>ctx_guti := g\<rparr>)"

definition emm_ctx_set_valid_guti :: "bytes \<Rightarrow> emm_context_t \<Rightarrow> emm_context_t" where
  "emm_ctx_set_valid_guti g c = emm_ctx_set_attribute_valid EMM_CTXT_MEMBER_GUTI (c\<lparr>ctx_guti := g\<rparr>)"

definition emm_ctx_clear_guti :: "emm_context_t \<Rightarrow> emm_context_t" where
  "emm_ctx_clear_guti c = emm_ctx_clear_attribute EMM_CTXT_MEMBER_GUTI (c\<lparr>ctx_guti := []\<rparr>)"

definition emm_ctx_set_old_guti :: "bytes \<Rightarrow> emm_context_t \<Rightarrow> emm_context_t" where
  "emm_ctx_set_old_guti g c =
    emm_ctx_set_attribute_present EMM_CTXT_MEMBER_OLD_GUTI (c\<lparr>ctx_old_guti := g\<rparr>)"

definition emm_ctx_clear_old_guti :: "emm_context_t \<Rightarrow> emm_context_t" where
  "emm_ctx_clear_old_guti c =
    emm_ctx_clear_attribute EMM_CTXT_MEMBER_OLD_GUTI (c\<lparr>ctx_old_guti := []\<rparr>)"

definition emm_ctx_set_valid_imsi :: "bytes \<Rightarrow> 64 word \<Rightarrow> emm_context_t \<Rightarrow> emm_context_t" where
  "emm_ctx_set_valid_imsi i i64 c =
    emm_ctx_set_attribute_valid EMM_CTXT_MEMBER_IMSI (c\<lparr>ctx_imsi := i, ctx_imsi64 := i64\<rparr>)"

definition emm_ctx_clear_imsi :: "emm_context_t \<Rightarrow> emm_context_t" where
  "emm_ctx_clear_imsi c =
    emm_ctx_clear_attribute EMM_CTXT_MEMBER_IMSI (c\<lparr>ctx_imsi := [], ctx_imsi64 := 0\<rparr>)"

definition emm_ctx_set_valid_imei :: "bytes \<Rightarrow> emm_context_t \<Rightarrow> emm_context_t" where
  "emm_ctx_set_valid_imei i c = emm_ctx_set_attribute_valid EMM_CTXT_MEMBER_IMEI (c\<lparr>ctx_imei := i\<rparr>)"

definition emm_ctx_clear_imei :: "emm_context_t \<Rightarrow> emm_context_t" where
  "emm_ctx_clear_imei c = emm_ctx_clear_attribute EMM_CTXT_MEMBER_IMEI (c\<lparr>ctx_imei := []\<rparr>)"

definition emm_ctx_set_valid_ue_nw_cap :: "bytes \<Rightarrow> emm_context_t \<Rightarrow> emm_context_t" where
  "emm_ctx_set_valid_ue_nw_cap v c =
    emm_ctx_set_attribute_valid EMM_CTXT_MEMBER_UE_NETWORK_CAPABILITY_IE
      (c\<lparr>ctx_ue_network_capability := v\<rparr>)"

definition emm_ctx_set_valid_ms_nw_cap :: "bytes \<Rightarrow> emm_context_t \<Rightarrow> emm_context_t" where
  "emm_ctx_set_valid_ms_nw_cap v c =
    emm_ctx_set_attribute_valid EMM_CTXT_MEMBER_MS_NETWORK_CAPABILITY_IE
      (c\<lparr>ctx_ms_network_capability := v\<rparr>)"

definition emm_ctx_clear_ms_nw_cap :: "emm_context_t \<Rightarrow> emm_context_t" where
  "emm_ctx_clear_ms_nw_cap c =
    emm_ctx_clear_attribute EMM_CTXT_MEMBER_MS_NETWORK_CAPABILITY_IE
      (c\<lparr>ctx_ms_network_capability := []\<rparr>)"

definition emm_ctx_set_valid_drx_parameter :: "bytes \<Rightarrow> emm_context_t \<Rightarrow> emm_context_t" where
  "emm_ctx_set_valid_drx_parameter v c =
    emm_ctx_set_attribute_valid EMM_CTXT_MEMBER_CURRENT_DRX_PARAMETER (c\<lparr>ctx_drx_parameter := v\<rparr>)"

definition emm_ctx_clear_auth_vectors :: "emm_context_t \<Rightarrow> emm_context_t" where
  "emm_ctx_clear_auth_vectors c = emm_ctx_clear_attribute EMM_CTXT_MEMBER_AUTH_VECTORS c"

definition emm_ctx_clear_security :: "emm_context_t \<Rightarrow> emm_context_t" where
  "emm_ctx_clear_security c =
    emm_ctx_clear_attribute EMM_CTXT_MEMBER_SECURITY
      (c\<lparr>ctx_security := \<lparr>eksi = 0, encryption = 0, integrity = 0, activated = False\<rparr>\<rparr>)"

definition emm_ctx_clear_non_current_security :: "emm_context_t \<Rightarrow> emm_context_t" where
  "emm_ctx_clear_non_current_security c =
    emm_ctx_clear_attribute EMM_CTXT_MEMBER_NON_CURRENT_SECURITY c"

text \<open>
  Modelled from the spec: \<open>update_keys(context, enb_key, ue_id, imsi, teid, guti)\<close> of the
  context store (\<^verbatim>\<open>mme_ue_context_update_coll_keys\<close>, defined outside Attach.c) files the
  context under the given keys; a \<^verbatim>\<open>NULL\<close> GUTI leaves the GUTI key as it is.
\<close>

definition mme_ue_context_update_coll_keys ::
  "64 word \<Rightarrow> 32 word \<Rightarrow> 64 word \<Rightarrow> 32 word \<Rightarrow> bytes option \<Rightarrow> world_t \<Rightarrow> world_t" where
  "mme_ue_context_update_coll_keys enb_key uid imsi64 teid g w =
    w\<lparr>ue := (ue w)\<lparr>enb_s1ap_id_key := enb_key, mme_ue_s1ap_id := uid, mme_teid_s11 := teid,
                  coll_imsi64 := imsi64,
                  coll_guti := (case g of None \<Rightarrow> coll_guti (ue w) | Some x \<Rightarrow> Some x)\<rparr>\<rparr>"

subsection \<open>The service access points\<close>

text \<open>
  Modelled from the spec: \<^verbatim>\<open>esm_sap_send\<close>, defined outside Attach.c. ESM is an opaque peer:
  the primitive is recorded and ESM answers with a return code, an error code and a
  response PDU.
\<close>

definition esm_sap_send ::
  "env_t \<Rightarrow> esm_sap_t \<Rightarrow> world_t \<Rightarrow> (return_t \<times> nat \<times> bytes option) \<times> world_t" where
  "esm_sap_send env sap w = (esm_sap_rc env sap, call (ESM_SAP_SEND sap) w)"

text \<open>
  Modelled from the spec: \<^verbatim>\<open>emm_sap_send\<close>, defined outside Attach.c, for the primitives
  that fire no continuation of Attach.c. The primitive is recorded and the return code
  comes from the layer below. An EMMAS primitive is a message towards the UE and changes
  nothing here. \<open>EMMREG_ATTACH_REJ\<close> moves the context to DEREGISTERED and, with
  \<^verbatim>\<open>free_proc\<close>, removes the procedure record; \<open>EMMREG_ATTACH_CNF\<close> moves it to REGISTERED
  (sections 4.7.5 and 4.7.7).
\<close>

definition emm_sap_send_plain :: "env_t \<Rightarrow> emm_sap_t \<Rightarrow> world_t \<Rightarrow> return_t \<times> world_t" where
  "emm_sap_send_plain env sap w =
    (let w1 = call (EMM_SAP_SEND sap) w in
     (emm_sap_rc env sap,
      case sap of
        EMMREG EMMREG_ATTACH_REJ reg \<Rightarrow>
          (if reg_ctx reg = None then w1
           else upd_ctx (\<lambda>c. (if free_proc reg then nas_delete_attach_procedure c else c)
                               \<lparr>emm_fsm_state := EMM_DEREGISTERED\<rparr>) w1)
      | EMMREG EMMREG_ATTACH_CNF reg \<Rightarrow>
          (if reg_ctx reg = None then w1
           else upd_ctx (\<lambda>c. (if free_proc reg then nas_delete_attach_procedure c else c)
                               \<lparr>emm_fsm_state := EMM_REGISTERED\<rparr>) w1)
      | _ \<Rightarrow> w1))"

text \<open>
  \<^verbatim>\<open>_emm_attach_abort\<close>, the abort continuation of an attach procedure. The primitive it
  sends is \<open>EMMREG_ATTACH_REJ\<close>, which fires no continuation.
\<close>

definition emm_attach_abort :: "env_t \<Rightarrow> world_t \<Rightarrow> return_t \<times> world_t" where
  "emm_attach_abort env w =
    (case get_nas_specific_procedure_attach (ctx w) of
       None \<Rightarrow> (RETURNerror, w)
     | Some attach_proc \<Rightarrow>
        (let uid = mme_ue_s1ap_id (ue w);
             esm_sap = \<lparr>esm_primitive = ESM_PDN_CONNECTIVITY_REJ, is_standalone = False,
                        esm_ue_id = uid, recv = None\<rparr>;
             w1 = snd (esm_sap_send env esm_sap w);
             emm_sap = EMMREG EMMREG_ATTACH_REJ
                         \<lparr>reg_ue_id = uid, reg_ctx = Some uid, notify = True, free_proc = True,
                          reg_proc = PROC_ATTACH attach_proc, reg_is_emergency = False,
                          reg_common_proc = None\<rparr>
         in emm_sap_send_plain env emm_sap w1))"

text \<open>\<^verbatim>\<open>_emm_attach_release\<close>: \<^verbatim>\<open>rc\<close> is never assigned, so the result is \<^verbatim>\<open>RETURNerror\<close>.\<close>

definition emm_attach_release :: "world_t \<Rightarrow> return_t \<times> world_t" where
  "emm_attach_release w =
    (RETURNerror,
     upd_ctx (\<lambda>c. emm_ctx_clear_non_current_security (emm_ctx_clear_security
               (emm_ctx_clear_auth_vectors (emm_ctx_clear_imei (emm_ctx_clear_imsi
                 (emm_ctx_clear_guti (emm_ctx_clear_old_guti c))))))) w)"

text \<open>\<^verbatim>\<open>_emm_attach_failure_security_cb\<close>\<close>

definition emm_attach_failure_security_cb :: "world_t \<Rightarrow> return_t \<times> world_t" where
  "emm_attach_failure_security_cb w =
    (case get_nas_specific_procedure_attach (ctx w) of
       None \<Rightarrow> (RETURNerror, w)
     | Some attach_proc \<Rightarrow> (RETURNerror, snd (emm_attach_release w)))"

text \<open>
  Modelled from the spec: \<^verbatim>\<open>emm_sap_send\<close>, defined outside Attach.c, for every primitive.
  Aborting an attach (section 5, Cancellation): (a) stops T3450, then fires the abort
  continuation of the procedure, which (b) sends \<open>ESM_PDN_CONNECTIVITY_REJ\<close> and (c) notifies
  with \<open>EMMREG_ATTACH_REJ\<close>, and (d) removes the procedure record; the context goes to
  DEREGISTERED. Aborting a common procedure removes it and invokes its failure
  continuation.
\<close>

definition emm_sap_send :: "env_t \<Rightarrow> emm_sap_t \<Rightarrow> world_t \<Rightarrow> return_t \<times> world_t" where
  "emm_sap_send env sap w =
    (case sap of
       EMMREG EMMREG_ATTACH_ABORT reg \<Rightarrow>
         (let w1 = call (EMM_SAP_SEND sap) w in
          if reg_ctx reg = None then (emm_sap_rc env sap, w1)
          else
            (let w2 = (case get_nas_specific_procedure_attach (ctx w1) of
                         None \<Rightarrow> w1
                       | Some p \<Rightarrow>
                          (let w' = nas_stop_T3450 (ue_id p) w1 in
                           if abort p = CB_emm_attach_abort then snd (emm_attach_abort env w')
                           else w'));
                 w3 = upd_ctx (\<lambda>c. (if free_proc reg then nas_delete_attach_procedure c else c)
                                      \<lparr>emm_fsm_state := EMM_DEREGISTERED\<rparr>) w2
             in (emm_sap_rc env sap, w3)))
     | EMMREG EMMREG_COMMON_PROC_ABORT reg \<Rightarrow>
         (let w1 = call (EMM_SAP_SEND sap) w in
          (emm_sap_rc env sap,
           case reg_common_proc reg of
             None \<Rightarrow> w1
           | Some cp \<Rightarrow>
              (let w2 = (if free_proc reg
                         then upd_ctx (\<lambda>c. c\<lparr>emm_common_procs := remove1 cp (emm_common_procs c)\<rparr>) w1
                         else w1)
               in case cp of
                    EMM_COMM_PROC_SMC success failure \<Rightarrow>
                      (if failure = CB_emm_attach_failure_security_cb
                       then snd (emm_attach_failure_security_cb w2) else w2)
                  | _ \<Rightarrow> w2)))
     | _ \<Rightarrow> emm_sap_send_plain env sap w)"

text \<open>
  Modelled from the spec: the engines of the common procedures (sections 4.4 to 4.6),
  defined outside Attach.c. Starting one is recorded, registers the common procedure with
  its continuations unless one of its kind runs already, and returns the code the engine
  gives. An identification started by an attach has \<^verbatim>\<open>is_cause_is_attach\<close> set.
\<close>

definition emm_proc_identification ::
  "env_t \<Rightarrow> nas_callback_t \<Rightarrow> nas_callback_t \<Rightarrow> world_t \<Rightarrow> return_t \<times> world_t" where
  "emm_proc_identification env success failure w =
    (emm_proc_identification_rc env (ue w),
     call (EMM_PROC_IDENTIFICATION (mme_ue_s1ap_id (ue w)) success failure)
       (upd_ctx (\<lambda>c. if is_nas_common_procedure_identification_running c then c
                     else c\<lparr>emm_common_procs :=
                            emm_common_procs c @ [EMM_COMM_PROC_IDENT True success failure]\<rparr>) w))"

definition emm_proc_authentication ::
  "env_t \<Rightarrow> nas_callback_t \<Rightarrow> nas_callback_t \<Rightarrow> world_t \<Rightarrow> return_t \<times> world_t" where
  "emm_proc_authentication env success failure w =
    (emm_proc_authentication_rc env (ue w),
     call (EMM_PROC_AUTHENTICATION (mme_ue_s1ap_id (ue w)) success failure)
       (upd_ctx (\<lambda>c. if find is_auth (emm_common_procs c) \<noteq> None then c
                     else c\<lparr>emm_common_procs :=
                            emm_common_procs c @ [EMM_COMM_PROC_AUTH success failure]\<rparr>) w))"

definition emm_proc_security_mode_control ::
  "env_t \<Rightarrow> 8 word \<Rightarrow> nas_callback_t \<Rightarrow> nas_callback_t \<Rightarrow> world_t \<Rightarrow> return_t \<times> world_t" where
  "emm_proc_security_mode_control env k success failure w =
    (emm_proc_security_mode_control_rc env (ue w),
     call (EMM_PROC_SECURITY_MODE_CONTROL (mme_ue_s1ap_id (ue w)) k success failure)
       (upd_ctx (\<lambda>c. if is_nas_common_procedure_smc_running c then c
                     else c\<lparr>emm_common_procs :=
                            emm_common_procs c @ [EMM_COMM_PROC_SMC success failure]\<rparr>) w))"

subsection \<open>Reject, update and Attach Accept\<close>

text \<open>
  \<^verbatim>\<open>_emm_attach_reject\<close>. The procedure pointer is read at once, so a \<^verbatim>\<open>NULL\<close> one is fatal. A
  write to the cause goes to the procedure of the context, or is lost with the dummy.
  \<^verbatim>\<open>emm_as_set_security_data\<close> copies the security context of the EMM context.
\<close>

definition emm_attach_reject ::
  "env_t \<Rightarrow> attach_proc_ptr_t \<Rightarrow> world_t \<Rightarrow> fatal_t + (return_t \<times> world_t)" where
  "emm_attach_reject env nas_base_proc w =
    (case (case nas_base_proc of
             PROC_NULL \<Rightarrow> None
           | PROC_DUMMY cause cb \<Rightarrow> Some (0, cause, None, False)
           | PROC_ATTACH p \<Rightarrow> Some (ue_id p, emm_cause p, esm_msg_out p, True)) of
       None \<Rightarrow> Inl NullPointerDereference
     | Some (uid, cause0, esm_out, in_context) \<Rightarrow>
        (let cause = (if cause0 = EMM_CAUSE_SUCCESS then EMM_CAUSE_ILLEGAL_UE else cause0);
             w1 = (if cause0 = EMM_CAUSE_SUCCESS \<and> in_context
                   then upd_ctx (upd_attach_proc (\<lambda>p. p\<lparr>emm_cause := EMM_CAUSE_ILLEGAL_UE\<rparr>)) w
                   else w);
             establish = \<lparr>as_ue_id = uid, eps_id_guti = None, new_guti = None,
                          as_emm_cause = cause, nas_msg = None, as_tai_list = None,
                          eps_network_feature_support = None, sctx = ctx_security (ctx w1),
                          as_encryption = 0, as_integrity = 0, t3402 = None\<rparr>
         in if cause \<noteq> EMM_CAUSE_ESM_FAILURE
            then Inr (emm_sap_send env (EMMAS EMMAS_ESTABLISH_REJ establish) w1)
            else if esm_out \<noteq> None
            then Inr (emm_sap_send env (EMMAS EMMAS_ESTABLISH_REJ (establish\<lparr>nas_msg := esm_out\<rparr>)) w1)
            else Inr (RETURNerror, w1)))"

text \<open>
  \<^verbatim>\<open>_emm_attach_update\<close>. \<^verbatim>\<open>*ies->originating_tai\<close> is read without a test, so a request without
  originating TAI is fatal.
\<close>

definition emm_attach_update ::
  "env_t \<Rightarrow> emm_attach_request_ies_t \<Rightarrow> world_t \<Rightarrow> fatal_t + (return_t \<times> world_t)" where
  "emm_attach_update env i w =
    (let w1 = upd_ctx (\<lambda>c. c\<lparr>is_emergency := (type i = EMM_ATTACH_TYPE_EMERGENCY)\<rparr>) w;
         w2 = (if ctx_ksi (ctx w1) \<noteq> ksi i then upd_ctx (\<lambda>c. c\<lparr>ctx_ksi := ksi i\<rparr>) w1 else w1);
         w3 = upd_ctx (emm_ctx_set_valid_ue_nw_cap (ue_network_capability i)) w2;
         w4 = (case ms_network_capability i of
                 Some m \<Rightarrow> upd_ctx (emm_ctx_set_valid_ms_nw_cap m) w3
               | None \<Rightarrow> upd_ctx emm_ctx_clear_ms_nw_cap w3)
     in case originating_tai i of
          None \<Rightarrow> Inl NullPointerDereference
        | Some t \<Rightarrow>
           (let w5 = upd_ctx (\<lambda>c. c\<lparr>ctx_originating_tai := t\<rparr>) w4;
                w6 = (case guti i of
                        None \<Rightarrow> w5
                      | Some g \<Rightarrow>
                         (if memcmp g (ctx_old_guti (ctx w5))
                          then (let w' = upd_ctx (emm_ctx_set_old_guti g) w5
                                in mme_ue_context_update_coll_keys
                                     (enb_s1ap_id_key (ue w')) (mme_ue_s1ap_id (ue w'))
                                     (ctx_imsi64 (ctx w')) (mme_teid_s11 (ue w'))
                                     (Some (ctx_old_guti (ctx w'))) w')
                          else w5));
                w7 = (case imsi i of
                        None \<Rightarrow> w6
                      | Some m \<Rightarrow>
                         (let new_imsi64 = imsi_to_imsi64 env m
                          in if new_imsi64 \<noteq> ctx_imsi64 (ctx w6)
                             then (let w' = upd_ctx (emm_ctx_set_valid_imsi m new_imsi64) w6
                                   in mme_ue_context_update_coll_keys
                                        (enb_s1ap_id_key (ue w')) (mme_ue_s1ap_id (ue w'))
                                        (ctx_imsi64 (ctx w')) (mme_teid_s11 (ue w')) None w')
                             else w6));
                w8 = (case imei i of
                        None \<Rightarrow> w7
                      | Some e \<Rightarrow> upd_ctx (emm_ctx_set_valid_imei e) w7)
            in Inr (RETURNok, w8)))"

text \<open>
  \<^verbatim>\<open>_emm_send_attach_accept\<close>. \<^verbatim>\<open>mme_api_new_guti\<close> (outside Attach.c) is asked with the IMSI,
  the old GUTI and the originating TAI of the context and gives a GUTI and a TAI list, or
  fails. The model's context is never \<^verbatim>\<open>NULL\<close>.
\<close>

definition emm_send_attach_accept :: "env_t \<Rightarrow> world_t \<Rightarrow> fatal_t + (return_t \<times> world_t)" where
  "emm_send_attach_accept env w =
    (case get_nas_specific_procedure_attach (ctx w) of
       None \<Rightarrow> Inr (RETURNerror, w)
     | Some attach_proc \<Rightarrow>
        (case emm_attach_update env (ies attach_proc) w of
           Inl e \<Rightarrow> Inl e
         | Inr (rc_update, w1) \<Rightarrow>
            (let uid = mme_ue_s1ap_id (ue w1);
                 w2 = upd_ctx (\<lambda>c. c\<lparr>ue_radio_capability_information := None\<rparr>) w1;
                 w3 = upd_ctx (emm_ctx_set_attribute_valid EMM_CTXT_MEMBER_UE_NETWORK_CAPABILITY_IE) w2;
                 w4 = upd_ctx (emm_ctx_set_attribute_valid EMM_CTXT_MEMBER_MS_NETWORK_CAPABILITY_IE) w3;
                 w5 = (case drx_parameter (ies attach_proc) of
                         None \<Rightarrow> w4
                       | Some d \<Rightarrow> upd_ctx (emm_ctx_set_valid_drx_parameter d) w4);
                 allocation =
                   (if \<not> IS_EMM_CTXT_PRESENT_GUTI (ctx w5)
                    then (case mme_api_new_guti env (ctx_imsi (ctx w5)) (ctx_old_guti (ctx w5))
                                 (ctx_originating_tai (ctx w5)) of
                            Some (g, tais) \<Rightarrow>
                              Some (upd_ctx (\<lambda>c. emm_ctx_set_attribute_valid EMM_CTXT_MEMBER_TAI_LIST
                                                   (emm_ctx_set_guti g (c\<lparr>ctx_tai_list := tais\<rparr>))) w5,
                                    Some tais)
                          | None \<Rightarrow> None)
                    else Some (w5, None))
             in case allocation of
                  None \<Rightarrow> Inr (RETURNerror, w5)
                | Some (w6, tais) \<Rightarrow>
                   (let c = ctx w6;
                        establish =
                          \<lparr>as_ue_id = uid,
                           eps_id_guti = Some (ctx_guti c),
                           new_guti =
                             (if \<not> IS_EMM_CTXT_VALID_GUTI c \<and> IS_EMM_CTXT_PRESENT_GUTI c
                                 \<and> IS_EMM_CTXT_PRESENT_OLD_GUTI c then Some (ctx_guti c)
                              else if \<not> IS_EMM_CTXT_VALID_GUTI c \<and> IS_EMM_CTXT_PRESENT_GUTI c
                              then Some (ctx_guti c)
                              else None),
                           as_emm_cause = EMM_CAUSE_SUCCESS,
                           nas_msg = esm_msg_out attach_proc,
                           as_tai_list = tais,
                           eps_network_feature_support = Some (conf_eps_network_feature_support env),
                           sctx = ctx_security c,
                           as_encryption = encryption (ctx_security c),
                           as_integrity = integrity (ctx_security c),
                           t3402 = Some (t3402_min env)\<rparr>;
                        (rc, w7) = emm_sap_send env (EMMAS EMMAS_ESTABLISH_CNF establish) w6
                    in if RETURNerror \<noteq> rc
                       then Inr (rc, nas_start_T3450 (ue_id attach_proc) (time_out attach_proc)
                                       (nas_stop_T3450 uid w7))
                       else Inr (rc, w7)))))"

text \<open>\<^verbatim>\<open>emm_cn_wrapper_attach_accept\<close>\<close>

definition emm_cn_wrapper_attach_accept ::
  "env_t \<Rightarrow> world_t \<Rightarrow> fatal_t + (return_t \<times> world_t)" where
  "emm_cn_wrapper_attach_accept env w = emm_send_attach_accept env w"

subsection \<open>T3450\<close>

text \<open>Modelled from the spec: \<^verbatim>\<open>ATTACH_COUNTER_MAX\<close> (5), defined outside Attach.c.\<close>

definition ATTACH_COUNTER_MAX :: int where
  "ATTACH_COUNTER_MAX = 5"

text \<open>
  \<^verbatim>\<open>_emm_attach_t3450_handler\<close>. The handle is cleared and the counter incremented through
  the procedure pointer before the counter is compared; the increment wraps around and the
  comparison with \<^verbatim>\<open>ATTACH_COUNTER_MAX\<close> reads the counter signed. The result of
  \<^verbatim>\<open>_emm_send_attach_accept\<close> and of \<^verbatim>\<open>emm_sap_send\<close> is dropped.
\<close>

definition emm_attach_t3450_handler :: "env_t \<Rightarrow> world_t \<Rightarrow> fatal_t + world_t" where
  "emm_attach_t3450_handler env w =
    (case get_nas_specific_procedure_attach (ctx w) of
       None \<Rightarrow> Inr w
     | Some p0 \<Rightarrow>
        (let attach_proc = p0\<lparr>T3450 := NAS_TIMER_INACTIVE_ID,
                              attach_accept_sent := attach_accept_sent p0 + 1\<rparr>;
             w1 = upd_ctx (upd_attach_proc (\<lambda>p. attach_proc)) w
         in if sint (attach_accept_sent attach_proc) < ATTACH_COUNTER_MAX
            then (case emm_send_attach_accept env w1 of
                    Inl e \<Rightarrow> Inl e
                  | Inr (rc, w2) \<Rightarrow> Inr w2)
            else Inr (snd (emm_sap_send env
                        (EMMREG EMMREG_ATTACH_ABORT
                           \<lparr>reg_ue_id = ue_id attach_proc, reg_ctx = Some (mme_ue_s1ap_id (ue w1)),
                            notify = True, free_proc = True, reg_proc = PROC_ATTACH attach_proc,
                            reg_is_emergency = False, reg_common_proc = None\<rparr>) w1))))"

subsection \<open>The attach signalling procedure and its continuations\<close>

text \<open>The pointer to the attach procedure of a context, with the procedure as it is now.\<close>

definition attach_proc_ptr :: "emm_context_t \<Rightarrow> attach_proc_ptr_t" where
  "attach_proc_ptr c =
    (case get_nas_specific_procedure_attach c of None \<Rightarrow> PROC_NULL | Some p \<Rightarrow> PROC_ATTACH p)"

text \<open>
  \<^verbatim>\<open>_emm_attach\<close>. Without an attach procedure \<^verbatim>\<open>rc\<close> stays \<^verbatim>\<open>RETURNerror\<close> and the cause is
  written through the \<^verbatim>\<open>NULL\<close> procedure pointer.
\<close>

definition emm_attach :: "env_t \<Rightarrow> world_t \<Rightarrow> fatal_t + (return_t \<times> world_t)" where
  "emm_attach env w =
    (let uid = mme_ue_s1ap_id (ue w) in
     case get_nas_specific_procedure_attach (ctx w) of
       None \<Rightarrow> Inl NullPointerDereference
     | Some attach_proc \<Rightarrow>
        (case (case esm_msg (ies attach_proc) of
                 Some m \<Rightarrow>
                   (let esm_sap = \<lparr>esm_primitive = ESM_UNITDATA_IND, is_standalone = False,
                                    esm_ue_id = uid, recv = Some m\<rparr>;
                        (answer, w1) = esm_sap_send env esm_sap w;
                        rc = fst answer; err = fst (snd answer); send = snd (snd answer)
                    in if rc \<noteq> RETURNerror \<and> err = ESM_SAP_SUCCESS env then Inr (RETURNok, w1)
                       else if err \<noteq> ESM_SAP_DISCARDED env then
                         (let w2 = upd_ctx (upd_attach_proc
                                     (\<lambda>p. p\<lparr>emm_cause := EMM_CAUSE_ESM_FAILURE,
                                            ies := (ies p)\<lparr>esm_msg := None\<rparr>,
                                            esm_msg_out := send\<rparr>)) w1
                          in emm_attach_reject env (attach_proc_ptr (ctx w2)) w2)
                       else Inr (RETURNok, w1))
               | None \<Rightarrow> emm_send_attach_accept env w) of
           Inl e \<Rightarrow> Inl e
         | Inr (rc, w3) \<Rightarrow>
            (if rc \<noteq> RETURNok
             then (let w4 = upd_ctx (upd_attach_proc
                              (\<lambda>p. p\<lparr>emm_cause := EMM_CAUSE_PROTOCOL_ERROR\<rparr>)) w3
                   in emm_attach_reject env (attach_proc_ptr (ctx w4)) w4)
             else Inr (rc, w3))))"

text \<open>\<^verbatim>\<open>_emm_start_attach_proc_authentication\<close>\<close>

definition emm_start_attach_proc_authentication ::
  "env_t \<Rightarrow> nas_emm_attach_proc_t option \<Rightarrow> world_t \<Rightarrow> return_t \<times> world_t" where
  "emm_start_attach_proc_authentication env attach_proc w =
    (if attach_proc \<noteq> None
     then emm_proc_authentication env CB_emm_attach_success_authentication_cb
            CB_emm_attach_failure_authentication_cb w
     else (RETURNerror, w))"

text \<open>\<^verbatim>\<open>_emm_attach_success_identification_cb\<close>\<close>

definition emm_attach_success_identification_cb :: "env_t \<Rightarrow> world_t \<Rightarrow> return_t \<times> world_t" where
  "emm_attach_success_identification_cb env w =
    (case get_nas_specific_procedure_attach (ctx w) of
       None \<Rightarrow> (RETURNerror, w)
     | Some attach_proc \<Rightarrow> emm_start_attach_proc_authentication env (Some attach_proc) w)"

text \<open>\<^verbatim>\<open>_emm_attach_failure_identification_cb\<close>\<close>

definition emm_attach_failure_identification_cb :: "world_t \<Rightarrow> fatal_t + (return_t \<times> world_t)" where
  "emm_attach_failure_identification_cb w = Inl (AssertFatal ''Cannot happen...'')"

text \<open>
  \<^verbatim>\<open>_emm_start_attach_proc_security\<close> and \<^verbatim>\<open>_emm_attach_security\<close>, which differ in the
  continuations they register.
\<close>

definition emm_start_attach_proc_security ::
  "env_t \<Rightarrow> nas_emm_attach_proc_t option \<Rightarrow> world_t \<Rightarrow> return_t \<times> world_t" where
  "emm_start_attach_proc_security env attach_proc w =
    (case attach_proc of
       None \<Rightarrow> (RETURNerror, w)
     | Some p \<Rightarrow>
        (let uid = mme_ue_s1ap_id (ue w);
             w1 = upd_ctx emm_ctx_clear_security w;
             (rc, w2) = emm_proc_security_mode_control env (proc_ksi p)
                          CB_emm_attach_success_security_cb CB_emm_attach_failure_security_cb w1
         in if rc \<noteq> RETURNok
            then (let w3 = upd_ctx (upd_attach_proc (\<lambda>q. q\<lparr>emm_cause := EMM_CAUSE_ILLEGAL_UE\<rparr>)) w2
                  in emm_sap_send env
                       (EMMREG EMMREG_ATTACH_REJ
                          \<lparr>reg_ue_id = uid, reg_ctx = Some uid, notify = True, free_proc = True,
                           reg_proc = attach_proc_ptr (ctx w3), reg_is_emergency = False,
                           reg_common_proc = None\<rparr>) w3)
            else (rc, w2)))"

definition emm_attach_security :: "env_t \<Rightarrow> world_t \<Rightarrow> return_t \<times> world_t" where
  "emm_attach_security env w =
    (case get_nas_specific_procedure_attach (ctx w) of
       None \<Rightarrow> (RETURNerror, w)
     | Some p \<Rightarrow>
        (let uid = mme_ue_s1ap_id (ue w);
             w1 = upd_ctx emm_ctx_clear_security w;
             (rc, w2) = emm_proc_security_mode_control env (proc_ksi p)
                          CB_emm_attach CB_emm_attach_release w1
         in if rc \<noteq> RETURNok
            then (let w3 = upd_ctx (upd_attach_proc (\<lambda>q. q\<lparr>emm_cause := EMM_CAUSE_ILLEGAL_UE\<rparr>)) w2
                  in emm_sap_send env
                       (EMMREG EMMREG_ATTACH_REJ
                          \<lparr>reg_ue_id = uid, reg_ctx = Some uid, notify = True, free_proc = True,
                           reg_proc = attach_proc_ptr (ctx w3), reg_is_emergency = False,
                           reg_common_proc = None\<rparr>) w3)
            else (rc, w2)))"

text \<open>\<^verbatim>\<open>_emm_attach_success_authentication_cb\<close>\<close>

definition emm_attach_success_authentication_cb :: "env_t \<Rightarrow> world_t \<Rightarrow> return_t \<times> world_t" where
  "emm_attach_success_authentication_cb env w =
    (case get_nas_specific_procedure_attach (ctx w) of
       None \<Rightarrow> (RETURNerror, w)
     | Some attach_proc \<Rightarrow> emm_start_attach_proc_security env (Some attach_proc) w)"

text \<open>\<^verbatim>\<open>_emm_attach_failure_authentication_cb\<close>\<close>

definition emm_attach_failure_authentication_cb :: "env_t \<Rightarrow> world_t \<Rightarrow> return_t \<times> world_t" where
  "emm_attach_failure_authentication_cb env w =
    (case get_nas_specific_procedure_attach (ctx w) of
       None \<Rightarrow> (RETURNerror, w)
     | Some attach_proc \<Rightarrow>
        emm_sap_send env
          (EMMREG EMMREG_ATTACH_REJ
             \<lparr>reg_ue_id = ue_id attach_proc, reg_ctx = Some (mme_ue_s1ap_id (ue w)), notify = True,
              free_proc = True, reg_proc = PROC_ATTACH attach_proc, reg_is_emergency = False,
              reg_common_proc = None\<rparr>) w)"

text \<open>\<^verbatim>\<open>_emm_attach_success_security_cb\<close>\<close>

definition emm_attach_success_security_cb ::
  "env_t \<Rightarrow> world_t \<Rightarrow> fatal_t + (return_t \<times> world_t)" where
  "emm_attach_success_security_cb env w =
    (case get_nas_specific_procedure_attach (ctx w) of
       None \<Rightarrow> Inr (RETURNerror, w)
     | Some attach_proc \<Rightarrow> emm_attach env w)"

text \<open>\<^verbatim>\<open>_emm_attach_run_procedure\<close>\<close>

definition emm_attach_run_procedure :: "env_t \<Rightarrow> world_t \<Rightarrow> fatal_t + (return_t \<times> world_t)" where
  "emm_attach_run_procedure env w =
    (case get_nas_specific_procedure_attach (ctx w) of
       None \<Rightarrow> Inr (RETURNerror, w)
     | Some attach_proc \<Rightarrow>
        (if imsi (ies attach_proc) \<noteq> None then
           (if mac_matched (decode_status (ies attach_proc))
            then Inr (emm_start_attach_proc_authentication env (Some attach_proc) w)
            else Inr (emm_proc_identification env CB_emm_attach_success_identification_cb
                        CB_emm_attach_failure_identification_cb w))
         else if guti (ies attach_proc) \<noteq> None then
           Inr (emm_proc_identification env CB_emm_attach_success_identification_cb
                  CB_emm_attach_failure_identification_cb w)
         else if imei (ies attach_proc) \<noteq> None then Inl (AssertFatal ''TODO emergency'')
         else Inr (RETURNerror, w)))"

text \<open>\<^verbatim>\<open>_emm_proc_create_procedure_attach_request\<close>\<close>

definition emm_proc_create_procedure_attach_request ::
  "emm_attach_request_ies_t \<Rightarrow> world_t \<Rightarrow> fatal_t + world_t" where
  "emm_proc_create_procedure_attach_request i w =
    (case nas_new_attach_procedure i w of
       None \<Rightarrow> Inl (AssertFatal ''TODO Handle this'')
     | Some w1 \<Rightarrow>
        Inr (upd_ctx (upd_attach_proc
               (\<lambda>p. p\<lparr>ies := i, abort := CB_emm_attach_abort, fail_in := CB_NULL,
                      time_out := CB_emm_attach_t3450_handler\<rparr>)) w1))"

subsection \<open>The context store\<close>

text \<open>
  Modelled from the spec: the lookups of the EMM context store (section 4.1), defined
  outside Attach.c: by UE identifier, by GUTI, by IMSI and by eNB key. A lookup gives the
  place of the first context filed under the key, and the context.
\<close>

fun lookup_context ::
  "(ue_mm_context_t \<Rightarrow> bool) \<Rightarrow> ue_mm_context_t list \<Rightarrow> (nat \<times> ue_mm_context_t) option" where
  "lookup_context P [] = None"
| "lookup_context P (c # cs) =
     (if P c then Some (0, c)
      else (case lookup_context P cs of None \<Rightarrow> None | Some (k, d) \<Rightarrow> Some (Suc k, d)))"

definition mme_ue_context_exists_mme_ue_s1ap_id ::
  "ue_mm_context_t list \<Rightarrow> 32 word \<Rightarrow> (nat \<times> ue_mm_context_t) option" where
  "mme_ue_context_exists_mme_ue_s1ap_id cs uid = lookup_context (\<lambda>c. mme_ue_s1ap_id c = uid) cs"

definition mme_ue_context_exists_guti ::
  "ue_mm_context_t list \<Rightarrow> bytes \<Rightarrow> (nat \<times> ue_mm_context_t) option" where
  "mme_ue_context_exists_guti cs g = lookup_context (\<lambda>c. coll_guti c = Some g) cs"

definition mme_ue_context_exists_imsi ::
  "ue_mm_context_t list \<Rightarrow> 64 word \<Rightarrow> (nat \<times> ue_mm_context_t) option" where
  "mme_ue_context_exists_imsi cs i64 = lookup_context (\<lambda>c. coll_imsi64 c = i64) cs"

definition mme_ue_context_exists_enb_ue_s1ap_id ::
  "ue_mm_context_t list \<Rightarrow> 64 word \<Rightarrow> (nat \<times> ue_mm_context_t) option" where
  "mme_ue_context_exists_enb_ue_s1ap_id cs key = lookup_context (\<lambda>c. enb_s1ap_id_key c = key) cs"

text \<open>Working on the context found at place \<open>k\<close>, and putting it back.\<close>

definition enter :: "mme_app_desc_t \<Rightarrow> ue_mm_context_t \<Rightarrow> world_t" where
  "enter s c = \<lparr>ue = c, out = calls s\<rparr>"

definition leave :: "mme_app_desc_t \<Rightarrow> nat \<Rightarrow> world_t \<Rightarrow> mme_app_desc_t" where
  "leave s k w = s\<lparr>mme_ue_contexts := (mme_ue_contexts s)[k := ue w], calls := out w\<rparr>"

text \<open>
  Modelled from the spec: \<^verbatim>\<open>emm_sap_send\<close> when the context pointer of the primitive was
  computed from a \<^verbatim>\<open>NULL\<close> UE context: the primitive is recorded, and no context can change.
\<close>

definition emm_sap_send_no_context ::
  "env_t \<Rightarrow> emm_sap_t \<Rightarrow> mme_app_desc_t \<Rightarrow> return_t \<times> mme_app_desc_t" where
  "emm_sap_send_no_context env sap s = (emm_sap_rc env sap, s\<lparr>calls := calls s @ [EMM_SAP_SEND sap]\<rparr>)"

subsection \<open>Attach Reject and Attach Complete\<close>

text \<open>\<^verbatim>\<open>emm_proc_attach_reject\<close>\<close>

definition emm_proc_attach_reject ::
  "env_t \<Rightarrow> 32 word \<Rightarrow> emm_cause_t \<Rightarrow> mme_app_desc_t \<Rightarrow> return_t \<times> mme_app_desc_t" where
  "emm_proc_attach_reject env uid cause s =
    (case mme_ue_context_exists_mme_ue_s1ap_id (mme_ue_contexts s) uid of
       None \<Rightarrow> (RETURNerror, s)
     | Some (k, ue_mm_context) \<Rightarrow>
        (let w = enter s ue_mm_context in
         if is_nas_specific_procedure_attach_running (ctx w) then
           (let w1 = upd_ctx (upd_attach_proc (\<lambda>p. p\<lparr>emm_cause := cause\<rparr>)) w;
                (rc, w2) = emm_sap_send env
                             (EMMREG EMMREG_ATTACH_REJ
                                \<lparr>reg_ue_id = uid, reg_ctx = Some (mme_ue_s1ap_id (ue w1)),
                                 notify = False, free_proc = True,
                                 reg_proc = attach_proc_ptr (ctx w1), reg_is_emergency = False,
                                 reg_common_proc = None\<rparr>) w1
            in (rc, leave s k w2))
         else (RETURNerror, s)))"

text \<open>
  \<^verbatim>\<open>emm_proc_attach_complete\<close>. \<^verbatim>\<open>esm_sap\<close> is zeroed at its declaration, so its error code is 0
  unless \<^verbatim>\<open>esm_sap_send\<close> is called. The first part gives \<^verbatim>\<open>rc\<close>, the error code, the procedure
  pointer and the context the second part works on; the second part is the final
  \<^verbatim>\<open>if\<close> / \<^verbatim>\<open>else if\<close> / \<^verbatim>\<open>else\<close>. The arguments \<^verbatim>\<open>emm_cause\<close> and \<^verbatim>\<open>status\<close> are never read and
  are left out.
\<close>

definition emm_proc_attach_complete ::
  "env_t \<Rightarrow> 32 word \<Rightarrow> bytes option \<Rightarrow> mme_app_desc_t \<Rightarrow> return_t \<times> mme_app_desc_t" where
  "emm_proc_attach_complete env uid esm_msg_pP s =
    (let (rc, err, attach_proc, found) =
       (case mme_ue_context_exists_mme_ue_s1ap_id (mme_ue_contexts s) uid of
          None \<Rightarrow> (RETURNerror, 0, PROC_NULL, None)
        | Some (k, ue_mm_context) \<Rightarrow>
           (let w = enter s ue_mm_context in
            case get_nas_specific_procedure_attach (ctx w) of
              None \<Rightarrow> (RETURNerror, 0, PROC_NULL, Some (k, w))
            | Some p \<Rightarrow>
               (let w1 = upd_ctx (emm_ctx_set_valid_guti (proc_guti p)) w;
                    w2 = upd_ctx nas_delete_attach_procedure w1;
                    w3 = mme_ue_context_update_coll_keys
                           (enb_s1ap_id_key (ue w2)) (mme_ue_s1ap_id (ue w2)) (ctx_imsi64 (ctx w2))
                           (mme_teid_s11 (ue w2)) (Some (ctx_guti (ctx w2))) w2;
                    w4 = upd_ctx emm_ctx_clear_old_guti w3;
                    (answer, w5) = esm_sap_send env
                                     \<lparr>esm_primitive = ESM_DEFAULT_EPS_BEARER_CONTEXT_ACTIVATE_CNF,
                                      is_standalone = False, esm_ue_id = uid, recv = esm_msg_pP\<rparr> w4
                in (fst answer, fst (snd answer), PROC_ATTACH p, Some (k, w5)))));
         reg = \<lparr>reg_ue_id = uid,
                reg_ctx = (case found of None \<Rightarrow> None | Some (k, w) \<Rightarrow> Some (mme_ue_s1ap_id (ue w))),
                notify = True, free_proc = True, reg_proc = attach_proc,
                reg_is_emergency = False, reg_common_proc = None\<rparr>
     in if rc \<noteq> RETURNerror \<and> err = ESM_SAP_SUCCESS env then
          (case found of
             None \<Rightarrow> emm_sap_send_no_context env (EMMREG EMMREG_ATTACH_CNF reg) s
           | Some (k, w) \<Rightarrow>
              (let w1 = upd_ctx (\<lambda>c. c\<lparr>is_attached := True\<rparr>) w;
                   (rc', w2) = emm_sap_send env (EMMREG EMMREG_ATTACH_CNF reg) w1
               in (rc', leave s k w2)))
        else if err \<noteq> ESM_SAP_DISCARDED env then
          (case found of
             None \<Rightarrow> emm_sap_send_no_context env (EMMREG EMMREG_ATTACH_REJ reg) s
           | Some (k, w) \<Rightarrow>
              (let (rc', w1) = emm_sap_send env (EMMREG EMMREG_ATTACH_REJ reg) w
               in (rc', leave s k w1)))
        else (RETURNok, (case found of None \<Rightarrow> s | Some (k, w) \<Rightarrow> leave s k w)))"

subsection \<open>Attach Request\<close>

text \<open>
  \<^verbatim>\<open>emm_proc_attach_request\<close> is given in the order of its source, in five parts. The local
  variables that live across the parts are the UE context (with the calls made so far),
  \<^verbatim>\<open>ue_id\<close> and \<^verbatim>\<open>duplicate_enb_context_detected\<close>; \<^verbatim>\<open>rc\<close> is overwritten before it is returned
  on every path but the early returns.
\<close>

text \<open>
  Modelled from the spec: \<^verbatim>\<open>mme_api_duplicate_enb_ue_s1ap_id_detected\<close> and
  \<^verbatim>\<open>mme_api_notified_new_ue_s1ap_id_association\<close>, defined outside Attach.c. The first
  reconciles the two eNB associations of a UE and gives back the context of the UE
  identifier; the call is recorded, and what happens to the other association is outside
  this model. The second is recorded and gives the context its new identifier.
\<close>

definition mme_api_duplicate_enb_ue_s1ap_id_detected ::
  "64 word \<Rightarrow> 32 word \<Rightarrow> remove_context_t \<Rightarrow> world_t \<Rightarrow> world_t" where
  "mme_api_duplicate_enb_ue_s1ap_id_detected key uid mode w =
    call (MME_API_DUPLICATE_ENB_UE_S1AP_ID_DETECTED key uid mode) w"

definition mme_api_notified_new_ue_s1ap_id_association ::
  "32 word \<Rightarrow> bytes \<Rightarrow> 32 word \<Rightarrow> world_t \<Rightarrow> world_t" where
  "mme_api_notified_new_ue_s1ap_id_association enb_id ecgi uid w =
    call (MME_API_NOTIFIED_NEW_UE_S1AP_ID_ASSOCIATION enb_id ecgi uid)
      (w\<lparr>ue := (ue w)\<lparr>mme_ue_s1ap_id := uid\<rparr>\<rparr>)"

text \<open>
  First part: getting the UE context. The result is the place and the context found (or
  none), \<^verbatim>\<open>ue_id\<close> and \<^verbatim>\<open>duplicate_enb_context_detected\<close>.
\<close>

definition emm_proc_attach_request_context ::
  "env_t \<Rightarrow> 64 word \<Rightarrow> 32 word \<Rightarrow> emm_attach_request_ies_t \<Rightarrow> mme_app_desc_t
     \<Rightarrow> fatal_t + ((nat \<times> world_t) option \<times> 32 word \<times> bool)" where
  "emm_proc_attach_request_context env enb_ue_s1ap_id_key uid0 i s =
    (let cs = mme_ue_contexts s in
     if INVALID_MME_UE_S1AP_ID env \<noteq> uid0 then
       Inr (case mme_ue_context_exists_mme_ue_s1ap_id cs uid0 of
              None \<Rightarrow> (None, uid0, False)
            | Some (k, c) \<Rightarrow> (Some (k, enter s c), uid0, False))
     else
       (let by_guti =
              (case guti i of
                 None \<Rightarrow> (None, uid0, False)
               | Some g \<Rightarrow>
                  (case mme_ue_context_exists_guti cs g of
                     None \<Rightarrow> (None, uid0, False)
                   | Some (k, c) \<Rightarrow>
                      (Some (k, c), mme_ue_s1ap_id c, enb_s1ap_id_key c \<noteq> enb_ue_s1ap_id_key)));
            by_imsi =
              (case by_guti of
                 (Some kc, uid, dup) \<Rightarrow> by_guti
               | (None, uid, dup) \<Rightarrow>
                  (case imsi i of
                     None \<Rightarrow> by_guti
                   | Some m \<Rightarrow>
                      (case mme_ue_context_exists_imsi cs (imsi_to_imsi64 env m) of
                         None \<Rightarrow> by_guti
                       | Some (k, c) \<Rightarrow>
                          (Some (k, c), mme_ue_s1ap_id c,
                           dup \<or> enb_s1ap_id_key c \<noteq> enb_ue_s1ap_id_key))))
        in case by_imsi of
             (Some (k, c), uid, dup) \<Rightarrow> Inr (Some (k, enter s c), uid, dup)
           | (None, uid, dup) \<Rightarrow>
              (case mme_ue_context_exists_enb_ue_s1ap_id cs enb_ue_s1ap_id_key of
                 None \<Rightarrow> Inr (None, uid, dup)
               | Some (k, c) \<Rightarrow>
                  (if INVALID_MME_UE_S1AP_ID env = mme_ue_s1ap_id c then
                     (case originating_ecgi i of
                        None \<Rightarrow> Inl NullPointerDereference
                      | Some ecgi \<Rightarrow>
                         (let uid' = emm_ctx_get_new_ue_id env c
                          in Inr (Some (k, mme_api_notified_new_ue_s1ap_id_association
                                             (enb_ue_s1ap_id c) ecgi uid' (enter s c)),
                                  uid', dup)))
                   else Inr (Some (k, enter s c), uid, dup)))))"

text \<open>
  The collision with a running identification (the block guarded by
  \<^verbatim>\<open>is_nas_common_procedure_identification_running\<close>). \<open>Inr (Inl (rc, w))\<close> is an early return.
\<close>

definition emm_proc_attach_request_identification ::
  "env_t \<Rightarrow> emm_attach_request_ies_t \<Rightarrow> world_t
     \<Rightarrow> fatal_t + ((return_t \<times> world_t) + world_t)" where
  "emm_proc_attach_request_identification env i w =
    (case get_nas_common_procedure_identification (ctx w) of
       None \<Rightarrow> Inr (Inr w)
     | Some ident_proc \<Rightarrow>
        (case get_nas_specific_procedure_attach (ctx w) of
           None \<Rightarrow>
             (case emm_proc_create_procedure_attach_request i w of
                Inl e \<Rightarrow> Inl e | Inr w1 \<Rightarrow> Inr (Inr w1))
         | Some attach_proc \<Rightarrow>
            (if is_nas_attach_accept_sent attach_proc \<or> is_nas_attach_reject_sent attach_proc
             then Inr (Inr w)
             else if is_cause_is_attach ident_proc then
               (if \<not> (attach_accept_sent attach_proc \<noteq> 0) \<and> \<not> attach_reject_sent attach_proc then
                  (if emm_attach_ies_have_changed i (ies attach_proc) then
                     (let w1 = snd (emm_sap_send env
                                 (EMMREG EMMREG_ATTACH_ABORT
                                    \<lparr>reg_ue_id = ue_id attach_proc,
                                     reg_ctx = Some (mme_ue_s1ap_id (ue w)), notify = True,
                                     free_proc = True, reg_proc = PROC_ATTACH attach_proc,
                                     reg_is_emergency = False, reg_common_proc = None\<rparr>) w)
                      in case emm_proc_create_procedure_attach_request i w1 of
                           Inl e \<Rightarrow> Inl e | Inr w2 \<Rightarrow> Inr (Inr w2))
                   else Inr (Inl (RETURNok, w)))
                else Inr (Inr w))
             else Inr (Inr w))))"

text \<open>
  The collision with a running attach (the block guarded by
  \<^verbatim>\<open>is_nas_specific_procedure_attach_running\<close>): abnormal cases d and e. The result carries
  \<^verbatim>\<open>duplicate_enb_context_detected\<close>.
\<close>

definition emm_proc_attach_request_attach ::
  "env_t \<Rightarrow> 64 word \<Rightarrow> 32 word \<Rightarrow> emm_attach_request_ies_t \<Rightarrow> bool \<Rightarrow> world_t
     \<Rightarrow> fatal_t + ((return_t \<times> world_t) + (world_t \<times> bool))" where
  "emm_proc_attach_request_attach env enb_ue_s1ap_id_key uid i dup w =
    (case get_nas_specific_procedure_attach (ctx w) of
       None \<Rightarrow> Inr (Inr (w, dup))
     | Some attach_proc \<Rightarrow>
        (if is_nas_attach_accept_sent attach_proc \<and> \<not> is_nas_attach_complete_received attach_proc
         then
           (let w1 = upd_ctx (\<lambda>c. c\<lparr>num_attach_request := num_attach_request c + 1\<rparr>) w in
            if emm_attach_ies_have_changed i (ies attach_proc) then
              (let w2 = snd (emm_sap_send env
                          (EMMREG EMMREG_ATTACH_ABORT
                             \<lparr>reg_ue_id = ue_id attach_proc,
                              reg_ctx = Some (mme_ue_s1ap_id (ue w1)), notify = True,
                              free_proc = True, reg_proc = PROC_ATTACH attach_proc,
                              reg_is_emergency = False, reg_common_proc = None\<rparr>) w1);
                   w3 = (if dup
                         then mme_api_duplicate_enb_ue_s1ap_id_detected enb_ue_s1ap_id_key
                                (mme_ue_s1ap_id (ue w2)) REMOVE_OLD_CONTEXT w2
                         else w2)
               in case emm_proc_create_procedure_attach_request i w3 of
                    Inl e \<Rightarrow> Inl e | Inr w4 \<Rightarrow> Inr (Inr (w4, False)))
            else
              (let w2 = nas_stop_T3450 uid w1 in
               case emm_send_attach_accept env w2 of
                 Inl e \<Rightarrow> Inl e
               | Inr (rc, w3) \<Rightarrow>
                  (case get_nas_specific_procedure_attach (ctx w3) of
                     None \<Rightarrow> Inl NullPointerDereference
                   | Some p \<Rightarrow>
                      (if \<not> is_nas_attach_complete_received p
                       then Inr (Inr (nas_start_T3450 uid (time_out p) w3, dup))
                       else Inr (Inr (w3, dup))))))
         else if \<not> is_nas_attach_accept_sent attach_proc
                 \<and> 1 \<le> sint (num_attach_request (ctx w)) then
           (if emm_attach_ies_have_changed i (ies attach_proc) then
              (let w2 = snd (emm_sap_send env
                          (EMMREG EMMREG_ATTACH_ABORT
                             \<lparr>reg_ue_id = ue_id attach_proc,
                              reg_ctx = Some (mme_ue_s1ap_id (ue w)), notify = False,
                              free_proc = True, reg_proc = PROC_ATTACH attach_proc,
                              reg_is_emergency = False, reg_common_proc = None\<rparr>) w);
                   w3 = (if dup
                         then mme_api_duplicate_enb_ue_s1ap_id_detected enb_ue_s1ap_id_key
                                (mme_ue_s1ap_id (ue w2)) REMOVE_NEW_CONTEXT w2
                         else w2)
               in case emm_proc_create_procedure_attach_request i w3 of
                    Inl e \<Rightarrow> Inl e | Inr w4 \<Rightarrow> Inr (Inr (w4, False)))
            else Inr (Inl (RETURNok, w)))
         else Inr (Inr (w, dup))))"

text \<open>
  The end of the function: abnormal case f, the increment of \<^verbatim>\<open>num_attach_request\<close>, the last
  reconciliation of the eNB associations, the creation of a procedure if none runs, and
  the run step.
\<close>

definition emm_proc_attach_request_run ::
  "env_t \<Rightarrow> 64 word \<Rightarrow> emm_attach_request_ies_t \<Rightarrow> bool \<Rightarrow> world_t
     \<Rightarrow> fatal_t + (return_t \<times> world_t)" where
  "emm_proc_attach_request_run env enb_ue_s1ap_id_key i dup w =
    (case (if EMM_REGISTERED = emm_fsm_state (ctx w)
           then emm_proc_create_procedure_attach_request i w else Inr w) of
       Inl e \<Rightarrow> Inl e
     | Inr w1 \<Rightarrow>
        (let w2 = upd_ctx (\<lambda>c. c\<lparr>num_attach_request := num_attach_request c + 1\<rparr>) w1;
             w3 = (if dup
                   then mme_api_duplicate_enb_ue_s1ap_id_detected enb_ue_s1ap_id_key
                          (mme_ue_s1ap_id (ue w2)) REMOVE_OLD_CONTEXT w2
                   else w2)
         in case (if \<not> is_nas_specific_procedure_attach_running (ctx w3)
                  then emm_proc_create_procedure_attach_request i w3 else Inr w3) of
              Inl e \<Rightarrow> Inl e
            | Inr w4 \<Rightarrow> emm_attach_run_procedure env w4))"

text \<open>
  The function on one located context, up to abnormal case e: the reconciliation for an
  initial request, the emergency gate, the aborts of GUTI reallocation (nothing is done)
  and of security mode control, then the two collision blocks. \<open>Inr (Inl (rc, w))\<close> is an
  early return; \<open>Inr (Inr (w, dup))\<close> goes on to the end of the function.
\<close>

definition emm_proc_attach_request_collisions ::
  "env_t \<Rightarrow> 64 word \<Rightarrow> 32 word \<Rightarrow> emm_attach_request_ies_t \<Rightarrow> bool \<Rightarrow> world_t
     \<Rightarrow> fatal_t + ((return_t \<times> world_t) + (world_t \<times> bool))" where
  "emm_proc_attach_request_collisions env enb_ue_s1ap_id_key uid i dup0 w0 =
    (let w = (if dup0 \<and> is_initial i
              then mme_api_duplicate_enb_ue_s1ap_id_detected enb_ue_s1ap_id_key
                     (mme_ue_s1ap_id (ue w0)) REMOVE_NEW_CONTEXT w0
              else w0);
         dup = (dup0 \<and> \<not> is_initial i)
     in if conf_eps_network_feature_support env
             AND EMERGENCY_BEARER_SERVICES_IN_S1_MODE_SUPPORTED env = 0
           \<and> type i = EMM_ATTACH_TYPE_EMERGENCY
        then Inr (Inl (emm_sap_send env
                    (EMMREG EMMREG_ATTACH_REJ
                       \<lparr>reg_ue_id = uid, reg_ctx = Some (mme_ue_s1ap_id (ue w)), notify = False,
                        free_proc = False,
                        reg_proc = PROC_DUMMY EMM_CAUSE_IMEI_NOT_ACCEPTED CB_emm_attach_reject,
                        reg_is_emergency = True, reg_common_proc = None\<rparr>) w))
        else
          (let w1 = (case get_nas_common_procedure_smc (ctx w) of
                       None \<Rightarrow> w
                     | Some smc_proc \<Rightarrow>
                        snd (emm_sap_send env
                               (EMMREG EMMREG_COMMON_PROC_ABORT
                                  \<lparr>reg_ue_id = uid, reg_ctx = Some (mme_ue_s1ap_id (ue w)),
                                   notify = False, free_proc = True, reg_proc = PROC_NULL,
                                   reg_is_emergency = False,
                                   reg_common_proc = Some smc_proc\<rparr>) w))
           in case emm_proc_attach_request_identification env i w1 of
                Inl e \<Rightarrow> Inl e
              | Inr (Inl early) \<Rightarrow> Inr (Inl early)
              | Inr (Inr w2) \<Rightarrow>
                 emm_proc_attach_request_attach env enb_ue_s1ap_id_key uid i dup w2))"

text \<open>The function on one located context: the collisions, then the end of the function.\<close>

definition emm_proc_attach_request_on ::
  "env_t \<Rightarrow> 64 word \<Rightarrow> 32 word \<Rightarrow> emm_attach_request_ies_t \<Rightarrow> bool \<Rightarrow> world_t
     \<Rightarrow> fatal_t + (return_t \<times> world_t)" where
  "emm_proc_attach_request_on env enb_ue_s1ap_id_key uid i dup0 w0 =
    (case emm_proc_attach_request_collisions env enb_ue_s1ap_id_key uid i dup0 w0 of
       Inl e \<Rightarrow> Inl e
     | Inr (Inl early) \<Rightarrow> Inr early
     | Inr (Inr (w3, dup')) \<Rightarrow> emm_proc_attach_request_run env enb_ue_s1ap_id_key i dup' w3)"

text \<open>
  \<^verbatim>\<open>emm_proc_attach_request\<close>: without a context the function stops at its \<^verbatim>\<open>AssertFatal\<close>.
\<close>

definition emm_proc_attach_request ::
  "env_t \<Rightarrow> 64 word \<Rightarrow> 32 word \<Rightarrow> emm_attach_request_ies_t \<Rightarrow> mme_app_desc_t
     \<Rightarrow> fatal_t + (return_t \<times> mme_app_desc_t)" where
  "emm_proc_attach_request env enb_ue_s1ap_id_key uid0 i s =
    (case emm_proc_attach_request_context env enb_ue_s1ap_id_key uid0 i s of
       Inl e \<Rightarrow> Inl e
     | Inr (None, uid, dup) \<Rightarrow> Inl (AssertFatal ''Should not go create a new context here'')
     | Inr (Some (k, w), uid, dup) \<Rightarrow>
        (case emm_proc_attach_request_on env enb_ue_s1ap_id_key uid i dup w of
           Inl e \<Rightarrow> Inl e
         | Inr (rc, w') \<Rightarrow> Inr (rc, leave s k w')))"

section \<open>Properties\<close>

subsection \<open>Auxiliary definitions\<close>

text \<open>
  \<open>frame w w'\<close>: from \<open>w\<close> to \<open>w'\<close> nothing was sent, and the procedures, the request counter,
  the state, the UE identifier and the presence of the GUTI are as they were. \<open>keeps f\<close>:
  the change \<open>f\<close> of an EMM context touches none of these.
\<close>

definition frame :: "world_t \<Rightarrow> world_t \<Rightarrow> bool" where
  "frame w w' \<longleftrightarrow>
     out w' = out w
   \<and> emm_specific_proc (ctx w') = emm_specific_proc (ctx w)
   \<and> emm_common_procs (ctx w') = emm_common_procs (ctx w)
   \<and> num_attach_request (ctx w') = num_attach_request (ctx w)
   \<and> emm_fsm_state (ctx w') = emm_fsm_state (ctx w)
   \<and> mme_ue_s1ap_id (ue w') = mme_ue_s1ap_id (ue w)
   \<and> IS_EMM_CTXT_PRESENT_GUTI (ctx w') = IS_EMM_CTXT_PRESENT_GUTI (ctx w)"

definition keeps :: "(emm_context_t \<Rightarrow> emm_context_t) \<Rightarrow> bool" where
  "keeps f \<longleftrightarrow>
     (\<forall>c. emm_specific_proc (f c) = emm_specific_proc c
        \<and> emm_common_procs (f c) = emm_common_procs c
        \<and> num_attach_request (f c) = num_attach_request c
        \<and> emm_fsm_state (f c) = emm_fsm_state c
        \<and> IS_EMM_CTXT_PRESENT_GUTI (f c) = IS_EMM_CTXT_PRESENT_GUTI c)"

text \<open>
  Concrete inputs: an Attach Request, a collaborator that always succeeds, an EMM context
  without procedures, and the same context with an attach procedure for the request.
\<close>

definition ies0 :: emm_attach_request_ies_t where
  "ies0 = \<lparr>is_initial = True, type = EMM_ATTACH_TYPE_EPS, is_native_sc = True, ksi = 0,
           is_native_guti = True, guti = Some [1], imsi = Some [2], imei = None,
           last_visited_registered_tai = None, originating_tai = Some [3],
           originating_ecgi = Some [4], ue_network_capability = [5],
           ms_network_capability = None, drx_parameter = None, esm_msg = None,
           decode_status = \<lparr>mac_matched = False\<rparr>\<rparr>"

definition env0 :: env_t where
  "env0 = \<lparr>emm_sap_rc = (\<lambda>sap. RETURNok),
           esm_sap_rc = (\<lambda>sap. (RETURNok, 1, None)),
           ESM_SAP_SUCCESS = 1, ESM_SAP_DISCARDED = 2,
           mme_api_new_guti = (\<lambda>i g t. Some ([9], [10])),
           imsi_to_imsi64 = (\<lambda>i. 42),
           emm_proc_identification_rc = (\<lambda>c. RETURNok),
           emm_proc_authentication_rc = (\<lambda>c. RETURNok),
           emm_proc_security_mode_control_rc = (\<lambda>c. RETURNok),
           emm_ctx_get_new_ue_id = (\<lambda>c. 8),
           INVALID_MME_UE_S1AP_ID = 0xFFFFFFFF,
           conf_eps_network_feature_support = 0,
           EMERGENCY_BEARER_SERVICES_IN_S1_MODE_SUPPORTED = 2,
           t3402_min = 12\<rparr>"

definition ctx0 :: emm_context_t where
  "ctx0 = \<lparr>num_attach_request = 0, is_attached = False, is_emergency = False, ctx_ksi = 0,
           ctx_originating_tai = [], ctx_guti = [], ctx_old_guti = [], ctx_imsi = [],
           ctx_imsi64 = 0, ctx_imei = [], ctx_tai_list = [], ctx_ue_network_capability = [],
           ctx_ms_network_capability = [], ctx_drx_parameter = [],
           ctx_security = \<lparr>eksi = 0, encryption = 0, integrity = 0, activated = False\<rparr>,
           ue_radio_capability_information = None, member_present_mask = {},
           member_valid_mask = {}, emm_fsm_state = EMM_DEREGISTERED,
           emm_specific_proc = None, emm_common_procs = []\<rparr>"

definition ue0 :: ue_mm_context_t where
  "ue0 = \<lparr>enb_s1ap_id_key = 1, enb_ue_s1ap_id = 1, mme_ue_s1ap_id = 7, mme_teid_s11 = 0,
          coll_imsi64 = 0, coll_guti = None, emm_context = ctx0\<rparr>"

definition proc0 :: nas_emm_attach_proc_t where
  "proc0 = (new_attach_proc 7 ies0)\<lparr>abort := CB_emm_attach_abort,
                                    time_out := CB_emm_attach_t3450_handler\<rparr>"

text \<open>
  The context once the first Attach Accept has gone out: the GUTI is present, the
  procedure runs with T3450 armed and the given value of \<^verbatim>\<open>attach_accept_sent\<close>.
\<close>

definition ue_accept :: "32 word \<Rightarrow> ue_mm_context_t" where
  "ue_accept n =
    ue0\<lparr>emm_context := ctx0\<lparr>num_attach_request := 1,
            member_present_mask := {EMM_CTXT_MEMBER_GUTI},
            emm_fsm_state := EMM_REGISTERED_INITIATED,
            emm_specific_proc := Some (EMM_SPEC_PROC_TYPE_ATTACH
              (proc0\<lparr>attach_accept_sent := n, T3450 := NAS_TIMER_ACTIVE_ID\<rparr>))\<rparr>\<rparr>"

text \<open>
  The context before the first Attach Accept: the procedure has just been created, no GUTI
  is present. And a collaborator whose GUTI allocation fails.
\<close>

definition ue_first :: ue_mm_context_t where
  "ue_first =
    ue0\<lparr>emm_context := ctx0\<lparr>num_attach_request := 1,
            emm_fsm_state := EMM_REGISTERED_INITIATED,
            emm_specific_proc := Some (EMM_SPEC_PROC_TYPE_ATTACH proc0)\<rparr>\<rparr>"

definition env_no_guti :: env_t where
  "env_no_guti = env0\<lparr>mme_api_new_guti := (\<lambda>i g t. None)\<rparr>"

text \<open>Observers of the calls made: the Attach Accepts, the Attach Rejects and the aborts.\<close>

fun is_attach_accept :: "action_t \<Rightarrow> bool" where
  "is_attach_accept (EMM_SAP_SEND (EMMAS EMMAS_ESTABLISH_CNF est)) = True"
| "is_attach_accept a = False"

fun is_attach_reject :: "action_t \<Rightarrow> bool" where
  "is_attach_reject (EMM_SAP_SEND (EMMAS EMMAS_ESTABLISH_REJ est)) = True"
| "is_attach_reject a = False"

fun is_attach_abort :: "action_t \<Rightarrow> bool" where
  "is_attach_abort (EMM_SAP_SEND (EMMREG EMMREG_ATTACH_ABORT reg)) = True"
| "is_attach_abort a = False"

text \<open>The value of \<^verbatim>\<open>attach_accept_sent\<close> of the running attach procedure, if there is one.\<close>

definition accept_counter :: "world_t \<Rightarrow> 32 word option" where
  "accept_counter w = map_option attach_accept_sent (get_nas_specific_procedure_attach (ctx w))"

text \<open>
  What holds once \<^verbatim>\<open>_emm_send_attach_accept\<close> has handed the Attach Accept \<open>est\<close> for the
  procedure \<open>p\<close> to EMMAS, from the world \<open>w\<close> to the world \<open>w'\<close>: the primitive is sent, T3450
  is stopped and started if the send did not fail, the procedure is the same but for its
  timer, and the GUTI is present.
\<close>

definition accept_composed ::
  "env_t \<Rightarrow> world_t \<Rightarrow> nas_emm_attach_proc_t \<Rightarrow> emm_as_establish_t \<Rightarrow> world_t \<Rightarrow> bool" where
  "accept_composed env w p est w' \<longleftrightarrow>
     as_ue_id est = mme_ue_s1ap_id (ue w) \<and> nas_msg est = esm_msg_out p
   \<and> out w' = out w @ EMM_SAP_SEND (EMMAS EMMAS_ESTABLISH_CNF est)
                # (if emm_sap_rc env (EMMAS EMMAS_ESTABLISH_CNF est) \<noteq> RETURNerror
                   then [NAS_STOP_T3450 (mme_ue_s1ap_id (ue w)),
                         NAS_START_T3450 (ue_id p) (time_out p)]
                   else [])
   \<and> get_nas_specific_procedure_attach (ctx w')
       = Some (if emm_sap_rc env (EMMAS EMMAS_ESTABLISH_CNF est) \<noteq> RETURNerror
               then p\<lparr>T3450 := NAS_TIMER_ACTIVE_ID\<rparr> else p)
   \<and> emm_common_procs (ctx w') = emm_common_procs (ctx w)
   \<and> num_attach_request (ctx w') = num_attach_request (ctx w)
   \<and> emm_fsm_state (ctx w') = emm_fsm_state (ctx w)
   \<and> mme_ue_s1ap_id (ue w') = mme_ue_s1ap_id (ue w)
   \<and> IS_EMM_CTXT_PRESENT_GUTI (ctx w')"

text \<open>
  \<open>n\<close> expiries of T3450 in a row, with nothing received from the UE in between: the handler
  runs \<open>n\<close> times.
\<close>

fun t3450_expiries :: "env_t \<Rightarrow> nat \<Rightarrow> world_t \<Rightarrow> fatal_t + world_t" where
  "t3450_expiries env 0 w = Inr w"
| "t3450_expiries env (Suc n) w =
     (case emm_attach_t3450_handler env w of
        Inl e \<Rightarrow> Inl e
      | Inr w' \<Rightarrow> t3450_expiries env n w')"

text \<open>A layer below that refuses every primitive.\<close>

definition env_fail :: env_t where
  "env_fail = env0\<lparr>emm_sap_rc := (\<lambda>sap. RETURNerror)\<rparr>"

text \<open>The calls that arm T3450.\<close>

fun is_t3450_start :: "action_t \<Rightarrow> bool" where
  "is_t3450_start (NAS_START_T3450 uid cb) = True"
| "is_t3450_start a = False"

text \<open>
  The world once the first Attach Accept of a procedure has gone out: what
  \<^verbatim>\<open>_emm_send_attach_accept\<close> makes of the context with the procedure just created. And the world
  one expiry of T3450 later.
\<close>

definition world_accept_sent :: world_t where
  "world_accept_sent = snd (projr (emm_send_attach_accept env0 \<lparr>ue = ue_first, out = []\<rparr>))"

definition world_retransmitted :: world_t where
  "world_retransmitted = projr (emm_attach_t3450_handler env0 (world_accept_sent\<lparr>out := []\<rparr>))"

subsection \<open>Reading a changed world\<close>

lemmas setters =
  emm_ctx_set_attribute_present_def emm_ctx_set_attribute_valid_def emm_ctx_clear_attribute_def
  emm_ctx_set_guti_def emm_ctx_set_valid_guti_def emm_ctx_clear_guti_def emm_ctx_set_old_guti_def
  emm_ctx_clear_old_guti_def emm_ctx_set_valid_imsi_def emm_ctx_clear_imsi_def
  emm_ctx_set_valid_imei_def emm_ctx_clear_imei_def emm_ctx_set_valid_ue_nw_cap_def
  emm_ctx_set_valid_ms_nw_cap_def emm_ctx_clear_ms_nw_cap_def emm_ctx_set_valid_drx_parameter_def
  emm_ctx_clear_auth_vectors_def emm_ctx_clear_security_def emm_ctx_clear_non_current_security_def

lemma ctx_upd_ctx: "ctx (upd_ctx f w) = f (ctx w)"
  by (simp add: ctx_def upd_ctx_def)

lemma out_upd_ctx: "out (upd_ctx f w) = out w"
  by (simp add: upd_ctx_def)

lemma uid_upd_ctx: "mme_ue_s1ap_id (ue (upd_ctx f w)) = mme_ue_s1ap_id (ue w)"
  by (simp add: upd_ctx_def)

lemma ctx_call: "ctx (call a w) = ctx w"
  by (simp add: ctx_def call_def)

lemma out_call: "out (call a w) = out w @ [a]"
  by (simp add: call_def)

lemma ue_call: "ue (call a w) = ue w"
  by (simp add: call_def)

lemmas world_simps = ctx_upd_ctx out_upd_ctx uid_upd_ctx ctx_call out_call ue_call

lemma get_upd_attach_proc:
  "get_nas_specific_procedure_attach (upd_attach_proc f c)
     = map_option f (get_nas_specific_procedure_attach c)"
  by (simp add: get_nas_specific_procedure_attach_def upd_attach_proc_def
        split: option.splits emm_specific_proc_t.splits)

lemma frame_upd_attach_proc:
  "num_attach_request (upd_attach_proc f c) = num_attach_request c"
  "emm_fsm_state (upd_attach_proc f c) = emm_fsm_state c"
  "emm_common_procs (upd_attach_proc f c) = emm_common_procs c"
  "member_present_mask (upd_attach_proc f c) = member_present_mask c"
  "member_valid_mask (upd_attach_proc f c) = member_valid_mask c"
  "ctx_security (upd_attach_proc f c) = ctx_security c"
  "IS_EMM_CTXT_PRESENT_GUTI (upd_attach_proc f c) = IS_EMM_CTXT_PRESENT_GUTI c"
  by (simp_all add: upd_attach_proc_def IS_EMM_CTXT_PRESENT_GUTI_def
        split: option.splits emm_specific_proc_t.splits)

lemma get_proc_cong:
  "emm_specific_proc c' = emm_specific_proc c
     \<Longrightarrow> get_nas_specific_procedure_attach c' = get_nas_specific_procedure_attach c"
  by (simp add: get_nas_specific_procedure_attach_def)

lemma get_proc_Some:
  "get_nas_specific_procedure_attach c = Some p
     \<longleftrightarrow> emm_specific_proc c = Some (EMM_SPEC_PROC_TYPE_ATTACH p)"
  by (simp add: get_nas_specific_procedure_attach_def
        split: option.splits emm_specific_proc_t.splits)

lemma frame_refl: "frame w w"
  by (simp add: frame_def)

lemma frame_trans: "frame w w1 \<Longrightarrow> frame w1 w2 \<Longrightarrow> frame w w2"
  by (simp add: frame_def)

lemma frame_upd_ctx: "keeps f \<Longrightarrow> frame w (upd_ctx f w)"
  by (simp add: frame_def keeps_def ctx_def upd_ctx_def)

lemma frame_coll_keys:
  "frame w (mme_ue_context_update_coll_keys k (mme_ue_s1ap_id (ue w)) i64 teid g w)"
  by (simp add: frame_def mme_ue_context_update_coll_keys_def ctx_def)

lemma frame_get_proc:
  "frame w w' \<Longrightarrow> get_nas_specific_procedure_attach (ctx w') = get_nas_specific_procedure_attach (ctx w)"
  by (simp add: frame_def get_nas_specific_procedure_attach_def)

lemma keeps_update:
  "keeps (\<lambda>c. c\<lparr>is_emergency := b\<rparr>)"
  "keeps (\<lambda>c. c\<lparr>ctx_ksi := k\<rparr>)"
  "keeps (\<lambda>c. c\<lparr>ctx_originating_tai := t\<rparr>)"
  "keeps (\<lambda>c. c\<lparr>ue_radio_capability_information := r\<rparr>)"
  "keeps (emm_ctx_set_valid_ue_nw_cap v)"
  "keeps (emm_ctx_set_valid_ms_nw_cap v)"
  "keeps emm_ctx_clear_ms_nw_cap"
  "keeps (emm_ctx_set_old_guti g)"
  "keeps (emm_ctx_set_valid_imsi m i64)"
  "keeps (emm_ctx_set_valid_imei e)"
  "keeps (emm_ctx_set_valid_drx_parameter d)"
  "keeps (emm_ctx_set_attribute_valid EMM_CTXT_MEMBER_UE_NETWORK_CAPABILITY_IE)"
  "keeps (emm_ctx_set_attribute_valid EMM_CTXT_MEMBER_MS_NETWORK_CAPABILITY_IE)"
  by (simp_all add: keeps_def setters IS_EMM_CTXT_PRESENT_GUTI_def)

lemma emm_sap_send_EMMAS:
  "emm_sap_send env (EMMAS prim est) w
     = (emm_sap_rc env (EMMAS prim est), call (EMM_SAP_SEND (EMMAS prim est)) w)"
  by (simp add: emm_sap_send_def emm_sap_send_plain_def Let_def)

subsection \<open>Updating the context from the request\<close>

lemma emm_attach_update_None:
  "originating_tai i = None \<Longrightarrow> emm_attach_update env i w = Inl NullPointerDereference"
  by (simp add: emm_attach_update_def Let_def)

lemma emm_attach_update_Some:
  assumes "originating_tai i = Some t"
  shows "\<exists>w'. emm_attach_update env i w = Inr (RETURNok, w') \<and> frame w w'"
proof -
  define w1 where "w1 = upd_ctx (\<lambda>c. c\<lparr>is_emergency := (type i = EMM_ATTACH_TYPE_EMERGENCY)\<rparr>) w"
  define w2 where "w2 = (if ctx_ksi (ctx w1) \<noteq> ksi i then upd_ctx (\<lambda>c. c\<lparr>ctx_ksi := ksi i\<rparr>) w1 else w1)"
  define w3 where "w3 = upd_ctx (emm_ctx_set_valid_ue_nw_cap (ue_network_capability i)) w2"
  define w4 where "w4 = (case ms_network_capability i of
                 Some m \<Rightarrow> upd_ctx (emm_ctx_set_valid_ms_nw_cap m) w3
               | None \<Rightarrow> upd_ctx emm_ctx_clear_ms_nw_cap w3)"
  define w5 where "w5 = upd_ctx (\<lambda>c. c\<lparr>ctx_originating_tai := t\<rparr>) w4"
  define w6 where "w6 = (case guti i of
                        None \<Rightarrow> w5
                      | Some g \<Rightarrow>
                         (if memcmp g (ctx_old_guti (ctx w5))
                          then (let w' = upd_ctx (emm_ctx_set_old_guti g) w5
                                in mme_ue_context_update_coll_keys
                                     (enb_s1ap_id_key (ue w')) (mme_ue_s1ap_id (ue w'))
                                     (ctx_imsi64 (ctx w')) (mme_teid_s11 (ue w'))
                                     (Some (ctx_old_guti (ctx w'))) w')
                          else w5))"
  define w7 where "w7 = (case imsi i of
                        None \<Rightarrow> w6
                      | Some m \<Rightarrow>
                         (let new_imsi64 = imsi_to_imsi64 env m
                          in if new_imsi64 \<noteq> ctx_imsi64 (ctx w6)
                             then (let w' = upd_ctx (emm_ctx_set_valid_imsi m new_imsi64) w6
                                   in mme_ue_context_update_coll_keys
                                        (enb_s1ap_id_key (ue w')) (mme_ue_s1ap_id (ue w'))
                                        (ctx_imsi64 (ctx w')) (mme_teid_s11 (ue w')) None w')
                             else w6))"
  define w8 where "w8 = (case imei i of
                        None \<Rightarrow> w7
                      | Some e \<Rightarrow> upd_ctx (emm_ctx_set_valid_imei e) w7)"
  have eq: "emm_attach_update env i w = Inr (RETURNok, w8)"
    unfolding emm_attach_update_def w8_def w7_def w6_def w5_def w4_def w3_def w2_def w1_def
      Let_def assms option.case
    by (rule refl)
  have f1: "frame w w1" unfolding w1_def by (rule frame_upd_ctx) (rule keeps_update)
  have f2: "frame w1 w2" unfolding w2_def
    by (simp add: frame_refl frame_upd_ctx keeps_update)
  have f3: "frame w2 w3" unfolding w3_def by (rule frame_upd_ctx) (rule keeps_update)
  have f4: "frame w3 w4" unfolding w4_def
    by (simp add: frame_upd_ctx keeps_update split: option.splits)
  have f5: "frame w4 w5" unfolding w5_def by (rule frame_upd_ctx) (rule keeps_update)
  have f6: "frame w5 w6" unfolding w6_def Let_def
    by (auto simp: frame_refl split: option.splits
          intro: frame_trans [OF frame_upd_ctx frame_coll_keys] keeps_update)
  have f7: "frame w6 w7" unfolding w7_def Let_def
    by (auto simp: frame_refl split: option.splits
          intro: frame_trans [OF frame_upd_ctx frame_coll_keys] keeps_update)
  have f8: "frame w7 w8" unfolding w8_def
    by (simp add: frame_refl frame_upd_ctx keeps_update split: option.splits)
  from f1 f2 f3 f4 f5 f6 f7 f8 have "frame w w8"
    by (blast intro: frame_trans)
  with eq show ?thesis by blast
qed

subsection \<open>The IE-change predicate\<close>

lemma if_True_disj: "(if P then True else Q) = (P \<or> Q)"
  by simp

lemma option_differs:
  "((a \<noteq> None \<and> b = None) \<or> (a = None \<and> b \<noteq> None)
      \<or> (a \<noteq> None \<and> b \<noteq> None \<and> the a \<noteq> the b) \<or> Q) = (a \<noteq> b \<or> Q)"
  by (cases a; cases b; simp)

lemma option_presence_differs:
  "((a \<noteq> None \<and> b = None) \<or> (a = None \<and> b \<noteq> None) \<or> Q) = ((a = None) \<noteq> (b = None) \<or> Q)"
  by (cases a; cases b; simp)

text \<open>
  What the predicate decides: every listed field is compared, the IMSI by its presence
  only. The ESM message, the DRX parameter, \<^verbatim>\<open>is_initial\<close> and the decode status are not read.
\<close>

lemma emm_attach_ies_have_changed_iff:
  "emm_attach_ies_have_changed a b \<longleftrightarrow>
   (type a \<noteq> type b \<or> is_native_sc a \<noteq> is_native_sc b \<or> ksi a \<noteq> ksi b
    \<or> is_native_guti a \<noteq> is_native_guti b \<or> guti a \<noteq> guti b
    \<or> (imsi a = None) \<noteq> (imsi b = None) \<or> imei a \<noteq> imei b
    \<or> last_visited_registered_tai a \<noteq> last_visited_registered_tai b
    \<or> originating_tai a \<noteq> originating_tai b \<or> originating_ecgi a \<noteq> originating_ecgi b
    \<or> ue_network_capability a \<noteq> ue_network_capability b
    \<or> ms_network_capability a \<noteq> ms_network_capability b)"
  unfolding emm_attach_ies_have_changed_def memcmp_def if_True_disj if_False
  apply (simp only: option_differs)
  apply (simp only: option_presence_differs)
  apply auto
  done

lemma emm_attach_ies_have_changed_refl: "\<not> emm_attach_ies_have_changed a a"
  by (simp add: emm_attach_ies_have_changed_iff)

text \<open>
  Claim C5. The predicate should answer "changed" exactly when one of the listed fields
  differs, the IMSI by presence and by value. It does not for the IMSI value: the third
  test of the IMSI block compares the GUTIs again. Here the two snapshots both carry an
  IMSI, the IMSIs differ, every other field is equal, and the answer is "not changed".
\<close>

theorem emm_attach_ies_have_changed_misses_imsi_value:
  "imsi ies0 = Some [2] \<and> imsi (ies0\<lparr>imsi := Some [9]\<rparr>) = Some [9]
   \<and> \<not> emm_attach_ies_have_changed (ies0\<lparr>imsi := Some [9]\<rparr>) ies0"
  by (simp add: emm_attach_ies_have_changed_iff ies0_def)

subsection \<open>Expiry of T3450 without an attach procedure\<close>

text \<open>
  Claim C9. If no attach procedure runs on the context, the T3450 handler does nothing: it
  returns, nothing is sent, no counter moves and the context is as before.
\<close>

theorem emm_attach_t3450_handler_without_attach:
  "\<not> is_nas_specific_procedure_attach_running (ctx w) \<Longrightarrow> emm_attach_t3450_handler env w = Inr w"
  by (simp add: emm_attach_t3450_handler_def is_nas_specific_procedure_attach_running_def)

theorem emm_attach_t3450_handler_without_attach_witness:
  "\<not> is_nas_specific_procedure_attach_running (ctx \<lparr>ue = ue0, out = []\<rparr>)
   \<and> emm_attach_t3450_handler env0 \<lparr>ue = ue0, out = []\<rparr> = Inr \<lparr>ue = ue0, out = []\<rparr>"
proof -
  have h: "\<not> is_nas_specific_procedure_attach_running (ctx \<lparr>ue = ue0, out = []\<rparr>)"
    by (simp add: is_nas_specific_procedure_attach_running_def
          get_nas_specific_procedure_attach_def ctx_def ue0_def ctx0_def)
  show ?thesis
    using h emm_attach_t3450_handler_without_attach [OF h, of env0] by simp
qed

subsection \<open>Composing the Attach Accept\<close>

lemma emm_send_attach_accept_None:
  "get_nas_specific_procedure_attach (ctx w) = None \<Longrightarrow> emm_send_attach_accept env w = Inr (RETURNerror, w)"
  by (simp add: emm_send_attach_accept_def)

lemma emm_send_attach_accept_no_tai:
  "get_nas_specific_procedure_attach (ctx w) = Some p \<Longrightarrow> originating_tai (ies p) = None
     \<Longrightarrow> emm_send_attach_accept env w = Inl NullPointerDereference"
  by (simp add: emm_send_attach_accept_def emm_attach_update_None)

text \<open>The outcome of composing an Attach Accept for a running procedure.\<close>

lemma emm_send_attach_accept_Some:
  assumes p: "get_nas_specific_procedure_attach (ctx w) = Some p"
      and t: "originating_tai (ies p) = Some t"
  shows "\<exists>w5. frame w w5 \<and>
     (if \<not> IS_EMM_CTXT_PRESENT_GUTI (ctx w) \<and>
           mme_api_new_guti env (ctx_imsi (ctx w5)) (ctx_old_guti (ctx w5))
             (ctx_originating_tai (ctx w5)) = None
      then emm_send_attach_accept env w = Inr (RETURNerror, w5)
      else (\<exists>est w'. emm_send_attach_accept env w
                        = Inr (emm_sap_rc env (EMMAS EMMAS_ESTABLISH_CNF est), w')
              \<and> accept_composed env w p est w'))"
proof -
  obtain w1 where u: "emm_attach_update env (ies p) w = Inr (RETURNok, w1)" and f1: "frame w w1"
    using emm_attach_update_Some [OF t] by blast
  define w2 where "w2 = upd_ctx (\<lambda>c. c\<lparr>ue_radio_capability_information := None\<rparr>) w1"
  define w3 where "w3 = upd_ctx (emm_ctx_set_attribute_valid EMM_CTXT_MEMBER_UE_NETWORK_CAPABILITY_IE) w2"
  define w4 where "w4 = upd_ctx (emm_ctx_set_attribute_valid EMM_CTXT_MEMBER_MS_NETWORK_CAPABILITY_IE) w3"
  define w5 where "w5 = (case drx_parameter (ies p) of
                         None \<Rightarrow> w4
                       | Some d \<Rightarrow> upd_ctx (emm_ctx_set_valid_drx_parameter d) w4)"
  have f2: "frame w1 w2" unfolding w2_def by (rule frame_upd_ctx) (rule keeps_update)
  have f3: "frame w2 w3" unfolding w3_def by (rule frame_upd_ctx) (rule keeps_update)
  have f4: "frame w3 w4" unfolding w4_def by (rule frame_upd_ctx) (rule keeps_update)
  have f5: "frame w4 w5" unfolding w5_def
    by (simp add: frame_refl frame_upd_ctx keeps_update split: option.splits)
  have f: "frame w w5" using f1 f2 f3 f4 f5 by (blast intro: frame_trans)
  have p5: "get_nas_specific_procedure_attach (ctx w5) = Some p"
    using frame_get_proc [OF f] p by simp
  have uid1: "mme_ue_s1ap_id (ue w1) = mme_ue_s1ap_id (ue w)" using f1 by (simp add: frame_def)
  define alloc where "alloc =
                   (if \<not> IS_EMM_CTXT_PRESENT_GUTI (ctx w5)
                    then (case mme_api_new_guti env (ctx_imsi (ctx w5)) (ctx_old_guti (ctx w5))
                                 (ctx_originating_tai (ctx w5)) of
                            Some (g, tais) \<Rightarrow>
                              Some (upd_ctx (\<lambda>c. emm_ctx_set_attribute_valid EMM_CTXT_MEMBER_TAI_LIST
                                                   (emm_ctx_set_guti g (c\<lparr>ctx_tai_list := tais\<rparr>))) w5,
                                    Some tais)
                          | None \<Rightarrow> None)
                    else Some (w5, None))"
  have unfold: "emm_send_attach_accept env w =
      (case alloc of
                  None \<Rightarrow> Inr (RETURNerror, w5)
                | Some (w6, tais) \<Rightarrow>
                   (let c = ctx w6;
                        establish =
                          \<lparr>as_ue_id = mme_ue_s1ap_id (ue w1),
                           eps_id_guti = Some (ctx_guti c),
                           new_guti =
                             (if \<not> IS_EMM_CTXT_VALID_GUTI c \<and> IS_EMM_CTXT_PRESENT_GUTI c
                                 \<and> IS_EMM_CTXT_PRESENT_OLD_GUTI c then Some (ctx_guti c)
                              else if \<not> IS_EMM_CTXT_VALID_GUTI c \<and> IS_EMM_CTXT_PRESENT_GUTI c
                              then Some (ctx_guti c)
                              else None),
                           as_emm_cause = EMM_CAUSE_SUCCESS,
                           nas_msg = esm_msg_out p,
                           as_tai_list = tais,
                           eps_network_feature_support = Some (conf_eps_network_feature_support env),
                           sctx = ctx_security c,
                           as_encryption = encryption (ctx_security c),
                           as_integrity = integrity (ctx_security c),
                           t3402 = Some (t3402_min env)\<rparr>;
                        (rc, w7) = emm_sap_send env (EMMAS EMMAS_ESTABLISH_CNF establish) w6
                    in if RETURNerror \<noteq> rc
                       then Inr (rc, nas_start_T3450 (ue_id p) (time_out p)
                                       (nas_stop_T3450 (mme_ue_s1ap_id (ue w1)) w7))
                       else Inr (rc, w7)))"
    unfolding emm_send_attach_accept_def alloc_def w5_def w4_def w3_def w2_def
      p u option.case sum.case prod.case Let_def
    by (rule refl)
  show ?thesis
  proof (cases alloc)
    case None
    then have "\<not> IS_EMM_CTXT_PRESENT_GUTI (ctx w) \<and>
           mme_api_new_guti env (ctx_imsi (ctx w5)) (ctx_old_guti (ctx w5))
             (ctx_originating_tai (ctx w5)) = None"
      using f by (auto simp: alloc_def frame_def split: if_splits option.splits)
    moreover have "emm_send_attach_accept env w = Inr (RETURNerror, w5)"
      using None unfold by simp
    ultimately show ?thesis using f
      by (intro exI [of _ w5] conjI) (simp_all only: if_True simp_thms)
  next
    case (Some a)
    obtain w6 tais where a: "a = (w6, tais)" by (cases a)
    have not_fail: "\<not> (\<not> IS_EMM_CTXT_PRESENT_GUTI (ctx w) \<and>
           mme_api_new_guti env (ctx_imsi (ctx w5)) (ctx_old_guti (ctx w5))
             (ctx_originating_tai (ctx w5)) = None)"
      using Some f by (auto simp: alloc_def frame_def split: if_splits option.splits)
    have w6: "out w6 = out w5 \<and> emm_specific_proc (ctx w6) = emm_specific_proc (ctx w5)
        \<and> emm_common_procs (ctx w6) = emm_common_procs (ctx w5)
        \<and> num_attach_request (ctx w6) = num_attach_request (ctx w5)
        \<and> emm_fsm_state (ctx w6) = emm_fsm_state (ctx w5)
        \<and> mme_ue_s1ap_id (ue w6) = mme_ue_s1ap_id (ue w5)
        \<and> IS_EMM_CTXT_PRESENT_GUTI (ctx w6)"
      using Some a
      by (auto simp: alloc_def world_simps setters IS_EMM_CTXT_PRESENT_GUTI_def
            split: if_splits option.splits)
    define est where "est =
                          \<lparr>as_ue_id = mme_ue_s1ap_id (ue w1),
                           eps_id_guti = Some (ctx_guti (ctx w6)),
                           new_guti =
                             (if \<not> IS_EMM_CTXT_VALID_GUTI (ctx w6) \<and> IS_EMM_CTXT_PRESENT_GUTI (ctx w6)
                                 \<and> IS_EMM_CTXT_PRESENT_OLD_GUTI (ctx w6) then Some (ctx_guti (ctx w6))
                              else if \<not> IS_EMM_CTXT_VALID_GUTI (ctx w6) \<and> IS_EMM_CTXT_PRESENT_GUTI (ctx w6)
                              then Some (ctx_guti (ctx w6))
                              else None),
                           as_emm_cause = EMM_CAUSE_SUCCESS,
                           nas_msg = esm_msg_out p,
                           as_tai_list = tais,
                           eps_network_feature_support = Some (conf_eps_network_feature_support env),
                           sctx = ctx_security (ctx w6),
                           as_encryption = encryption (ctx_security (ctx w6)),
                           as_integrity = integrity (ctx_security (ctx w6)),
                           t3402 = Some (t3402_min env)\<rparr>"
    define sap where "sap = EMMAS EMMAS_ESTABLISH_CNF est"
    define w7 where "w7 = call (EMM_SAP_SEND sap) w6"
    define w' where "w' = (if RETURNerror \<noteq> emm_sap_rc env sap
                           then nas_start_T3450 (ue_id p) (time_out p)
                                  (nas_stop_T3450 (mme_ue_s1ap_id (ue w1)) w7)
                           else w7)"
    have res: "emm_send_attach_accept env w = Inr (emm_sap_rc env sap, w')"
      unfolding unfold Some a option.case prod.case Let_def emm_sap_send_EMMAS
        w'_def w7_def sap_def est_def
      by simp
    have p6: "get_nas_specific_procedure_attach (ctx w6) = Some p"
      using w6 p5 by (simp add: get_nas_specific_procedure_attach_def)
    have fields: "as_ue_id est = mme_ue_s1ap_id (ue w) \<and> nas_msg est = esm_msg_out p"
      by (simp add: est_def uid1)
    have w5w: "out w5 = out w \<and> emm_common_procs (ctx w5) = emm_common_procs (ctx w)
        \<and> num_attach_request (ctx w5) = num_attach_request (ctx w)
        \<and> emm_fsm_state (ctx w5) = emm_fsm_state (ctx w)
        \<and> mme_ue_s1ap_id (ue w5) = mme_ue_s1ap_id (ue w)"
      using f by (simp add: frame_def)
    have post: "out w' = out w @ EMM_SAP_SEND sap
                           # (if emm_sap_rc env sap \<noteq> RETURNerror
                              then [NAS_STOP_T3450 (mme_ue_s1ap_id (ue w)),
                                    NAS_START_T3450 (ue_id p) (time_out p)]
                              else [])
              \<and> get_nas_specific_procedure_attach (ctx w')
                  = Some (if emm_sap_rc env sap \<noteq> RETURNerror
                          then p\<lparr>T3450 := NAS_TIMER_ACTIVE_ID\<rparr> else p)
              \<and> emm_common_procs (ctx w') = emm_common_procs (ctx w)
              \<and> num_attach_request (ctx w') = num_attach_request (ctx w)
              \<and> emm_fsm_state (ctx w') = emm_fsm_state (ctx w)
              \<and> mme_ue_s1ap_id (ue w') = mme_ue_s1ap_id (ue w)
              \<and> IS_EMM_CTXT_PRESENT_GUTI (ctx w')"
      using w6 p6 w5w uid1
      by (auto simp: w'_def w7_def nas_start_T3450_def nas_stop_T3450_def world_simps
            get_upd_attach_proc frame_upd_attach_proc)
    have "accept_composed env w p est w'"
      unfolding accept_composed_def using fields post unfolding sap_def by simp
    with res have "\<exists>est w'. emm_send_attach_accept env w
                        = Inr (emm_sap_rc env (EMMAS EMMAS_ESTABLISH_CNF est), w')
              \<and> accept_composed env w p est w'"
      unfolding sap_def by blast
    with f not_fail show ?thesis
      by (intro exI [of _ w5] conjI) (simp_all only: if_False)
  qed
qed

lemmas model_defs =
  emm_send_attach_accept_def emm_attach_update_def get_nas_specific_procedure_attach_def
  ctx_def upd_ctx_def call_def upd_attach_proc_def setters
  IS_EMM_CTXT_PRESENT_GUTI_def IS_EMM_CTXT_VALID_GUTI_def IS_EMM_CTXT_PRESENT_OLD_GUTI_def
  mme_ue_context_update_coll_keys_def emm_sap_send_def emm_sap_send_plain_def
  nas_stop_T3450_def nas_start_T3450_def memcmp_def accept_counter_def

lemmas fixture_defs =
  ies0_def env0_def ctx0_def ue0_def proc0_def ue_accept_def ue_first_def env_no_guti_def
  new_attach_proc_def

lemma emm_send_attach_accept_cases:
  assumes p: "get_nas_specific_procedure_attach (ctx w) = Some p"
      and t: "originating_tai (ies p) = Some t"
  obtains (fail) w5 where "frame w w5" "\<not> IS_EMM_CTXT_PRESENT_GUTI (ctx w)"
            "mme_api_new_guti env (ctx_imsi (ctx w5)) (ctx_old_guti (ctx w5))
               (ctx_originating_tai (ctx w5)) = None"
            "emm_send_attach_accept env w = Inr (RETURNerror, w5)"
        | (sent) w5 est w' where "frame w w5"
            "IS_EMM_CTXT_PRESENT_GUTI (ctx w) \<or>
             mme_api_new_guti env (ctx_imsi (ctx w5)) (ctx_old_guti (ctx w5))
               (ctx_originating_tai (ctx w5)) \<noteq> None"
            "emm_send_attach_accept env w
               = Inr (emm_sap_rc env (EMMAS EMMAS_ESTABLISH_CNF est), w')"
            "accept_composed env w p est w'"
proof -
  from emm_send_attach_accept_Some [OF p t, of env]
  obtain w5 where f: "frame w w5" and
    c: "if \<not> IS_EMM_CTXT_PRESENT_GUTI (ctx w) \<and>
           mme_api_new_guti env (ctx_imsi (ctx w5)) (ctx_old_guti (ctx w5))
             (ctx_originating_tai (ctx w5)) = None
      then emm_send_attach_accept env w = Inr (RETURNerror, w5)
      else (\<exists>est w'. emm_send_attach_accept env w
                        = Inr (emm_sap_rc env (EMMAS EMMAS_ESTABLISH_CNF est), w')
              \<and> accept_composed env w p est w')"
    by (elim exE conjE)
  show thesis
  proof (cases "\<not> IS_EMM_CTXT_PRESENT_GUTI (ctx w) \<and>
           mme_api_new_guti env (ctx_imsi (ctx w5)) (ctx_old_guti (ctx w5))
             (ctx_originating_tai (ctx w5)) = None")
    case True
    with c have "emm_send_attach_accept env w = Inr (RETURNerror, w5)"
      by (simp split: if_splits)
    with True f show thesis by (intro fail [of w5]) simp_all
  next
    case False
    with c have "\<exists>est w'. emm_send_attach_accept env w
                        = Inr (emm_sap_rc env (EMMAS EMMAS_ESTABLISH_CNF est), w')
              \<and> accept_composed env w p est w'"
      by (simp split: if_splits)
    then obtain est w' where "emm_send_attach_accept env w
                        = Inr (emm_sap_rc env (EMMAS EMMAS_ESTABLISH_CNF est), w')"
              "accept_composed env w p est w'"
      by (elim exE conjE)
    with False f show thesis by (intro sent [of w5 est w']) auto
  qed
qed

lemma emm_send_attach_accept_counter:
  assumes r: "emm_send_attach_accept env w = Inr (rc, w')"
  shows "accept_counter w' = accept_counter w"
proof (cases "get_nas_specific_procedure_attach (ctx w)")
  case None
  then show ?thesis using r by (simp add: emm_send_attach_accept_None)
next
  case p: (Some p)
  show ?thesis
  proof (cases "originating_tai (ies p)")
    case None
    then show ?thesis using r p by (simp add: emm_send_attach_accept_no_tai)
  next
    case (Some t)
    from p Some show ?thesis
    proof (cases rule: emm_send_attach_accept_cases [where env = env])
      case (fail w5)
      with r have "w' = w5" by simp
      with fail(1) show ?thesis
        by (simp add: accept_counter_def frame_get_proc)
    next
      case (sent w5 est w2)
      with r have "w' = w2" by simp
      with sent(4) p show ?thesis
        by (simp add: accept_counter_def accept_composed_def)
    qed
  qed
qed

lemma emm_attach_t3450_handler_counter:
  assumes p: "get_nas_specific_procedure_attach (ctx w) = Some p"
      and lt: "sint (attach_accept_sent p + 1) < ATTACH_COUNTER_MAX"
      and r: "emm_attach_t3450_handler env w = Inr w'"
  shows "accept_counter w' = Some (attach_accept_sent p + 1)"
proof -
  define w1 where "w1 = upd_ctx (upd_attach_proc (\<lambda>q. p\<lparr>T3450 := NAS_TIMER_INACTIVE_ID,
                              attach_accept_sent := attach_accept_sent p + 1\<rparr>)) w"
  have c1: "accept_counter w1 = Some (attach_accept_sent p + 1)"
    using p by (simp add: w1_def accept_counter_def world_simps get_upd_attach_proc)
  have "emm_attach_t3450_handler env w =
          (case emm_send_attach_accept env w1 of Inl e \<Rightarrow> Inl e | Inr (rc, w2) \<Rightarrow> Inr w2)"
    using p lt by (simp add: emm_attach_t3450_handler_def Let_def w1_def)
  with r obtain rc where "emm_send_attach_accept env w1 = Inr (rc, w')"
    by (auto split: sum.splits)
  from emm_send_attach_accept_counter [OF this] c1 show ?thesis by simp
qed

text \<open>
  Claim C3 says that every emission of an Attach Accept by \<^verbatim>\<open>_emm_send_attach_accept\<close> increments
  \<^verbatim>\<open>attach_accept_sent\<close>. It does not: at the first emission below an Accept goes out and the
  counter stays 0.
\<close>

theorem emm_send_attach_accept_leaves_counter:
  "\<not> isl (emm_send_attach_accept env0 \<lparr>ue = ue_first, out = []\<rparr>)
   \<and> fst (projr (emm_send_attach_accept env0 \<lparr>ue = ue_first, out = []\<rparr>)) = RETURNok
   \<and> length (filter is_attach_accept
        (out (snd (projr (emm_send_attach_accept env0 \<lparr>ue = ue_first, out = []\<rparr>))))) = 1
   \<and> accept_counter \<lparr>ue = ue_first, out = []\<rparr> = Some 0
   \<and> accept_counter (snd (projr (emm_send_attach_accept env0 \<lparr>ue = ue_first, out = []\<rparr>)))
       \<noteq> Some (0 + 1)"
  by (simp add: model_defs fixture_defs Let_def)

text \<open>
  Claim C3 as amended: \<^verbatim>\<open>_emm_send_attach_accept\<close> never changes \<^verbatim>\<open>attach_accept_sent\<close>; the counter
  is incremented by one by the T3450 handler, at each expiry that leads to a
  retransmission.
\<close>

theorem attach_accept_sent_counts_expiries:
  "(emm_send_attach_accept env w = Inr (rc, w') \<longrightarrow> accept_counter w' = accept_counter w)
   \<and> (get_nas_specific_procedure_attach (ctx w) = Some p
       \<and> sint (attach_accept_sent p + 1) < ATTACH_COUNTER_MAX
       \<and> emm_attach_t3450_handler env w = Inr w''
      \<longrightarrow> accept_counter w'' = Some (attach_accept_sent p + 1))"
  using emm_send_attach_accept_counter emm_attach_t3450_handler_counter by blast

theorem attach_accept_sent_counts_expiries_witness:
  "accept_counter (snd (projr (emm_send_attach_accept env0 \<lparr>ue = ue_accept 0, out = []\<rparr>)))
     = accept_counter \<lparr>ue = ue_accept 0, out = []\<rparr>
   \<and> accept_counter (projr (emm_attach_t3450_handler env0 \<lparr>ue = ue_accept 0, out = []\<rparr>))
     = Some 1"
proof -
  let ?w = "\<lparr>ue = ue_accept 0, out = []\<rparr>"
  let ?p = "proc0\<lparr>attach_accept_sent := 0, T3450 := NAS_TIMER_ACTIVE_ID\<rparr>"
  have a: "emm_send_attach_accept env0 ?w
     = Inr (fst (projr (emm_send_attach_accept env0 ?w)), snd (projr (emm_send_attach_accept env0 ?w)))"
    by (simp add: model_defs fixture_defs Let_def)
  have b: "get_nas_specific_procedure_attach (ctx ?w) = Some ?p"
    by (simp add: model_defs fixture_defs)
  have c: "sint (attach_accept_sent ?p + 1) < ATTACH_COUNTER_MAX"
    by (simp add: ATTACH_COUNTER_MAX_def)
  have d: "emm_attach_t3450_handler env0 ?w = Inr (projr (emm_attach_t3450_handler env0 ?w))"
    by (simp add: emm_attach_t3450_handler_def ATTACH_COUNTER_MAX_def model_defs fixture_defs Let_def)
  have e: "accept_counter (snd (projr (emm_send_attach_accept env0 ?w))) = accept_counter ?w"
    using attach_accept_sent_counts_expiries
      [of env0 ?w "fst (projr (emm_send_attach_accept env0 ?w))"
        "snd (projr (emm_send_attach_accept env0 ?w))" ?p
        "projr (emm_attach_t3450_handler env0 ?w)"] a
    by blast
  have f: "accept_counter (projr (emm_attach_t3450_handler env0 ?w)) = Some (attach_accept_sent ?p + 1)"
    using attach_accept_sent_counts_expiries
      [of env0 ?w "fst (projr (emm_send_attach_accept env0 ?w))"
        "snd (projr (emm_send_attach_accept env0 ?w))" ?p
        "projr (emm_attach_t3450_handler env0 ?w)"] b c d
    by blast
  from e f show ?thesis by simp
qed

subsection \<open>Failure of the GUTI allocation\<close>

lemma emm_attach_reject_PROC_ATTACH:
  assumes "emm_cause q \<noteq> EMM_CAUSE_SUCCESS" "emm_cause q \<noteq> EMM_CAUSE_ESM_FAILURE"
  shows "\<exists>est. emm_attach_reject env (PROC_ATTACH q) w
           = Inr (emm_sap_rc env (EMMAS EMMAS_ESTABLISH_REJ est),
                  call (EMM_SAP_SEND (EMMAS EMMAS_ESTABLISH_REJ est)) w)
         \<and> as_emm_cause est = emm_cause q \<and> as_ue_id est = ue_id q \<and> nas_msg est = None"
  using assms
  by (intro exI [of _ "\<lparr>as_ue_id = ue_id q, eps_id_guti = None, new_guti = None,
                       as_emm_cause = emm_cause q, nas_msg = None, as_tai_list = None,
                       eps_network_feature_support = None, sctx = ctx_security (ctx w),
                       as_encryption = 0, as_integrity = 0, t3402 = None\<rparr>"])
     (simp add: emm_attach_reject_def Let_def emm_sap_send_EMMAS)

lemma emm_send_attach_accept_guti_failure:
  assumes p: "get_nas_specific_procedure_attach (ctx w) = Some p"
      and t: "originating_tai (ies p) = Some t"
      and ng: "\<not> IS_EMM_CTXT_PRESENT_GUTI (ctx w)"
      and fail: "\<forall>i g t. mme_api_new_guti env i g t = None"
  shows "\<exists>w'. emm_send_attach_accept env w = Inr (RETURNerror, w') \<and> frame w w'"
  using p t
proof (cases rule: emm_send_attach_accept_cases [where env = env])
  case (fail w5)
  then show ?thesis by blast
next
  case (sent w5 est w')
  with ng fail show ?thesis by simp
qed

lemma emm_attach_guti_failure:
  assumes p: "get_nas_specific_procedure_attach (ctx w) = Some p"
      and t: "originating_tai (ies p) = Some t"
      and ng: "\<not> IS_EMM_CTXT_PRESENT_GUTI (ctx w)"
      and fail: "\<forall>i g t. mme_api_new_guti env i g t = None"
      and no_esm: "esm_msg (ies p) = None"
  shows "\<exists>est w''. emm_attach env w = Inr (emm_sap_rc env (EMMAS EMMAS_ESTABLISH_REJ est), w'')
           \<and> as_emm_cause est = EMM_CAUSE_PROTOCOL_ERROR
           \<and> out w'' = out w @ [EMM_SAP_SEND (EMMAS EMMAS_ESTABLISH_REJ est)]
           \<and> get_nas_specific_procedure_attach (ctx w'')
               = Some (p\<lparr>emm_cause := EMM_CAUSE_PROTOCOL_ERROR\<rparr>)"
proof -
  obtain w' where s: "emm_send_attach_accept env w = Inr (RETURNerror, w')" and f: "frame w w'"
    using emm_send_attach_accept_guti_failure [OF p t ng fail] by blast
  define w4 where "w4 = upd_ctx (upd_attach_proc (\<lambda>q. q\<lparr>emm_cause := EMM_CAUSE_PROTOCOL_ERROR\<rparr>)) w'"
  have p': "get_nas_specific_procedure_attach (ctx w') = Some p"
    using frame_get_proc [OF f] p by simp
  have p4: "get_nas_specific_procedure_attach (ctx w4) = Some (p\<lparr>emm_cause := EMM_CAUSE_PROTOCOL_ERROR\<rparr>)"
    using p' by (simp add: w4_def world_simps get_upd_attach_proc)
  have eq: "emm_attach env w = emm_attach_reject env (PROC_ATTACH (p\<lparr>emm_cause := EMM_CAUSE_PROTOCOL_ERROR\<rparr>)) w4"
    using p no_esm s p4 by (simp add: emm_attach_def Let_def attach_proc_ptr_def w4_def)
  obtain est where r: "emm_attach_reject env (PROC_ATTACH (p\<lparr>emm_cause := EMM_CAUSE_PROTOCOL_ERROR\<rparr>)) w4
           = Inr (emm_sap_rc env (EMMAS EMMAS_ESTABLISH_REJ est),
                  call (EMM_SAP_SEND (EMMAS EMMAS_ESTABLISH_REJ est)) w4)"
         and c: "as_emm_cause est = EMM_CAUSE_PROTOCOL_ERROR"
    using emm_attach_reject_PROC_ATTACH
      [of "p\<lparr>emm_cause := EMM_CAUSE_PROTOCOL_ERROR\<rparr>" env w4] by auto
  have "out (call (EMM_SAP_SEND (EMMAS EMMAS_ESTABLISH_REJ est)) w4)
          = out w @ [EMM_SAP_SEND (EMMAS EMMAS_ESTABLISH_REJ est)]"
    using f by (simp add: w4_def world_simps frame_def)
  moreover have "get_nas_specific_procedure_attach
                   (ctx (call (EMM_SAP_SEND (EMMAS EMMAS_ESTABLISH_REJ est)) w4))
                  = Some (p\<lparr>emm_cause := EMM_CAUSE_PROTOCOL_ERROR\<rparr>)"
    using p4 by (simp add: world_simps)
  ultimately show ?thesis using eq r c by auto
qed

text \<open>
  Claim C8 says that a failed GUTI allocation ends in an Attach Reject and a destroyed
  context. In \<^verbatim>\<open>_emm_send_attach_accept\<close> it ends in \<^verbatim>\<open>RETURNerror\<close> and nothing else: here no
  message at all is sent, and the context still holds its procedure.
\<close>

theorem guti_allocation_failure_is_silent:
  "\<not> isl (emm_send_attach_accept env_no_guti \<lparr>ue = ue_first, out = []\<rparr>)
   \<and> fst (projr (emm_send_attach_accept env_no_guti \<lparr>ue = ue_first, out = []\<rparr>)) = RETURNerror
   \<and> out (snd (projr (emm_send_attach_accept env_no_guti \<lparr>ue = ue_first, out = []\<rparr>))) = []
   \<and> get_nas_specific_procedure_attach
       (ctx (snd (projr (emm_send_attach_accept env_no_guti \<lparr>ue = ue_first, out = []\<rparr>))))
       = Some proc0"
  by (simp add: model_defs fixture_defs Let_def)

text \<open>
  Claim C8 as amended: when no GUTI is present and the allocation fails,
  \<^verbatim>\<open>_emm_send_attach_accept\<close> returns \<^verbatim>\<open>RETURNerror\<close>, sends nothing and leaves the procedure as it
  is. Its caller \<^verbatim>\<open>_emm_attach\<close> (a request without ESM message) then sets the cause
  \<open>PROTOCOL_ERROR\<close> and sends an Attach Reject; the context and its procedure are kept.
\<close>

theorem guti_allocation_failure:
  assumes "get_nas_specific_procedure_attach (ctx w) = Some p"
      and "originating_tai (ies p) = Some t"
      and "\<not> IS_EMM_CTXT_PRESENT_GUTI (ctx w)"
      and "\<forall>i g t. mme_api_new_guti env i g t = None"
  shows "(\<exists>w'. emm_send_attach_accept env w = Inr (RETURNerror, w') \<and> out w' = out w
              \<and> get_nas_specific_procedure_attach (ctx w') = Some p)
       \<and> (esm_msg (ies p) = None \<longrightarrow>
            (\<exists>est w''. emm_attach env w = Inr (emm_sap_rc env (EMMAS EMMAS_ESTABLISH_REJ est), w'')
               \<and> as_emm_cause est = EMM_CAUSE_PROTOCOL_ERROR
               \<and> out w'' = out w @ [EMM_SAP_SEND (EMMAS EMMAS_ESTABLISH_REJ est)]
               \<and> get_nas_specific_procedure_attach (ctx w'')
                   = Some (p\<lparr>emm_cause := EMM_CAUSE_PROTOCOL_ERROR\<rparr>)))"
proof (intro conjI impI)
  from emm_send_attach_accept_guti_failure [OF assms]
  obtain w' where "emm_send_attach_accept env w = Inr (RETURNerror, w')" "frame w w'" by blast
  then show "\<exists>w'. emm_send_attach_accept env w = Inr (RETURNerror, w') \<and> out w' = out w
              \<and> get_nas_specific_procedure_attach (ctx w') = Some p"
    using assms(1) by (auto simp: frame_def get_nas_specific_procedure_attach_def)
next
  assume "esm_msg (ies p) = None"
  from emm_attach_guti_failure [OF assms this]
  show "\<exists>est w''. emm_attach env w = Inr (emm_sap_rc env (EMMAS EMMAS_ESTABLISH_REJ est), w'')
               \<and> as_emm_cause est = EMM_CAUSE_PROTOCOL_ERROR
               \<and> out w'' = out w @ [EMM_SAP_SEND (EMMAS EMMAS_ESTABLISH_REJ est)]
               \<and> get_nas_specific_procedure_attach (ctx w'')
                   = Some (p\<lparr>emm_cause := EMM_CAUSE_PROTOCOL_ERROR\<rparr>)" .
qed

theorem guti_allocation_failure_witness:
  "get_nas_specific_procedure_attach (ctx \<lparr>ue = ue_first, out = []\<rparr>) = Some proc0
   \<and> originating_tai (ies proc0) = Some [3]
   \<and> \<not> IS_EMM_CTXT_PRESENT_GUTI (ctx \<lparr>ue = ue_first, out = []\<rparr>)
   \<and> (\<forall>i g t. mme_api_new_guti env_no_guti i g t = None)
   \<and> (\<exists>w'. emm_send_attach_accept env_no_guti \<lparr>ue = ue_first, out = []\<rparr> = Inr (RETURNerror, w')
          \<and> out w' = [] \<and> get_nas_specific_procedure_attach (ctx w') = Some proc0)
   \<and> (\<exists>est w''. emm_attach env_no_guti \<lparr>ue = ue_first, out = []\<rparr>
                    = Inr (emm_sap_rc env_no_guti (EMMAS EMMAS_ESTABLISH_REJ est), w'')
          \<and> as_emm_cause est = EMM_CAUSE_PROTOCOL_ERROR
          \<and> out w'' = [EMM_SAP_SEND (EMMAS EMMAS_ESTABLISH_REJ est)]
          \<and> get_nas_specific_procedure_attach (ctx w'')
              = Some (proc0\<lparr>emm_cause := EMM_CAUSE_PROTOCOL_ERROR\<rparr>))"
proof -
  let ?w = "\<lparr>ue = ue_first, out = []\<rparr>"
  have a: "get_nas_specific_procedure_attach (ctx ?w) = Some proc0"
    by (simp add: model_defs fixture_defs)
  have b: "originating_tai (ies proc0) = Some [3]"
    by (simp add: fixture_defs)
  have c: "\<not> IS_EMM_CTXT_PRESENT_GUTI (ctx ?w)"
    by (simp add: model_defs fixture_defs)
  have d: "\<forall>i g t. mme_api_new_guti env_no_guti i g t = None"
    by (simp add: fixture_defs)
  have e: "esm_msg (ies proc0) = None"
    by (simp add: fixture_defs)
  from guti_allocation_failure [OF a b c d] a b c d e show ?thesis by simp
qed

subsection \<open>Expiry of T3450 with an attach procedure\<close>

lemma emm_sap_send_ATTACH_ABORT:
  assumes q: "get_nas_specific_procedure_attach (ctx w) = Some q"
      and c: "reg_ctx reg = Some u" and fp: "free_proc reg"
  shows "\<exists>rest w'. emm_sap_send env (EMMREG EMMREG_ATTACH_ABORT reg) w
                      = (emm_sap_rc env (EMMREG EMMREG_ATTACH_ABORT reg), w')
          \<and> out w' = out w @ EMM_SAP_SEND (EMMREG EMMREG_ATTACH_ABORT reg) # rest
          \<and> filter is_attach_accept rest = [] \<and> filter is_attach_abort rest = []
          \<and> emm_specific_proc (ctx w') = None
          \<and> emm_fsm_state (ctx w') = EMM_DEREGISTERED
          \<and> emm_common_procs (ctx w') = emm_common_procs (ctx w)
          \<and> num_attach_request (ctx w') = num_attach_request (ctx w)
          \<and> mme_ue_s1ap_id (ue w') = mme_ue_s1ap_id (ue w)
          \<and> IS_EMM_CTXT_PRESENT_GUTI (ctx w') = IS_EMM_CTXT_PRESENT_GUTI (ctx w)"
proof -
  define w1 where "w1 = nas_stop_T3450 (ue_id q) (call (EMM_SAP_SEND (EMMREG EMMREG_ATTACH_ABORT reg)) w)"
  define w2 where "w2 = (if abort q = CB_emm_attach_abort then snd (emm_attach_abort env w1) else w1)"
  define w3 where "w3 = upd_ctx (\<lambda>c. (nas_delete_attach_procedure c)\<lparr>emm_fsm_state := EMM_DEREGISTERED\<rparr>) w2"
  have eq: "emm_sap_send env (EMMREG EMMREG_ATTACH_ABORT reg) w
              = (emm_sap_rc env (EMMREG EMMREG_ATTACH_ABORT reg), w3)"
    using q c fp by (simp add: emm_sap_send_def Let_def world_simps w3_def w2_def w1_def)
  have q1: "get_nas_specific_procedure_attach (ctx w1) = Some (q\<lparr>T3450 := NAS_TIMER_INACTIVE_ID\<rparr>)"
    using q by (simp add: w1_def nas_stop_T3450_def world_simps get_upd_attach_proc)
  have o1: "out w1 = out w @ [EMM_SAP_SEND (EMMREG EMMREG_ATTACH_ABORT reg), NAS_STOP_T3450 (ue_id q)]"
    by (simp add: w1_def nas_stop_T3450_def world_simps)
  have k1: "emm_common_procs (ctx w1) = emm_common_procs (ctx w)
          \<and> num_attach_request (ctx w1) = num_attach_request (ctx w)
          \<and> mme_ue_s1ap_id (ue w1) = mme_ue_s1ap_id (ue w)
          \<and> IS_EMM_CTXT_PRESENT_GUTI (ctx w1) = IS_EMM_CTXT_PRESENT_GUTI (ctx w)"
    by (simp add: w1_def nas_stop_T3450_def world_simps frame_upd_attach_proc)
  have k2: "(\<exists>rest. out w2 = out w1 @ rest \<and> filter is_attach_accept rest = []
               \<and> filter is_attach_abort rest = [])
          \<and> (emm_specific_proc (ctx w2) = None
               \<or> get_nas_specific_procedure_attach (ctx w2) \<noteq> None)
          \<and> emm_common_procs (ctx w2) = emm_common_procs (ctx w1)
          \<and> num_attach_request (ctx w2) = num_attach_request (ctx w1)
          \<and> mme_ue_s1ap_id (ue w2) = mme_ue_s1ap_id (ue w1)
          \<and> IS_EMM_CTXT_PRESENT_GUTI (ctx w2) = IS_EMM_CTXT_PRESENT_GUTI (ctx w1)"
    using q1
    by (simp add: w2_def emm_attach_abort_def esm_sap_send_def emm_sap_send_plain_def Let_def
          world_simps nas_delete_attach_procedure_def IS_EMM_CTXT_PRESENT_GUTI_def
          is_nas_specific_procedure_attach_running_def)
  have k3: "out w3 = out w2 \<and> emm_specific_proc (ctx w3) = None
          \<and> emm_fsm_state (ctx w3) = EMM_DEREGISTERED
          \<and> emm_common_procs (ctx w3) = emm_common_procs (ctx w2)
          \<and> num_attach_request (ctx w3) = num_attach_request (ctx w2)
          \<and> mme_ue_s1ap_id (ue w3) = mme_ue_s1ap_id (ue w2)
          \<and> IS_EMM_CTXT_PRESENT_GUTI (ctx w3) = IS_EMM_CTXT_PRESENT_GUTI (ctx w2)"
    using k2
    by (auto simp: w3_def world_simps nas_delete_attach_procedure_def
          is_nas_specific_procedure_attach_running_def IS_EMM_CTXT_PRESENT_GUTI_def)
  from k2 obtain rest where r: "out w2 = out w1 @ rest" "filter is_attach_accept rest = []"
      "filter is_attach_abort rest = []" by blast
  have "out w3 = out w @ EMM_SAP_SEND (EMMREG EMMREG_ATTACH_ABORT reg) # (NAS_STOP_T3450 (ue_id q) # rest)"
    using k3 r o1 by simp
  moreover have "filter is_attach_accept (NAS_STOP_T3450 (ue_id q) # rest) = []"
      "filter is_attach_abort (NAS_STOP_T3450 (ue_id q) # rest) = []"
    using r by simp_all
  ultimately show ?thesis using eq k1 k2 k3 by (intro exI [of _ "NAS_STOP_T3450 (ue_id q) # rest"] exI [of _ w3]) simp
qed

text \<open>An expiry that leads to a retransmission.\<close>

lemma emm_attach_t3450_handler_resend:
  assumes p: "get_nas_specific_procedure_attach (ctx w) = Some p"
      and t: "originating_tai (ies p) = Some t"
      and g: "IS_EMM_CTXT_PRESENT_GUTI (ctx w) \<or> (\<forall>i g t. mme_api_new_guti env i g t \<noteq> None)"
      and lt: "sint (attach_accept_sent p + 1) < ATTACH_COUNTER_MAX"
  shows "\<exists>est w'. emm_attach_t3450_handler env w = Inr w'
          \<and> out w' = out w @ EMM_SAP_SEND (EMMAS EMMAS_ESTABLISH_CNF est)
                # (if emm_sap_rc env (EMMAS EMMAS_ESTABLISH_CNF est) \<noteq> RETURNerror
                   then [NAS_STOP_T3450 (mme_ue_s1ap_id (ue w)),
                         NAS_START_T3450 (ue_id p) (time_out p)]
                   else [])
          \<and> nas_msg est = esm_msg_out p
          \<and> get_nas_specific_procedure_attach (ctx w')
              = Some (p\<lparr>T3450 := (if emm_sap_rc env (EMMAS EMMAS_ESTABLISH_CNF est) \<noteq> RETURNerror
                                  then NAS_TIMER_ACTIVE_ID else NAS_TIMER_INACTIVE_ID),
                        attach_accept_sent := attach_accept_sent p + 1\<rparr>)
          \<and> IS_EMM_CTXT_PRESENT_GUTI (ctx w')"
proof -
  define p1 where "p1 = p\<lparr>T3450 := NAS_TIMER_INACTIVE_ID,
                           attach_accept_sent := attach_accept_sent p + 1\<rparr>"
  define w1 where "w1 = upd_ctx (upd_attach_proc (\<lambda>q. p1)) w"
  have h: "emm_attach_t3450_handler env w =
          (case emm_send_attach_accept env w1 of Inl e \<Rightarrow> Inl e | Inr (rc, w2) \<Rightarrow> Inr w2)"
    using p lt by (simp add: emm_attach_t3450_handler_def Let_def w1_def p1_def)
  have p1: "get_nas_specific_procedure_attach (ctx w1) = Some p1"
    using p by (simp add: w1_def world_simps get_upd_attach_proc)
  have t1: "originating_tai (ies p1) = Some t" using t by (simp add: p1_def)
  have w1: "out w1 = out w \<and> mme_ue_s1ap_id (ue w1) = mme_ue_s1ap_id (ue w)
          \<and> IS_EMM_CTXT_PRESENT_GUTI (ctx w1) = IS_EMM_CTXT_PRESENT_GUTI (ctx w)"
    by (simp add: w1_def world_simps frame_upd_attach_proc)
  from p1 t1 show ?thesis
  proof (cases rule: emm_send_attach_accept_cases [where env = env])
    case (fail w5)
    have "\<not> IS_EMM_CTXT_PRESENT_GUTI (ctx w)" using fail(2) w1 by simp
    with g have "\<forall>i g t. mme_api_new_guti env i g t \<noteq> None" by blast
    then have "mme_api_new_guti env (ctx_imsi (ctx w5)) (ctx_old_guti (ctx w5))
                 (ctx_originating_tai (ctx w5)) \<noteq> None"
      by (elim allE)
    with fail(3) show ?thesis by contradiction
  next
    case (sent w5 est w')
    from sent(3) h have "emm_attach_t3450_handler env w = Inr w'" by simp
    moreover from sent(4) w1
    have "out w' = out w @ EMM_SAP_SEND (EMMAS EMMAS_ESTABLISH_CNF est)
                # (if emm_sap_rc env (EMMAS EMMAS_ESTABLISH_CNF est) \<noteq> RETURNerror
                   then [NAS_STOP_T3450 (mme_ue_s1ap_id (ue w)),
                         NAS_START_T3450 (ue_id p) (time_out p)]
                   else [])
          \<and> nas_msg est = esm_msg_out p
          \<and> get_nas_specific_procedure_attach (ctx w')
              = Some (p\<lparr>T3450 := (if emm_sap_rc env (EMMAS EMMAS_ESTABLISH_CNF est) \<noteq> RETURNerror
                                  then NAS_TIMER_ACTIVE_ID else NAS_TIMER_INACTIVE_ID),
                        attach_accept_sent := attach_accept_sent p + 1\<rparr>)
          \<and> IS_EMM_CTXT_PRESENT_GUTI (ctx w')"
      by (simp add: accept_composed_def p1_def)
    ultimately show ?thesis by blast
  qed
qed

text \<open>An expiry that aborts the procedure.\<close>

lemma emm_attach_t3450_handler_abort:
  assumes p: "get_nas_specific_procedure_attach (ctx w) = Some p"
      and ge: "\<not> sint (attach_accept_sent p + 1) < ATTACH_COUNTER_MAX"
  shows "\<exists>reg rest w'. emm_attach_t3450_handler env w = Inr w'
          \<and> out w' = out w @ EMM_SAP_SEND (EMMREG EMMREG_ATTACH_ABORT reg) # rest
          \<and> reg_ue_id reg = ue_id p \<and> notify reg \<and> free_proc reg
          \<and> reg_proc reg = PROC_ATTACH (p\<lparr>T3450 := NAS_TIMER_INACTIVE_ID,
                                          attach_accept_sent := attach_accept_sent p + 1\<rparr>)
          \<and> filter is_attach_accept rest = [] \<and> filter is_attach_abort rest = []
          \<and> emm_specific_proc (ctx w') = None
          \<and> emm_fsm_state (ctx w') = EMM_DEREGISTERED"
proof -
  define p1 where "p1 = p\<lparr>T3450 := NAS_TIMER_INACTIVE_ID,
                           attach_accept_sent := attach_accept_sent p + 1\<rparr>"
  define w1 where "w1 = upd_ctx (upd_attach_proc (\<lambda>q. p1)) w"
  define reg where "reg = \<lparr>reg_ue_id = ue_id p1, reg_ctx = Some (mme_ue_s1ap_id (ue w1)),
                            notify = True, free_proc = True, reg_proc = PROC_ATTACH p1,
                            reg_is_emergency = False, reg_common_proc = None\<rparr>"
  have h: "emm_attach_t3450_handler env w
             = Inr (snd (emm_sap_send env (EMMREG EMMREG_ATTACH_ABORT reg) w1))"
    using p ge by (simp add: emm_attach_t3450_handler_def Let_def w1_def p1_def reg_def)
  have p1: "get_nas_specific_procedure_attach (ctx w1) = Some p1"
    using p by (simp add: w1_def world_simps get_upd_attach_proc)
  have o1: "out w1 = out w" by (simp add: w1_def world_simps)
  have "reg_ctx reg = Some (mme_ue_s1ap_id (ue w1))" "free_proc reg" by (simp_all add: reg_def)
  from emm_sap_send_ATTACH_ABORT [OF p1 this, of env]
  obtain rest w' where "emm_sap_send env (EMMREG EMMREG_ATTACH_ABORT reg) w1
                      = (emm_sap_rc env (EMMREG EMMREG_ATTACH_ABORT reg), w')"
          "out w' = out w1 @ EMM_SAP_SEND (EMMREG EMMREG_ATTACH_ABORT reg) # rest"
          "filter is_attach_accept rest = []" "filter is_attach_abort rest = []"
          "emm_specific_proc (ctx w') = None"
          "emm_fsm_state (ctx w') = EMM_DEREGISTERED"
    by blast
  with h o1 show ?thesis
    by (intro exI [of _ reg] exI [of _ rest] exI [of _ w']) (simp add: reg_def p1_def)
qed

lemma t3450_expiries_Suc:
  "t3450_expiries env (Suc n) w =
     (case t3450_expiries env n w of Inl e \<Rightarrow> Inl e | Inr w' \<Rightarrow> emm_attach_t3450_handler env w')"
proof (induction n arbitrary: w)
  case 0
  show ?case by (simp split: sum.splits)
next
  case (Suc n)
  have "t3450_expiries env (Suc (Suc n)) w =
          (case emm_attach_t3450_handler env w of
             Inl e \<Rightarrow> Inl e
           | Inr w' \<Rightarrow> t3450_expiries env (Suc n) w')"
    by (rule t3450_expiries.simps(2))
  also have "\<dots> = (case emm_attach_t3450_handler env w of
             Inl e \<Rightarrow> Inl e
           | Inr w' \<Rightarrow> (case t3450_expiries env n w' of
                          Inl e \<Rightarrow> Inl e
                        | Inr w'' \<Rightarrow> emm_attach_t3450_handler env w''))"
    by (simp only: Suc.IH)
  also have "\<dots> = (case t3450_expiries env (Suc n) w of
                      Inl e \<Rightarrow> Inl e
                    | Inr w'' \<Rightarrow> emm_attach_t3450_handler env w'')"
    by (cases "emm_attach_t3450_handler env w") simp_all
  finally show ?case .
qed

text \<open>The counter as a number, while it is small.\<close>

lemma sint_small:
  "m \<le> 5 \<Longrightarrow> sint (of_nat m :: 32 word) = int m"
proof -
  assume "m \<le> 5"
  then have "m = 0 \<or> m = 1 \<or> m = 2 \<or> m = 3 \<or> m = 4 \<or> m = 5" by arith
  then show ?thesis by (elim disjE) simp_all
qed

text \<open>
  Expiries that all lead to a retransmission keep what the next expiry needs, when the layer
  below takes every message.
\<close>

lemma t3450_expiries_resend:
  assumes ok: "\<forall>sap. emm_sap_rc env sap \<noteq> RETURNerror"
  shows "get_nas_specific_procedure_attach (ctx w) = Some p
     \<Longrightarrow> originating_tai (ies p) = Some t
     \<Longrightarrow> IS_EMM_CTXT_PRESENT_GUTI (ctx w) \<or> (\<forall>i g t. mme_api_new_guti env i g t \<noteq> None)
     \<Longrightarrow> attach_accept_sent p = of_nat k
     \<Longrightarrow> k + n < 5
     \<Longrightarrow> \<exists>w'. t3450_expiries env n w = Inr w'
           \<and> get_nas_specific_procedure_attach (ctx w')
               = Some (p\<lparr>T3450 := (if n = 0 then T3450 p else NAS_TIMER_ACTIVE_ID),
                         attach_accept_sent := of_nat (k + n)\<rparr>)
           \<and> (n > 0 \<longrightarrow> IS_EMM_CTXT_PRESENT_GUTI (ctx w'))
           \<and> length (filter is_attach_accept (out w'))
               = length (filter is_attach_accept (out w)) + n
           \<and> length (filter is_attach_abort (out w')) = length (filter is_attach_abort (out w))"
proof (induction n arbitrary: w p k)
  case 0
  then show ?case by simp
next
  case (Suc n)
  have s: "attach_accept_sent p + 1 = of_nat (Suc k)" using Suc.prems(4) by simp
  have sk: "sint (of_nat (Suc k) :: 32 word) = int (Suc k)"
    using Suc.prems(5) by (intro sint_small) simp
  have lt: "sint (attach_accept_sent p + 1) < ATTACH_COUNTER_MAX"
    unfolding s sk ATTACH_COUNTER_MAX_def using Suc.prems(5) by simp
  from ok have okc: "emm_sap_rc env sap \<noteq> RETURNerror" for sap by simp
  from emm_attach_t3450_handler_resend [OF Suc.prems(1,2,3) lt]
  obtain est w1 where h: "emm_attach_t3450_handler env w = Inr w1"
      and o: "out w1 = out w @ [EMM_SAP_SEND (EMMAS EMMAS_ESTABLISH_CNF est),
                              NAS_STOP_T3450 (mme_ue_s1ap_id (ue w)),
                              NAS_START_T3450 (ue_id p) (time_out p)]"
      and p1: "get_nas_specific_procedure_attach (ctx w1)
              = Some (p\<lparr>T3450 := NAS_TIMER_ACTIVE_ID,
                        attach_accept_sent := attach_accept_sent p + 1\<rparr>)"
      and g1: "IS_EMM_CTXT_PRESENT_GUTI (ctx w1)"
    by (auto simp: okc)
  let ?p1 = "p\<lparr>T3450 := NAS_TIMER_ACTIVE_ID, attach_accept_sent := attach_accept_sent p + 1\<rparr>"
  have t1: "originating_tai (ies ?p1) = Some t" using Suc.prems(2) by simp
  have c1: "attach_accept_sent ?p1 = of_nat (Suc k)" using s by simp
  have lt1: "Suc k + n < 5" using Suc.prems(5) by simp
  from Suc.IH [OF p1 t1 _ c1 lt1] g1
  obtain w' where r: "t3450_expiries env n w1 = Inr w'"
     and pr: "get_nas_specific_procedure_attach (ctx w')
               = Some (?p1\<lparr>T3450 := (if n = 0 then T3450 ?p1 else NAS_TIMER_ACTIVE_ID),
                         attach_accept_sent := of_nat (Suc k + n)\<rparr>)"
     and gr: "n > 0 \<longrightarrow> IS_EMM_CTXT_PRESENT_GUTI (ctx w')"
     and ar: "length (filter is_attach_accept (out w'))
               = length (filter is_attach_accept (out w1)) + n"
     and br: "length (filter is_attach_abort (out w')) = length (filter is_attach_abort (out w1))"
    by blast
  have "t3450_expiries env (Suc n) w = Inr w'" using h r by simp
  moreover have "get_nas_specific_procedure_attach (ctx w')
               = Some (p\<lparr>T3450 := NAS_TIMER_ACTIVE_ID,
                         attach_accept_sent := of_nat (k + Suc n)\<rparr>)"
    using pr by simp
  moreover have "IS_EMM_CTXT_PRESENT_GUTI (ctx w')"
  proof (cases n)
    case 0
    with r g1 show ?thesis by simp
  next
    case (Suc m)
    with gr show ?thesis by simp
  qed
  moreover have "length (filter is_attach_accept (out w'))
               = length (filter is_attach_accept (out w)) + Suc n"
    using ar o by simp
  moreover have "length (filter is_attach_abort (out w')) = length (filter is_attach_abort (out w))"
    using br o by simp
  ultimately show ?case by simp
qed

text \<open>
  Claim C2 says that at every expiry of T3450 below the maximum the Attach Accept is resent
  and T3450 is restarted. The restart depends on the layer below: here the first Accept has
  gone out, T3450 expires once, and the layer below refuses the retransmitted Accept. The
  Accept is handed over, no timer is started, the handle of T3450 stays inactive and the
  procedure is not aborted either.
\<close>

theorem t3450_not_restarted_when_send_fails:
  "accept_counter world_accept_sent = Some 0
   \<and> \<not> isl (emm_attach_t3450_handler env_fail (world_accept_sent\<lparr>out := []\<rparr>))
   \<and> length (filter is_attach_accept
        (out (projr (emm_attach_t3450_handler env_fail (world_accept_sent\<lparr>out := []\<rparr>))))) = 1
   \<and> filter is_t3450_start
        (out (projr (emm_attach_t3450_handler env_fail (world_accept_sent\<lparr>out := []\<rparr>)))) = []
   \<and> filter is_attach_abort
        (out (projr (emm_attach_t3450_handler env_fail (world_accept_sent\<lparr>out := []\<rparr>)))) = []
   \<and> map_option T3450 (get_nas_specific_procedure_attach
        (ctx (projr (emm_attach_t3450_handler env_fail (world_accept_sent\<lparr>out := []\<rparr>)))))
       = Some NAS_TIMER_INACTIVE_ID"
  by (simp add: world_accept_sent_def env_fail_def emm_attach_t3450_handler_def
        ATTACH_COUNTER_MAX_def model_defs fixture_defs Let_def)

text \<open>
  Claim C2, amended. At an expiry of T3450 with a running attach procedure the handler
  increments \<^verbatim>\<open>attach_accept_sent\<close>, a C \<^verbatim>\<open>int\<close>. If the incremented counter is below
  \<^verbatim>\<open>ATTACH_COUNTER_MAX\<close> (5), the Attach Accept is handed to the layer below again, with the
  same ESM message, and T3450 is restarted exactly when the layer below did not refuse it;
  otherwise the procedure is aborted with \<open>EMMREG_ATTACH_ABORT\<close> and deleted. So from a count
  of 0, with a UE that never answers and a layer below that takes every message, the first
  four expiries retransmit and the fifth aborts. The Accept can be composed: the stored
  request has its originating TAI and a GUTI is present or can be allocated.
\<close>

theorem t3450_expiry:
  assumes p: "get_nas_specific_procedure_attach (ctx w) = Some p"
      and t: "originating_tai (ies p) = Some t"
      and g: "IS_EMM_CTXT_PRESENT_GUTI (ctx w) \<or> (\<forall>i g t. mme_api_new_guti env i g t \<noteq> None)"
  shows "(sint (attach_accept_sent p + 1) < ATTACH_COUNTER_MAX \<longrightarrow>
           (\<exists>est w'. emm_attach_t3450_handler env w = Inr w'
              \<and> out w' = out w @ EMM_SAP_SEND (EMMAS EMMAS_ESTABLISH_CNF est)
                  # (if emm_sap_rc env (EMMAS EMMAS_ESTABLISH_CNF est) \<noteq> RETURNerror
                     then [NAS_STOP_T3450 (mme_ue_s1ap_id (ue w)),
                           NAS_START_T3450 (ue_id p) (time_out p)]
                     else [])
              \<and> nas_msg est = esm_msg_out p
              \<and> get_nas_specific_procedure_attach (ctx w')
                  = Some (p\<lparr>T3450 := (if emm_sap_rc env (EMMAS EMMAS_ESTABLISH_CNF est)
                                          \<noteq> RETURNerror
                                      then NAS_TIMER_ACTIVE_ID else NAS_TIMER_INACTIVE_ID),
                            attach_accept_sent := attach_accept_sent p + 1\<rparr>)))
       \<and> (\<not> sint (attach_accept_sent p + 1) < ATTACH_COUNTER_MAX \<longrightarrow>
           (\<exists>reg rest w'. emm_attach_t3450_handler env w = Inr w'
              \<and> out w' = out w @ EMM_SAP_SEND (EMMREG EMMREG_ATTACH_ABORT reg) # rest
              \<and> reg_ue_id reg = ue_id p \<and> notify reg \<and> free_proc reg
              \<and> filter is_attach_accept rest = []
              \<and> emm_specific_proc (ctx w') = None))
       \<and> (attach_accept_sent p = 0 \<and> (\<forall>sap. emm_sap_rc env sap \<noteq> RETURNerror) \<longrightarrow>
           (\<forall>n\<le>4. \<exists>w'. t3450_expiries env n w = Inr w'
              \<and> accept_counter w' = Some (of_nat n)
              \<and> length (filter is_attach_accept (out w'))
                  = length (filter is_attach_accept (out w)) + n
              \<and> length (filter is_attach_abort (out w'))
                  = length (filter is_attach_abort (out w)))
         \<and> (\<exists>w'. t3450_expiries env 5 w = Inr w'
              \<and> length (filter is_attach_accept (out w'))
                  = length (filter is_attach_accept (out w)) + 4
              \<and> length (filter is_attach_abort (out w'))
                  = length (filter is_attach_abort (out w)) + 1
              \<and> emm_specific_proc (ctx w') = None))"
proof (intro conjI impI allI)
  assume "sint (attach_accept_sent p + 1) < ATTACH_COUNTER_MAX"
  from emm_attach_t3450_handler_resend [OF p t g this]
  show "\<exists>est w'. emm_attach_t3450_handler env w = Inr w'
              \<and> out w' = out w @ EMM_SAP_SEND (EMMAS EMMAS_ESTABLISH_CNF est)
                  # (if emm_sap_rc env (EMMAS EMMAS_ESTABLISH_CNF est) \<noteq> RETURNerror
                     then [NAS_STOP_T3450 (mme_ue_s1ap_id (ue w)),
                           NAS_START_T3450 (ue_id p) (time_out p)]
                     else [])
              \<and> nas_msg est = esm_msg_out p
              \<and> get_nas_specific_procedure_attach (ctx w')
                  = Some (p\<lparr>T3450 := (if emm_sap_rc env (EMMAS EMMAS_ESTABLISH_CNF est)
                                          \<noteq> RETURNerror
                                      then NAS_TIMER_ACTIVE_ID else NAS_TIMER_INACTIVE_ID),
                            attach_accept_sent := attach_accept_sent p + 1\<rparr>)"
    by blast
next
  assume "\<not> sint (attach_accept_sent p + 1) < ATTACH_COUNTER_MAX"
  from emm_attach_t3450_handler_abort [OF p this, of env]
  show "\<exists>reg rest w'. emm_attach_t3450_handler env w = Inr w'
              \<and> out w' = out w @ EMM_SAP_SEND (EMMREG EMMREG_ATTACH_ABORT reg) # rest
              \<and> reg_ue_id reg = ue_id p \<and> notify reg \<and> free_proc reg
              \<and> filter is_attach_accept rest = []
              \<and> emm_specific_proc (ctx w') = None"
    by blast
next
  fix n :: nat
  assume a: "attach_accept_sent p = 0 \<and> (\<forall>sap. emm_sap_rc env sap \<noteq> RETURNerror)" and n: "n \<le> 4"
  from a have z: "attach_accept_sent p = of_nat 0" and ok: "\<forall>sap. emm_sap_rc env sap \<noteq> RETURNerror"
    by simp_all
  from n have "0 + n < 5" by simp
  from t3450_expiries_resend [OF ok p t g z this]
  show "\<exists>w'. t3450_expiries env n w = Inr w'
              \<and> accept_counter w' = Some (of_nat n)
              \<and> length (filter is_attach_accept (out w'))
                  = length (filter is_attach_accept (out w)) + n
              \<and> length (filter is_attach_abort (out w'))
                  = length (filter is_attach_abort (out w))"
    by (auto simp: accept_counter_def)
next
  assume a: "attach_accept_sent p = 0 \<and> (\<forall>sap. emm_sap_rc env sap \<noteq> RETURNerror)"
  from a have z: "attach_accept_sent p = of_nat 0" and ok: "\<forall>sap. emm_sap_rc env sap \<noteq> RETURNerror"
    by simp_all
  have "0 + (4::nat) < 5" by simp
  from t3450_expiries_resend [OF ok p t g z this]
  obtain w4 where e4: "t3450_expiries env 4 w = Inr w4"
      and p4: "get_nas_specific_procedure_attach (ctx w4)
               = Some (p\<lparr>T3450 := NAS_TIMER_ACTIVE_ID, attach_accept_sent := of_nat (0 + 4)\<rparr>)"
      and a4: "length (filter is_attach_accept (out w4))
               = length (filter is_attach_accept (out w)) + 4"
      and b4: "length (filter is_attach_abort (out w4)) = length (filter is_attach_abort (out w))"
    by auto
  have "\<not> sint (attach_accept_sent (p\<lparr>T3450 := NAS_TIMER_ACTIVE_ID,
                         attach_accept_sent := of_nat (0 + 4)\<rparr>) + 1)
            < ATTACH_COUNTER_MAX"
    by (simp add: ATTACH_COUNTER_MAX_def)
  from emm_attach_t3450_handler_abort [OF p4 this, of env]
  obtain reg rest w' where h: "emm_attach_t3450_handler env w4 = Inr w'"
      and o: "out w' = out w4 @ EMM_SAP_SEND (EMMREG EMMREG_ATTACH_ABORT reg) # rest"
      and r: "filter is_attach_accept rest = []" "filter is_attach_abort rest = []"
      and d: "emm_specific_proc (ctx w') = None"
    by blast
  have five: "(5::nat) = Suc 4" by simp
  have "t3450_expiries env 5 w = Inr w'"
    using e4 h by (simp only: five t3450_expiries_Suc sum.case)
  moreover have "length (filter is_attach_accept (out w'))
                  = length (filter is_attach_accept (out w)) + 4"
    using o r a4 by simp
  moreover have "length (filter is_attach_abort (out w'))
                  = length (filter is_attach_abort (out w)) + 1"
    using o r b4 by simp
  ultimately show "\<exists>w'. t3450_expiries env 5 w = Inr w'
              \<and> length (filter is_attach_accept (out w'))
                  = length (filter is_attach_accept (out w)) + 4
              \<and> length (filter is_attach_abort (out w'))
                  = length (filter is_attach_abort (out w)) + 1
              \<and> emm_specific_proc (ctx w') = None"
    using d by blast
qed

theorem t3450_expiry_witness:
  "get_nas_specific_procedure_attach (ctx \<lparr>ue = ue_accept 0, out = []\<rparr>)
     = Some (proc0\<lparr>attach_accept_sent := 0, T3450 := NAS_TIMER_ACTIVE_ID\<rparr>)
   \<and> originating_tai (ies (proc0\<lparr>attach_accept_sent := 0, T3450 := NAS_TIMER_ACTIVE_ID\<rparr>))
       = Some [3]
   \<and> IS_EMM_CTXT_PRESENT_GUTI (ctx \<lparr>ue = ue_accept 0, out = []\<rparr>)
   \<and> (\<forall>sap. emm_sap_rc env0 sap \<noteq> RETURNerror)
   \<and> (\<exists>est w'. emm_attach_t3450_handler env0 \<lparr>ue = ue_accept 0, out = []\<rparr> = Inr w'
          \<and> out w' = [EMM_SAP_SEND (EMMAS EMMAS_ESTABLISH_CNF est), NAS_STOP_T3450 7,
                        NAS_START_T3450 7 CB_emm_attach_t3450_handler]
          \<and> accept_counter w' = Some 1)
   \<and> (\<exists>est w'. emm_attach_t3450_handler env_fail \<lparr>ue = ue_accept 0, out = []\<rparr> = Inr w'
          \<and> out w' = [EMM_SAP_SEND (EMMAS EMMAS_ESTABLISH_CNF est)]
          \<and> get_nas_specific_procedure_attach (ctx w')
              = Some (proc0\<lparr>attach_accept_sent := 1, T3450 := NAS_TIMER_INACTIVE_ID\<rparr>))
   \<and> (\<exists>w'. t3450_expiries env0 5 \<lparr>ue = ue_accept 0, out = []\<rparr> = Inr w'
          \<and> length (filter is_attach_accept (out w')) = 4
          \<and> length (filter is_attach_abort (out w')) = 1
          \<and> emm_specific_proc (ctx w') = None)"
proof -
  let ?w = "\<lparr>ue = ue_accept 0, out = []\<rparr>"
  let ?p = "proc0\<lparr>attach_accept_sent := 0, T3450 := NAS_TIMER_ACTIVE_ID\<rparr>"
  have a: "get_nas_specific_procedure_attach (ctx ?w) = Some ?p"
    by (simp add: model_defs fixture_defs)
  have b: "originating_tai (ies ?p) = Some [3]"
    by (simp add: fixture_defs)
  have c: "IS_EMM_CTXT_PRESENT_GUTI (ctx ?w)"
    by (simp add: model_defs fixture_defs)
  have d: "\<forall>sap. emm_sap_rc env0 sap \<noteq> RETURNerror"
    by (simp add: fixture_defs)
  have d': "emm_sap_rc env0 = (\<lambda>sap. RETURNok)" "emm_sap_rc env_fail = (\<lambda>sap. RETURNerror)"
    by (simp_all add: env_fail_def fixture_defs)
  have e: "sint (attach_accept_sent ?p + 1) < ATTACH_COUNTER_MAX" "attach_accept_sent ?p = 0"
    by (simp_all add: ATTACH_COUNTER_MAX_def)
  have f: "out ?w = []" "mme_ue_s1ap_id (ue ?w) = 7" "ue_id ?p = 7"
      "time_out ?p = CB_emm_attach_t3450_handler"
    by (simp_all add: fixture_defs)
  note inst = t3450_expiry [OF a b disjI1 [OF c], of env0]
  note inst_fail = t3450_expiry [OF a b disjI1 [OF c], of env_fail]
  from inst e(1) obtain est w' where
     "emm_attach_t3450_handler env0 ?w = Inr w'"
     "out w' = out ?w @ EMM_SAP_SEND (EMMAS EMMAS_ESTABLISH_CNF est)
                  # (if emm_sap_rc env0 (EMMAS EMMAS_ESTABLISH_CNF est) \<noteq> RETURNerror
                     then [NAS_STOP_T3450 (mme_ue_s1ap_id (ue ?w)),
                           NAS_START_T3450 (ue_id ?p) (time_out ?p)]
                     else [])"
     "get_nas_specific_procedure_attach (ctx w')
                  = Some (?p\<lparr>T3450 := (if emm_sap_rc env0 (EMMAS EMMAS_ESTABLISH_CNF est)
                                          \<noteq> RETURNerror
                                      then NAS_TIMER_ACTIVE_ID else NAS_TIMER_INACTIVE_ID),
                            attach_accept_sent := attach_accept_sent ?p + 1\<rparr>)"
    by blast
  then have first: "\<exists>est w'. emm_attach_t3450_handler env0 ?w = Inr w'
          \<and> out w' = [EMM_SAP_SEND (EMMAS EMMAS_ESTABLISH_CNF est), NAS_STOP_T3450 7,
                        NAS_START_T3450 7 CB_emm_attach_t3450_handler]
          \<and> accept_counter w' = Some 1"
    unfolding f d' by (auto simp: accept_counter_def)
  from inst_fail e(1) obtain est w' where
     "emm_attach_t3450_handler env_fail ?w = Inr w'"
     "out w' = out ?w @ EMM_SAP_SEND (EMMAS EMMAS_ESTABLISH_CNF est)
                  # (if emm_sap_rc env_fail (EMMAS EMMAS_ESTABLISH_CNF est) \<noteq> RETURNerror
                     then [NAS_STOP_T3450 (mme_ue_s1ap_id (ue ?w)),
                           NAS_START_T3450 (ue_id ?p) (time_out ?p)]
                     else [])"
     "get_nas_specific_procedure_attach (ctx w')
                  = Some (?p\<lparr>T3450 := (if emm_sap_rc env_fail (EMMAS EMMAS_ESTABLISH_CNF est)
                                          \<noteq> RETURNerror
                                      then NAS_TIMER_ACTIVE_ID else NAS_TIMER_INACTIVE_ID),
                            attach_accept_sent := attach_accept_sent ?p + 1\<rparr>)"
    by blast
  then have failing: "\<exists>est w'. emm_attach_t3450_handler env_fail ?w = Inr w'
          \<and> out w' = [EMM_SAP_SEND (EMMAS EMMAS_ESTABLISH_CNF est)]
          \<and> get_nas_specific_procedure_attach (ctx w')
              = Some (proc0\<lparr>attach_accept_sent := 1, T3450 := NAS_TIMER_INACTIVE_ID\<rparr>)"
    unfolding f d' by auto
  from inst e(2) d have "\<exists>w'. t3450_expiries env0 5 ?w = Inr w'
              \<and> length (filter is_attach_accept (out w'))
                  = length (filter is_attach_accept (out ?w)) + 4
              \<and> length (filter is_attach_abort (out w'))
                  = length (filter is_attach_abort (out ?w)) + 1
              \<and> emm_specific_proc (ctx w') = None"
    by blast
  then have five: "\<exists>w'. t3450_expiries env0 5 ?w = Inr w'
          \<and> length (filter is_attach_accept (out w')) = 4
          \<and> length (filter is_attach_abort (out w')) = 1
          \<and> emm_specific_proc (ctx w') = None"
    by simp
  from a b c d first failing five show ?thesis by blast
qed

subsection \<open>Attach Reject requested by the network\<close>

lemma lookup_context_Some:
  "lookup_context P cs = Some (k, c) \<Longrightarrow> k < length cs \<and> cs ! k = c \<and> P c"
proof (induction cs arbitrary: k)
  case Nil
  then show ?case by simp
next
  case (Cons d cs)
  then show ?case by (auto split: if_splits option.splits)
qed

lemma leave_enter:
  "lookup_context P (mme_ue_contexts s) = Some (k, c) \<Longrightarrow> leave s k (enter s c) = s"
  by (drule lookup_context_Some) (auto simp: leave_def enter_def)

lemma emm_sap_send_ATTACH_REJ:
  "emm_sap_send env (EMMREG EMMREG_ATTACH_REJ reg) w
     = (emm_sap_rc env (EMMREG EMMREG_ATTACH_REJ reg),
        (if reg_ctx reg = None then call (EMM_SAP_SEND (EMMREG EMMREG_ATTACH_REJ reg)) w
         else upd_ctx (\<lambda>c. (if free_proc reg then nas_delete_attach_procedure c else c)
                             \<lparr>emm_fsm_state := EMM_DEREGISTERED\<rparr>)
                (call (EMM_SAP_SEND (EMMREG EMMREG_ATTACH_REJ reg)) w)))"
  by (simp add: emm_sap_send_def emm_sap_send_plain_def Let_def)

text \<open>
  Claim C10. \<^verbatim>\<open>emm_proc_attach_reject\<close> sends \<open>EMMREG_ATTACH_REJ\<close>, for the running attach
  procedure with its cause set to the given one, when the context exists and an attach
  procedure runs on it; otherwise it returns \<^verbatim>\<open>RETURNerror\<close> and changes nothing.
\<close>

theorem emm_proc_attach_reject_cases:
  "(mme_ue_context_exists_mme_ue_s1ap_id (mme_ue_contexts s) uid = Some (k, c)
      \<and> get_nas_specific_procedure_attach (emm_context c) = Some p \<longrightarrow>
      (\<exists>reg s'. emm_proc_attach_reject env uid cause s
                   = (emm_sap_rc env (EMMREG EMMREG_ATTACH_REJ reg), s')
         \<and> calls s' = calls s @ [EMM_SAP_SEND (EMMREG EMMREG_ATTACH_REJ reg)]
         \<and> reg_ue_id reg = uid \<and> reg_proc reg = PROC_ATTACH (p\<lparr>emm_cause := cause\<rparr>)
         \<and> \<not> notify reg \<and> free_proc reg))
   \<and> (mme_ue_context_exists_mme_ue_s1ap_id (mme_ue_contexts s) uid = None
        \<or> (mme_ue_context_exists_mme_ue_s1ap_id (mme_ue_contexts s) uid = Some (k, c)
            \<and> get_nas_specific_procedure_attach (emm_context c) = None) \<longrightarrow>
      emm_proc_attach_reject env uid cause s = (RETURNerror, s))"
proof (intro conjI impI)
  assume a: "mme_ue_context_exists_mme_ue_s1ap_id (mme_ue_contexts s) uid = Some (k, c)
      \<and> get_nas_specific_procedure_attach (emm_context c) = Some p"
  let ?reg = "\<lparr>reg_ue_id = uid, reg_ctx = Some (mme_ue_s1ap_id c), notify = False,
               free_proc = True, reg_proc = PROC_ATTACH (p\<lparr>emm_cause := cause\<rparr>),
               reg_is_emergency = False, reg_common_proc = None\<rparr>"
  show "\<exists>reg s'. emm_proc_attach_reject env uid cause s
                   = (emm_sap_rc env (EMMREG EMMREG_ATTACH_REJ reg), s')
         \<and> calls s' = calls s @ [EMM_SAP_SEND (EMMREG EMMREG_ATTACH_REJ reg)]
         \<and> reg_ue_id reg = uid \<and> reg_proc reg = PROC_ATTACH (p\<lparr>emm_cause := cause\<rparr>)
         \<and> \<not> notify reg \<and> free_proc reg"
    using a
    by (intro exI [of _ ?reg])
       (simp add: emm_proc_attach_reject_def Let_def is_nas_specific_procedure_attach_running_def
          emm_sap_send_ATTACH_REJ attach_proc_ptr_def world_simps get_upd_attach_proc
          enter_def leave_def ctx_def upd_ctx_def call_def)
next
  assume "mme_ue_context_exists_mme_ue_s1ap_id (mme_ue_contexts s) uid = None
        \<or> (mme_ue_context_exists_mme_ue_s1ap_id (mme_ue_contexts s) uid = Some (k, c)
            \<and> get_nas_specific_procedure_attach (emm_context c) = None)"
  then show "emm_proc_attach_reject env uid cause s = (RETURNerror, s)"
    by (auto simp: emm_proc_attach_reject_def Let_def is_nas_specific_procedure_attach_running_def
          enter_def ctx_def)
qed

theorem emm_proc_attach_reject_cases_witness:
  "mme_ue_context_exists_mme_ue_s1ap_id
     (mme_ue_contexts \<lparr>mme_ue_contexts = [ue_accept 1], calls = []\<rparr>) 7 = Some (0, ue_accept 1)
   \<and> get_nas_specific_procedure_attach (emm_context (ue_accept 1))
       = Some (proc0\<lparr>attach_accept_sent := 1, T3450 := NAS_TIMER_ACTIVE_ID\<rparr>)
   \<and> (\<exists>reg s'. emm_proc_attach_reject env0 7 EMM_CAUSE_PROTOCOL_ERROR
                   \<lparr>mme_ue_contexts = [ue_accept 1], calls = []\<rparr>
                  = (emm_sap_rc env0 (EMMREG EMMREG_ATTACH_REJ reg), s')
         \<and> calls s' = [EMM_SAP_SEND (EMMREG EMMREG_ATTACH_REJ reg)]
         \<and> reg_proc reg = PROC_ATTACH (proc0\<lparr>attach_accept_sent := 1,
                                  T3450 := NAS_TIMER_ACTIVE_ID,
                                  emm_cause := EMM_CAUSE_PROTOCOL_ERROR\<rparr>))
   \<and> mme_ue_context_exists_mme_ue_s1ap_id
       (mme_ue_contexts \<lparr>mme_ue_contexts = [], calls = []\<rparr>) 7 = None
   \<and> emm_proc_attach_reject env0 7 EMM_CAUSE_PROTOCOL_ERROR \<lparr>mme_ue_contexts = [], calls = []\<rparr>
       = (RETURNerror, \<lparr>mme_ue_contexts = [], calls = []\<rparr>)"
proof -
  let ?s = "\<lparr>mme_ue_contexts = [ue_accept 1], calls = []\<rparr>"
  let ?e = "\<lparr>mme_ue_contexts = [], calls = []\<rparr>"
  let ?p = "proc0\<lparr>attach_accept_sent := 1, T3450 := NAS_TIMER_ACTIVE_ID\<rparr>"
  have a: "mme_ue_context_exists_mme_ue_s1ap_id (mme_ue_contexts ?s) 7 = Some (0, ue_accept 1)"
    by (simp add: mme_ue_context_exists_mme_ue_s1ap_id_def fixture_defs)
  have b: "get_nas_specific_procedure_attach (emm_context (ue_accept 1)) = Some ?p"
    by (simp add: model_defs fixture_defs)
  have c: "mme_ue_context_exists_mme_ue_s1ap_id (mme_ue_contexts ?e) 7 = None"
    by (simp add: mme_ue_context_exists_mme_ue_s1ap_id_def)
  from emm_proc_attach_reject_cases [of ?s 7 0 "ue_accept 1" ?p env0 EMM_CAUSE_PROTOCOL_ERROR] a b
  have d: "\<exists>reg s'. emm_proc_attach_reject env0 7 EMM_CAUSE_PROTOCOL_ERROR ?s
                  = (emm_sap_rc env0 (EMMREG EMMREG_ATTACH_REJ reg), s')
         \<and> calls s' = [EMM_SAP_SEND (EMMREG EMMREG_ATTACH_REJ reg)]
         \<and> reg_proc reg = PROC_ATTACH (?p\<lparr>emm_cause := EMM_CAUSE_PROTOCOL_ERROR\<rparr>)"
    by auto
  from emm_proc_attach_reject_cases [of ?e 7 0 "ue_accept 1" ?p env0 EMM_CAUSE_PROTOCOL_ERROR] c
  have e: "emm_proc_attach_reject env0 7 EMM_CAUSE_PROTOCOL_ERROR ?e = (RETURNerror, ?e)"
    by blast
  from a b c d e show ?thesis by simp
qed

subsection \<open>Attach Complete without a procedure\<close>

text \<open>
  When no context is found, or no attach procedure runs on it, \<^verbatim>\<open>rc\<close> is \<^verbatim>\<open>RETURNerror\<close> and the
  error code of the zeroed \<^verbatim>\<open>esm_sap\<close> is 0. The final \<^verbatim>\<open>else if\<close> compares this 0 with
  \<^verbatim>\<open>ESM_SAP_DISCARDED\<close>: if the enumerator is not 0 an \<open>EMMREG_ATTACH_REJ\<close> is sent.
\<close>

lemma emm_proc_attach_complete_without_procedure:
  assumes "mme_ue_context_exists_mme_ue_s1ap_id (mme_ue_contexts s) uid = None
        \<or> (mme_ue_context_exists_mme_ue_s1ap_id (mme_ue_contexts s) uid = Some (k, c)
            \<and> get_nas_specific_procedure_attach (emm_context c) = None)"
  shows "ESM_SAP_DISCARDED env = 0 \<Longrightarrow> emm_proc_attach_complete env uid esm s = (RETURNok, s)"
    and "ESM_SAP_DISCARDED env \<noteq> 0 \<Longrightarrow>
           \<exists>reg s'. emm_proc_attach_complete env uid esm s
                       = (emm_sap_rc env (EMMREG EMMREG_ATTACH_REJ reg), s')
             \<and> calls s' = calls s @ [EMM_SAP_SEND (EMMREG EMMREG_ATTACH_REJ reg)]
             \<and> reg_ue_id reg = uid \<and> reg_proc reg = PROC_NULL \<and> notify reg"
proof -
  assume z: "ESM_SAP_DISCARDED env = 0"
  from assms show "emm_proc_attach_complete env uid esm s = (RETURNok, s)"
  proof
    assume "mme_ue_context_exists_mme_ue_s1ap_id (mme_ue_contexts s) uid = None"
    then show ?thesis using z by (simp add: emm_proc_attach_complete_def Let_def)
  next
    assume a: "mme_ue_context_exists_mme_ue_s1ap_id (mme_ue_contexts s) uid = Some (k, c)
            \<and> get_nas_specific_procedure_attach (emm_context c) = None"
    then have "leave s k (enter s c) = s"
      by (auto simp: mme_ue_context_exists_mme_ue_s1ap_id_def intro: leave_enter)
    with a z show ?thesis
      by (simp add: emm_proc_attach_complete_def Let_def ctx_def enter_def)
  qed
next
  assume nz: "ESM_SAP_DISCARDED env \<noteq> 0"
  from assms show "\<exists>reg s'. emm_proc_attach_complete env uid esm s
                       = (emm_sap_rc env (EMMREG EMMREG_ATTACH_REJ reg), s')
             \<and> calls s' = calls s @ [EMM_SAP_SEND (EMMREG EMMREG_ATTACH_REJ reg)]
             \<and> reg_ue_id reg = uid \<and> reg_proc reg = PROC_NULL \<and> notify reg"
  proof
    assume a: "mme_ue_context_exists_mme_ue_s1ap_id (mme_ue_contexts s) uid = None"
    let ?reg = "\<lparr>reg_ue_id = uid, reg_ctx = None, notify = True, free_proc = True,
                 reg_proc = PROC_NULL, reg_is_emergency = False, reg_common_proc = None\<rparr>"
    show ?thesis using a nz
      by (intro exI [of _ ?reg])
         (simp add: emm_proc_attach_complete_def Let_def emm_sap_send_no_context_def)
  next
    assume a: "mme_ue_context_exists_mme_ue_s1ap_id (mme_ue_contexts s) uid = Some (k, c)
            \<and> get_nas_specific_procedure_attach (emm_context c) = None"
    let ?reg = "\<lparr>reg_ue_id = uid, reg_ctx = Some (mme_ue_s1ap_id c), notify = True,
                 free_proc = True, reg_proc = PROC_NULL, reg_is_emergency = False,
                 reg_common_proc = None\<rparr>"
    show ?thesis using a nz
      by (intro exI [of _ ?reg])
         (simp add: emm_proc_attach_complete_def Let_def emm_sap_send_ATTACH_REJ
            ctx_def enter_def leave_def upd_ctx_def call_def)
  qed
qed

text \<open>
  Claim C6. An Attach Complete for which no context exists, or no attach procedure runs,
  should be discarded without any primitive. With an \<^verbatim>\<open>ESM_SAP_DISCARDED\<close> that is not 0 the
  function sends \<open>EMMREG_ATTACH_REJ\<close> instead, with a \<^verbatim>\<open>NULL\<close> procedure.
\<close>

theorem emm_proc_attach_complete_sends_reject:
  assumes "ESM_SAP_DISCARDED env \<noteq> 0"
      and "mme_ue_context_exists_mme_ue_s1ap_id (mme_ue_contexts s) uid = None
        \<or> (mme_ue_context_exists_mme_ue_s1ap_id (mme_ue_contexts s) uid = Some (k, c)
            \<and> get_nas_specific_procedure_attach (emm_context c) = None)"
  shows "\<exists>reg s'. emm_proc_attach_complete env uid esm s
                     = (emm_sap_rc env (EMMREG EMMREG_ATTACH_REJ reg), s')
           \<and> calls s' = calls s @ [EMM_SAP_SEND (EMMREG EMMREG_ATTACH_REJ reg)]
           \<and> reg_ue_id reg = uid \<and> reg_proc reg = PROC_NULL \<and> notify reg"
  using emm_proc_attach_complete_without_procedure(2) [OF assms(2) assms(1)] .

theorem emm_proc_attach_complete_sends_reject_witness:
  "ESM_SAP_DISCARDED env0 \<noteq> 0
   \<and> mme_ue_context_exists_mme_ue_s1ap_id
       (mme_ue_contexts \<lparr>mme_ue_contexts = [], calls = []\<rparr>) 7 = None
   \<and> (\<exists>reg s'. emm_proc_attach_complete env0 7 None \<lparr>mme_ue_contexts = [], calls = []\<rparr>
                  = (emm_sap_rc env0 (EMMREG EMMREG_ATTACH_REJ reg), s')
         \<and> calls s' = [EMM_SAP_SEND (EMMREG EMMREG_ATTACH_REJ reg)]
         \<and> reg_ue_id reg = 7 \<and> reg_proc reg = PROC_NULL \<and> notify reg)"
proof -
  let ?e = "\<lparr>mme_ue_contexts = [], calls = []\<rparr>"
  have a: "ESM_SAP_DISCARDED env0 \<noteq> 0" by (simp add: fixture_defs)
  have b: "mme_ue_context_exists_mme_ue_s1ap_id (mme_ue_contexts ?e) 7 = None"
    by (simp add: mme_ue_context_exists_mme_ue_s1ap_id_def)
  from emm_proc_attach_complete_sends_reject [OF a disjI1 [OF b], of None] a b
  show ?thesis by simp
qed

subsection \<open>The emergency gate\<close>

text \<open>
  Claim C7. An Attach Request of type emergency, received for a context the function has
  located while the configuration lacks the emergency bearer services, is answered with
  \<open>EMMREG_ATTACH_REJ\<close> for a dummy procedure of cause \<^verbatim>\<open>EMM_CAUSE_IMEI_NOT_ACCEPTED\<close> and the
  function returns at once: the specific procedure of the context and
  \<^verbatim>\<open>num_attach_request\<close> are as they were. Only the reconciliation of a duplicate eNB
  association for an initial request comes before the reject.
\<close>

theorem emergency_gate:
  assumes "emm_proc_attach_request_context env key uid0 i s = Inr (Some (k, w), uid, dup)"
      and "conf_eps_network_feature_support env
             AND EMERGENCY_BEARER_SERVICES_IN_S1_MODE_SUPPORTED env = 0"
      and "type i = EMM_ATTACH_TYPE_EMERGENCY"
  shows "\<exists>reg w'. emm_proc_attach_request env key uid0 i s
                     = Inr (emm_sap_rc env (EMMREG EMMREG_ATTACH_REJ reg), leave s k w')
           \<and> reg_ue_id reg = uid
           \<and> reg_proc reg = PROC_DUMMY EMM_CAUSE_IMEI_NOT_ACCEPTED CB_emm_attach_reject
           \<and> reg_is_emergency reg \<and> \<not> notify reg \<and> \<not> free_proc reg
           \<and> out w' = out w
                @ (if dup \<and> is_initial i
                   then [MME_API_DUPLICATE_ENB_UE_S1AP_ID_DETECTED key (mme_ue_s1ap_id (ue w))
                           REMOVE_NEW_CONTEXT]
                   else [])
                @ [EMM_SAP_SEND (EMMREG EMMREG_ATTACH_REJ reg)]
           \<and> emm_specific_proc (ctx w') = emm_specific_proc (ctx w)
           \<and> num_attach_request (ctx w') = num_attach_request (ctx w)"
proof -
  let ?reg = "\<lparr>reg_ue_id = uid, reg_ctx = Some (mme_ue_s1ap_id (ue w)), notify = False,
               free_proc = False,
               reg_proc = PROC_DUMMY EMM_CAUSE_IMEI_NOT_ACCEPTED CB_emm_attach_reject,
               reg_is_emergency = True, reg_common_proc = None\<rparr>"
  define wa where "wa = (if dup \<and> is_initial i
                         then call (MME_API_DUPLICATE_ENB_UE_S1AP_ID_DETECTED key
                                      (mme_ue_s1ap_id (ue w)) REMOVE_NEW_CONTEXT) w
                         else w)"
  define w' where "w' = upd_ctx (\<lambda>c. c\<lparr>emm_fsm_state := EMM_DEREGISTERED\<rparr>)
                          (call (EMM_SAP_SEND (EMMREG EMMREG_ATTACH_REJ ?reg)) wa)"
  have eq: "emm_proc_attach_request env key uid0 i s
              = Inr (emm_sap_rc env (EMMREG EMMREG_ATTACH_REJ ?reg), leave s k w')"
    using assms
    by (simp add: emm_proc_attach_request_def emm_proc_attach_request_on_def
          emm_proc_attach_request_collisions_def Let_def
          emm_sap_send_ATTACH_REJ mme_api_duplicate_enb_ue_s1ap_id_detected_def world_simps
          w'_def wa_def)
  have o: "out w' = out w
                @ (if dup \<and> is_initial i
                   then [MME_API_DUPLICATE_ENB_UE_S1AP_ID_DETECTED key (mme_ue_s1ap_id (ue w))
                           REMOVE_NEW_CONTEXT]
                   else [])
                @ [EMM_SAP_SEND (EMMREG EMMREG_ATTACH_REJ ?reg)]"
    by (simp add: w'_def wa_def world_simps)
  have c: "emm_specific_proc (ctx w') = emm_specific_proc (ctx w)
         \<and> num_attach_request (ctx w') = num_attach_request (ctx w)"
    by (simp add: w'_def wa_def world_simps)
  from eq o c show ?thesis
    by (intro exI [of _ ?reg] exI [of _ w']) simp
qed

theorem emergency_gate_witness:
  "emm_proc_attach_request_context env0 1 7 (ies0\<lparr>type := EMM_ATTACH_TYPE_EMERGENCY\<rparr>)
       \<lparr>mme_ue_contexts = [ue0], calls = []\<rparr>
     = Inr (Some (0, \<lparr>ue = ue0, out = []\<rparr>), 7, False)
   \<and> conf_eps_network_feature_support env0
       AND EMERGENCY_BEARER_SERVICES_IN_S1_MODE_SUPPORTED env0 = 0
   \<and> type (ies0\<lparr>type := EMM_ATTACH_TYPE_EMERGENCY\<rparr>) = EMM_ATTACH_TYPE_EMERGENCY
   \<and> (\<exists>reg w'. emm_proc_attach_request env0 1 7 (ies0\<lparr>type := EMM_ATTACH_TYPE_EMERGENCY\<rparr>)
                   \<lparr>mme_ue_contexts = [ue0], calls = []\<rparr>
                  = Inr (RETURNok, leave \<lparr>mme_ue_contexts = [ue0], calls = []\<rparr> 0 w')
         \<and> reg_proc reg = PROC_DUMMY EMM_CAUSE_IMEI_NOT_ACCEPTED CB_emm_attach_reject
         \<and> out w' = [EMM_SAP_SEND (EMMREG EMMREG_ATTACH_REJ reg)]
         \<and> emm_specific_proc (ctx w') = None
         \<and> num_attach_request (ctx w') = 0)"
proof -
  let ?i = "ies0\<lparr>type := EMM_ATTACH_TYPE_EMERGENCY\<rparr>"
  let ?s = "\<lparr>mme_ue_contexts = [ue0], calls = []\<rparr>"
  let ?w = "\<lparr>ue = ue0, out = []\<rparr>"
  have a: "emm_proc_attach_request_context env0 1 7 ?i ?s = Inr (Some (0, ?w), 7, False)"
    by (simp add: emm_proc_attach_request_context_def mme_ue_context_exists_mme_ue_s1ap_id_def
          enter_def Let_def fixture_defs)
  have b: "conf_eps_network_feature_support env0
             AND EMERGENCY_BEARER_SERVICES_IN_S1_MODE_SUPPORTED env0 = 0"
    by (simp add: fixture_defs)
  have c: "type ?i = EMM_ATTACH_TYPE_EMERGENCY" by simp
  have d: "emm_specific_proc (ctx ?w) = None \<and> num_attach_request (ctx ?w) = 0
           \<and> emm_sap_rc env0 = (\<lambda>sap. RETURNok)"
    by (simp add: ctx_def fixture_defs)
  from emergency_gate [OF a b c] a b c d show ?thesis by auto
qed

subsection \<open>A repeated Attach Request after the Attach Accept (abnormal case d)\<close>

lemma emm_proc_attach_request_identification_accept_sent:
  assumes "get_nas_specific_procedure_attach (ctx w) = Some p" "attach_accept_sent p \<noteq> 0"
  shows "emm_proc_attach_request_identification env i w = Inr (Inr w)"
  using assms
  by (simp add: emm_proc_attach_request_identification_def is_nas_attach_accept_sent_def
        split: option.splits)

lemma emm_proc_create_procedure_attach_request_free:
  assumes "emm_specific_proc (ctx w) = None"
  shows "\<exists>w'. emm_proc_create_procedure_attach_request i w = Inr w'
           \<and> get_nas_specific_procedure_attach (ctx w')
               = Some ((new_attach_proc (mme_ue_s1ap_id (ue w)) i)
                         \<lparr>abort := CB_emm_attach_abort, time_out := CB_emm_attach_t3450_handler\<rparr>)
           \<and> out w' = out w
           \<and> num_attach_request (ctx w') = num_attach_request (ctx w)
           \<and> emm_fsm_state (ctx w') = emm_fsm_state (ctx w)
           \<and> emm_common_procs (ctx w') = emm_common_procs (ctx w)
           \<and> mme_ue_s1ap_id (ue w') = mme_ue_s1ap_id (ue w)"
  using assms
  by (simp add: emm_proc_create_procedure_attach_request_def nas_new_attach_procedure_def
        world_simps get_upd_attach_proc frame_upd_attach_proc
        get_nas_specific_procedure_attach_def new_attach_proc_def upd_attach_proc_def)

lemma emm_attach_run_procedure_returns:
  assumes "get_nas_specific_procedure_attach (ctx w) = Some q"
      and "imsi (ies q) \<noteq> None \<or> guti (ies q) \<noteq> None \<or> imei (ies q) = None"
  shows "\<exists>rc w' tail. emm_attach_run_procedure env w = Inr (rc, w')
           \<and> out w' = out w @ tail
           \<and> filter is_attach_accept tail = [] \<and> filter is_attach_abort tail = []
           \<and> emm_specific_proc (ctx w') = emm_specific_proc (ctx w)
           \<and> num_attach_request (ctx w') = num_attach_request (ctx w)"
proof -
  have a: "\<exists>tail. out (snd (emm_proc_identification env s f w)) = out w @ tail
           \<and> filter is_attach_accept tail = [] \<and> filter is_attach_abort tail = []
           \<and> emm_specific_proc (ctx (snd (emm_proc_identification env s f w)))
               = emm_specific_proc (ctx w)
           \<and> num_attach_request (ctx (snd (emm_proc_identification env s f w)))
               = num_attach_request (ctx w)" for s f
    by (simp add: emm_proc_identification_def world_simps)
  have b: "\<exists>tail. out (snd (emm_proc_authentication env s f w)) = out w @ tail
           \<and> filter is_attach_accept tail = [] \<and> filter is_attach_abort tail = []
           \<and> emm_specific_proc (ctx (snd (emm_proc_authentication env s f w)))
               = emm_specific_proc (ctx w)
           \<and> num_attach_request (ctx (snd (emm_proc_authentication env s f w)))
               = num_attach_request (ctx w)" for s f
    by (simp add: emm_proc_authentication_def world_simps)
  have c: "\<exists>tail. out w = out w @ tail
           \<and> filter is_attach_accept tail = [] \<and> filter is_attach_abort tail = []"
    by simp
  have "emm_attach_run_procedure env w
                     = Inr (emm_proc_authentication env CB_emm_attach_success_authentication_cb
                              CB_emm_attach_failure_authentication_cb w)
    \<or> emm_attach_run_procedure env w
                     = Inr (emm_proc_identification env CB_emm_attach_success_identification_cb
                              CB_emm_attach_failure_identification_cb w)
    \<or> emm_attach_run_procedure env w = Inr (RETURNerror, w)"
    using assms
    by (cases "mac_matched (decode_status (ies q))")
       (auto simp: emm_attach_run_procedure_def emm_start_attach_proc_authentication_def)
  then show ?thesis
  proof (elim disjE)
    assume auth: "emm_attach_run_procedure env w
                     = Inr (emm_proc_authentication env CB_emm_attach_success_authentication_cb
                              CB_emm_attach_failure_authentication_cb w)"
    from b [of CB_emm_attach_success_authentication_cb CB_emm_attach_failure_authentication_cb]
    obtain tail where "out (snd (emm_proc_authentication env CB_emm_attach_success_authentication_cb
                              CB_emm_attach_failure_authentication_cb w)) = out w @ tail"
      "filter is_attach_accept tail = []" "filter is_attach_abort tail = []"
      "emm_specific_proc (ctx (snd (emm_proc_authentication env CB_emm_attach_success_authentication_cb
                              CB_emm_attach_failure_authentication_cb w))) = emm_specific_proc (ctx w)"
      "num_attach_request (ctx (snd (emm_proc_authentication env CB_emm_attach_success_authentication_cb
                              CB_emm_attach_failure_authentication_cb w))) = num_attach_request (ctx w)"
      by (elim exE conjE)
    with auth show ?thesis
      by (cases "emm_proc_authentication env CB_emm_attach_success_authentication_cb
                              CB_emm_attach_failure_authentication_cb w") auto
  next
    assume ident: "emm_attach_run_procedure env w
                     = Inr (emm_proc_identification env CB_emm_attach_success_identification_cb
                              CB_emm_attach_failure_identification_cb w)"
    from a [of CB_emm_attach_success_identification_cb CB_emm_attach_failure_identification_cb]
    obtain tail where "out (snd (emm_proc_identification env CB_emm_attach_success_identification_cb
                              CB_emm_attach_failure_identification_cb w)) = out w @ tail"
      "filter is_attach_accept tail = []" "filter is_attach_abort tail = []"
      "emm_specific_proc (ctx (snd (emm_proc_identification env CB_emm_attach_success_identification_cb
                              CB_emm_attach_failure_identification_cb w))) = emm_specific_proc (ctx w)"
      "num_attach_request (ctx (snd (emm_proc_identification env CB_emm_attach_success_identification_cb
                              CB_emm_attach_failure_identification_cb w))) = num_attach_request (ctx w)"
      by (elim exE conjE)
    with ident show ?thesis
      by (cases "emm_proc_identification env CB_emm_attach_success_identification_cb
                              CB_emm_attach_failure_identification_cb w") auto
  next
    assume "emm_attach_run_procedure env w = Inr (RETURNerror, w)"
    then show ?thesis by simp
  qed
qed

text \<open>
  The function on a located context when the emergency gate is passed and no security mode
  control runs: the reconciliation for an initial request, then the three parts.
\<close>

lemma emm_proc_attach_request_on_parts:
  assumes "\<not> (conf_eps_network_feature_support env
                AND EMERGENCY_BEARER_SERVICES_IN_S1_MODE_SUPPORTED env = 0
              \<and> type i = EMM_ATTACH_TYPE_EMERGENCY)"
      and "get_nas_common_procedure_smc (ctx w) = None"
      and "wa = (if dup \<and> is_initial i
                 then call (MME_API_DUPLICATE_ENB_UE_S1AP_ID_DETECTED key
                              (mme_ue_s1ap_id (ue w)) REMOVE_NEW_CONTEXT) w
                 else w)"
      and "dupa = (dup \<and> \<not> is_initial i)"
  shows "emm_proc_attach_request_on env key uid i dup w =
          (case emm_proc_attach_request_identification env i wa of
             Inl e \<Rightarrow> Inl e
           | Inr (Inl early) \<Rightarrow> Inr early
           | Inr (Inr w2) \<Rightarrow>
              (case emm_proc_attach_request_attach env key uid i dupa w2 of
                 Inl e \<Rightarrow> Inl e
               | Inr (Inl early) \<Rightarrow> Inr early
               | Inr (Inr (w3, dup')) \<Rightarrow> emm_proc_attach_request_run env key i dup' w3))"
  unfolding assms(3,4) using assms(1,2)
  by (cases "dup \<and> is_initial i")
     (auto simp: emm_proc_attach_request_on_def emm_proc_attach_request_collisions_def Let_def
        mme_api_duplicate_enb_ue_s1ap_id_detected_def world_simps
        split: sum.splits cong: sum.case_cong)

lemma abnormal_case_d_changed:
  assumes gate: "\<not> (conf_eps_network_feature_support env
                AND EMERGENCY_BEARER_SERVICES_IN_S1_MODE_SUPPORTED env = 0
              \<and> type i = EMM_ATTACH_TYPE_EMERGENCY)"
      and smc: "get_nas_common_procedure_smc (ctx w) = None"
      and p: "get_nas_specific_procedure_attach (ctx w) = Some p"
      and acc: "attach_accept_sent p \<noteq> 0" and ncr: "\<not> attach_complete_received p"
      and ch: "emm_attach_ies_have_changed i (ies p)"
      and run: "imsi i \<noteq> None \<or> guti i \<noteq> None \<or> imei i = None"
  shows "\<exists>rc w' reg rest.
           emm_proc_attach_request_on env key uid i dup w = Inr (rc, w')
         \<and> out w' = out w
              @ (if dup \<and> is_initial i
                 then [MME_API_DUPLICATE_ENB_UE_S1AP_ID_DETECTED key (mme_ue_s1ap_id (ue w))
                         REMOVE_NEW_CONTEXT]
                 else [])
              @ EMM_SAP_SEND (EMMREG EMMREG_ATTACH_ABORT reg) # rest
         \<and> reg_ue_id reg = ue_id p \<and> reg_proc reg = PROC_ATTACH p
         \<and> notify reg \<and> free_proc reg
         \<and> filter is_attach_abort rest = [] \<and> filter is_attach_accept rest = []
         \<and> get_nas_specific_procedure_attach (ctx w')
             = Some ((new_attach_proc (mme_ue_s1ap_id (ue w)) i)
                       \<lparr>abort := CB_emm_attach_abort, time_out := CB_emm_attach_t3450_handler\<rparr>)"
proof -
  define wa where "wa = (if dup \<and> is_initial i
                 then call (MME_API_DUPLICATE_ENB_UE_S1AP_ID_DETECTED key
                              (mme_ue_s1ap_id (ue w)) REMOVE_NEW_CONTEXT) w
                 else w)"
  define dup' where "dup' = (dup \<and> \<not> is_initial i)"
  define w1 where "w1 = upd_ctx (\<lambda>c. c\<lparr>num_attach_request := num_attach_request c + 1\<rparr>) wa"
  define reg where "reg = \<lparr>reg_ue_id = ue_id p, reg_ctx = Some (mme_ue_s1ap_id (ue w1)),
                           notify = True, free_proc = True, reg_proc = PROC_ATTACH p,
                           reg_is_emergency = False, reg_common_proc = None\<rparr>"
  have oa: "out wa = out w
              @ (if dup \<and> is_initial i
                 then [MME_API_DUPLICATE_ENB_UE_S1AP_ID_DETECTED key (mme_ue_s1ap_id (ue w))
                         REMOVE_NEW_CONTEXT]
                 else [])"
    and ca: "ctx wa = ctx w" and ua: "ue wa = ue w"
    by (simp_all add: wa_def world_simps)
  have pa: "get_nas_specific_procedure_attach (ctx wa) = Some p" using p ca by simp
  have p1: "get_nas_specific_procedure_attach (ctx w1) = Some p"
    using pa by (simp add: w1_def world_simps get_nas_specific_procedure_attach_def)
  have o1: "out w1 = out wa" and u1: "mme_ue_s1ap_id (ue w1) = mme_ue_s1ap_id (ue w)"
    using ua by (simp_all add: w1_def world_simps)
  have "reg_ctx reg = Some (mme_ue_s1ap_id (ue w1))" "free_proc reg" by (simp_all add: reg_def)
  from emm_sap_send_ATTACH_ABORT [OF p1 this, of env]
  obtain rest w2 where
        e2: "emm_sap_send env (EMMREG EMMREG_ATTACH_ABORT reg) w1
               = (emm_sap_rc env (EMMREG EMMREG_ATTACH_ABORT reg), w2)"
    and o2: "out w2 = out w1 @ EMM_SAP_SEND (EMMREG EMMREG_ATTACH_ABORT reg) # rest"
    and r2: "filter is_attach_accept rest = []" "filter is_attach_abort rest = []"
    and s2: "emm_specific_proc (ctx w2) = None"
    and f2: "emm_fsm_state (ctx w2) = EMM_DEREGISTERED"
    and u2: "mme_ue_s1ap_id (ue w2) = mme_ue_s1ap_id (ue w1)"
    by (elim exE conjE)
  define w3 where "w3 = (if dup'
                         then mme_api_duplicate_enb_ue_s1ap_id_detected key
                                (mme_ue_s1ap_id (ue w2)) REMOVE_OLD_CONTEXT w2
                         else w2)"
  have s3: "emm_specific_proc (ctx w3) = None"
    and f3: "emm_fsm_state (ctx w3) = EMM_DEREGISTERED"
    and u3: "mme_ue_s1ap_id (ue w3) = mme_ue_s1ap_id (ue w)"
    and o3: "\<exists>t. out w3 = out w2 @ t \<and> filter is_attach_accept t = []
                  \<and> filter is_attach_abort t = []"
    using s2 f2 u2 u1
    by (simp_all add: w3_def mme_api_duplicate_enb_ue_s1ap_id_detected_def world_simps)
  from emm_proc_create_procedure_attach_request_free [OF s3, of i]
  obtain w4 where
        e4: "emm_proc_create_procedure_attach_request i w3 = Inr w4"
    and p4: "get_nas_specific_procedure_attach (ctx w4)
               = Some ((new_attach_proc (mme_ue_s1ap_id (ue w3)) i)
                         \<lparr>abort := CB_emm_attach_abort, time_out := CB_emm_attach_t3450_handler\<rparr>)"
    and o4: "out w4 = out w3"
    and f4: "emm_fsm_state (ctx w4) = emm_fsm_state (ctx w3)"
    by (elim exE conjE)
  have att: "emm_proc_attach_request_attach env key uid i dup' wa = Inr (Inr (w4, False))"
    using pa acc ncr ch e2 [unfolded reg_def w1_def] e4 [unfolded w3_def]
    by (cases dup')
       (simp_all add: emm_proc_attach_request_attach_def Let_def is_nas_attach_accept_sent_def
          is_nas_attach_complete_received_def w1_def)
  define w5 where "w5 = upd_ctx (\<lambda>c. c\<lparr>num_attach_request := num_attach_request c + 1\<rparr>) w4"
  have p5: "get_nas_specific_procedure_attach (ctx w5)
               = Some ((new_attach_proc (mme_ue_s1ap_id (ue w)) i)
                         \<lparr>abort := CB_emm_attach_abort, time_out := CB_emm_attach_t3450_handler\<rparr>)"
    using p4 u3 by (simp add: w5_def world_simps get_nas_specific_procedure_attach_def)
  have o5: "out w5 = out w4" by (simp add: w5_def world_simps)
  have rn: "emm_proc_attach_request_run env key i False w4 = emm_attach_run_procedure env w5"
    using f4 f3 p5
    by (simp add: emm_proc_attach_request_run_def Let_def
          is_nas_specific_procedure_attach_running_def w5_def)
  have "imsi (ies ((new_attach_proc (mme_ue_s1ap_id (ue w)) i)
                     \<lparr>abort := CB_emm_attach_abort, time_out := CB_emm_attach_t3450_handler\<rparr>)) \<noteq> None
      \<or> guti (ies ((new_attach_proc (mme_ue_s1ap_id (ue w)) i)
                     \<lparr>abort := CB_emm_attach_abort, time_out := CB_emm_attach_t3450_handler\<rparr>)) \<noteq> None
      \<or> imei (ies ((new_attach_proc (mme_ue_s1ap_id (ue w)) i)
                     \<lparr>abort := CB_emm_attach_abort, time_out := CB_emm_attach_t3450_handler\<rparr>)) = None"
    using run by (simp add: new_attach_proc_def)
  from emm_attach_run_procedure_returns [OF p5 this, of env]
  obtain rc w' tail where
        e6: "emm_attach_run_procedure env w5 = Inr (rc, w')"
    and o6: "out w' = out w5 @ tail"
    and r6: "filter is_attach_accept tail = []" "filter is_attach_abort tail = []"
    and s6: "emm_specific_proc (ctx w') = emm_specific_proc (ctx w5)"
    by (elim exE conjE)
  from o3 obtain t where t: "out w3 = out w2 @ t" "filter is_attach_accept t = []"
    "filter is_attach_abort t = []"
    by (elim exE conjE)
  have idn: "emm_proc_attach_request_identification env i wa = Inr (Inr wa)"
    by (rule emm_proc_attach_request_identification_accept_sent [OF pa acc])
  have eq: "emm_proc_attach_request_on env key uid i dup w = Inr (rc, w')"
    using emm_proc_attach_request_on_parts [OF gate smc wa_def dup'_def, where uid = uid] idn att rn e6
    by simp
  have o: "out w' = out w
              @ (if dup \<and> is_initial i
                 then [MME_API_DUPLICATE_ENB_UE_S1AP_ID_DETECTED key (mme_ue_s1ap_id (ue w))
                         REMOVE_NEW_CONTEXT]
                 else [])
              @ EMM_SAP_SEND (EMMREG EMMREG_ATTACH_ABORT reg) # (rest @ t @ tail)"
    using o6 o5 o4 t(1) o2 o1 oa by simp
  have pw: "get_nas_specific_procedure_attach (ctx w')
             = Some ((new_attach_proc (mme_ue_s1ap_id (ue w)) i)
                       \<lparr>abort := CB_emm_attach_abort, time_out := CB_emm_attach_t3450_handler\<rparr>)"
    using s6 p5 by (simp add: get_nas_specific_procedure_attach_def)
  have fr: "filter is_attach_abort (rest @ t @ tail) = []"
           "filter is_attach_accept (rest @ t @ tail) = []"
    using r2 t r6 by simp_all
  have rg: "reg_ue_id reg = ue_id p \<and> reg_proc reg = PROC_ATTACH p \<and> notify reg \<and> free_proc reg"
    by (simp add: reg_def)
  from eq o rg fr pw show ?thesis
    by (intro exI [of _ rc] exI [of _ w'] exI [of _ reg] exI [of _ "rest @ t @ tail"]) simp
qed

lemma abnormal_case_d_unchanged:
  assumes gate: "\<not> (conf_eps_network_feature_support env
                AND EMERGENCY_BEARER_SERVICES_IN_S1_MODE_SUPPORTED env = 0
              \<and> type i = EMM_ATTACH_TYPE_EMERGENCY)"
      and smc: "get_nas_common_procedure_smc (ctx w) = None"
      and p: "get_nas_specific_procedure_attach (ctx w) = Some p"
      and acc: "attach_accept_sent p \<noteq> 0" and ncr: "\<not> attach_complete_received p"
      and nch: "\<not> emm_attach_ies_have_changed i (ies p)"
      and tai: "originating_tai (ies p) = Some t"
      and gp: "IS_EMM_CTXT_PRESENT_GUTI (ctx w)"
      and st: "emm_fsm_state (ctx w) \<noteq> EMM_REGISTERED"
      and run: "imsi (ies p) \<noteq> None \<or> guti (ies p) \<noteq> None \<or> imei (ies p) = None"
  shows "\<exists>rc w' est tail.
           emm_proc_attach_request_on env key uid i dup w = Inr (rc, w')
         \<and> as_ue_id est = mme_ue_s1ap_id (ue w) \<and> nas_msg est = esm_msg_out p
         \<and> out w' = out w
              @ (if dup \<and> is_initial i
                 then [MME_API_DUPLICATE_ENB_UE_S1AP_ID_DETECTED key (mme_ue_s1ap_id (ue w))
                         REMOVE_NEW_CONTEXT]
                 else [])
              @ NAS_STOP_T3450 uid # EMM_SAP_SEND (EMMAS EMMAS_ESTABLISH_CNF est)
              # (if emm_sap_rc env (EMMAS EMMAS_ESTABLISH_CNF est) \<noteq> RETURNerror
                 then [NAS_STOP_T3450 (mme_ue_s1ap_id (ue w)),
                       NAS_START_T3450 (ue_id p) (time_out p)]
                 else [])
              @ NAS_START_T3450 uid (time_out p) # tail
         \<and> filter is_attach_accept tail = [] \<and> filter is_attach_abort tail = []
         \<and> get_nas_specific_procedure_attach (ctx w') = Some (p\<lparr>T3450 := NAS_TIMER_ACTIVE_ID\<rparr>)"
proof -
  define wa where "wa = (if dup \<and> is_initial i
                 then call (MME_API_DUPLICATE_ENB_UE_S1AP_ID_DETECTED key
                              (mme_ue_s1ap_id (ue w)) REMOVE_NEW_CONTEXT) w
                 else w)"
  define dup' where "dup' = (dup \<and> \<not> is_initial i)"
  define w1 where "w1 = upd_ctx (\<lambda>c. c\<lparr>num_attach_request := num_attach_request c + 1\<rparr>) wa"
  define w2 where "w2 = nas_stop_T3450 uid w1"
  define p2 where "p2 = p\<lparr>T3450 := NAS_TIMER_INACTIVE_ID\<rparr>"
  have oa: "out wa = out w
              @ (if dup \<and> is_initial i
                 then [MME_API_DUPLICATE_ENB_UE_S1AP_ID_DETECTED key (mme_ue_s1ap_id (ue w))
                         REMOVE_NEW_CONTEXT]
                 else [])"
    and ca: "ctx wa = ctx w" and ua: "ue wa = ue w"
    by (simp_all add: wa_def world_simps)
  have pa: "get_nas_specific_procedure_attach (ctx wa) = Some p" using p ca by simp
  have p1: "get_nas_specific_procedure_attach (ctx w1) = Some p"
    using pa by (simp add: w1_def world_simps get_nas_specific_procedure_attach_def)
  have k1: "out w1 = out wa" "mme_ue_s1ap_id (ue w1) = mme_ue_s1ap_id (ue w)"
    "emm_fsm_state (ctx w1) = emm_fsm_state (ctx w)" "IS_EMM_CTXT_PRESENT_GUTI (ctx w1)"
    using ua ca gp by (simp_all add: w1_def world_simps IS_EMM_CTXT_PRESENT_GUTI_def)
  have p2': "get_nas_specific_procedure_attach (ctx w2) = Some p2"
    using p1 by (simp add: w2_def p2_def nas_stop_T3450_def world_simps get_upd_attach_proc)
  have k2: "out w2 = out wa @ [NAS_STOP_T3450 uid]"
    "mme_ue_s1ap_id (ue w2) = mme_ue_s1ap_id (ue w)"
    "emm_fsm_state (ctx w2) = emm_fsm_state (ctx w)" "IS_EMM_CTXT_PRESENT_GUTI (ctx w2)"
    using k1 by (simp_all add: w2_def nas_stop_T3450_def world_simps frame_upd_attach_proc)
  have t2: "originating_tai (ies p2) = Some t" using tai by (simp add: p2_def)
  from p2' t2 obtain est w3 where
        e3: "emm_send_attach_accept env w2
               = Inr (emm_sap_rc env (EMMAS EMMAS_ESTABLISH_CNF est), w3)"
    and c3: "accept_composed env w2 p2 est w3"
  proof (cases rule: emm_send_attach_accept_cases [where env = env])
    case (fail w5)
    with k2(4) show ?thesis by simp
  next
    case (sent w5 est w3)
    then show ?thesis by (intro that [of est w3])
  qed
  from c3 have
        a3: "as_ue_id est = mme_ue_s1ap_id (ue w2)" "nas_msg est = esm_msg_out p2"
    and o3: "out w3 = out w2 @ EMM_SAP_SEND (EMMAS EMMAS_ESTABLISH_CNF est)
                # (if emm_sap_rc env (EMMAS EMMAS_ESTABLISH_CNF est) \<noteq> RETURNerror
                   then [NAS_STOP_T3450 (mme_ue_s1ap_id (ue w2)),
                         NAS_START_T3450 (ue_id p2) (time_out p2)]
                   else [])"
    and p3: "get_nas_specific_procedure_attach (ctx w3)
       = Some (if emm_sap_rc env (EMMAS EMMAS_ESTABLISH_CNF est) \<noteq> RETURNerror
               then p2\<lparr>T3450 := NAS_TIMER_ACTIVE_ID\<rparr> else p2)"
    and f3: "emm_fsm_state (ctx w3) = emm_fsm_state (ctx w2)"
    by (simp_all add: accept_composed_def)
  define q3 where "q3 = (if emm_sap_rc env (EMMAS EMMAS_ESTABLISH_CNF est) \<noteq> RETURNerror
               then p2\<lparr>T3450 := NAS_TIMER_ACTIVE_ID\<rparr> else p2)"
  have q3: "get_nas_specific_procedure_attach (ctx w3) = Some q3"
    "\<not> attach_complete_received q3" "time_out q3 = time_out p"
    "q3\<lparr>T3450 := NAS_TIMER_ACTIVE_ID\<rparr> = p\<lparr>T3450 := NAS_TIMER_ACTIVE_ID\<rparr>"
    using p3 ncr by (simp_all add: q3_def p2_def)
  define w4 where "w4 = nas_start_T3450 uid (time_out p) w3"
  have p4: "get_nas_specific_procedure_attach (ctx w4) = Some (p\<lparr>T3450 := NAS_TIMER_ACTIVE_ID\<rparr>)"
    using q3(1,4) by (simp add: w4_def nas_start_T3450_def world_simps get_upd_attach_proc)
  have k4: "out w4 = out w3 @ [NAS_START_T3450 uid (time_out p)]"
    "emm_fsm_state (ctx w4) = emm_fsm_state (ctx w)"
    using f3 k2(3) by (simp_all add: w4_def nas_start_T3450_def world_simps frame_upd_attach_proc)
  have att: "emm_proc_attach_request_attach env key uid i dup' wa = Inr (Inr (w4, dup'))"
    using pa acc ncr nch e3 [unfolded w2_def w1_def] q3(1,2,3)
    by (simp add: emm_proc_attach_request_attach_def Let_def is_nas_attach_accept_sent_def
          is_nas_attach_complete_received_def w4_def)
  define w5 where "w5 = upd_ctx (\<lambda>c. c\<lparr>num_attach_request := num_attach_request c + 1\<rparr>) w4"
  define w6 where "w6 = (if dup'
                         then mme_api_duplicate_enb_ue_s1ap_id_detected key
                                (mme_ue_s1ap_id (ue w5)) REMOVE_OLD_CONTEXT w5
                         else w5)"
  have p6: "get_nas_specific_procedure_attach (ctx w6) = Some (p\<lparr>T3450 := NAS_TIMER_ACTIVE_ID\<rparr>)"
    using p4
    by (simp add: w6_def w5_def mme_api_duplicate_enb_ue_s1ap_id_detected_def world_simps
          get_nas_specific_procedure_attach_def)
  have o6: "\<exists>d. out w6 = out w4 @ d \<and> filter is_attach_accept d = []
                \<and> filter is_attach_abort d = []"
    by (simp add: w6_def w5_def mme_api_duplicate_enb_ue_s1ap_id_detected_def world_simps)
  have rn: "emm_proc_attach_request_run env key i dup' w4 = emm_attach_run_procedure env w6"
    using k4(2) st p6 [unfolded w6_def w5_def]
    by (cases dup')
       (simp_all add: emm_proc_attach_request_run_def Let_def
          is_nas_specific_procedure_attach_running_def w6_def w5_def)
  have "imsi (ies (p\<lparr>T3450 := NAS_TIMER_ACTIVE_ID\<rparr>)) \<noteq> None
      \<or> guti (ies (p\<lparr>T3450 := NAS_TIMER_ACTIVE_ID\<rparr>)) \<noteq> None
      \<or> imei (ies (p\<lparr>T3450 := NAS_TIMER_ACTIVE_ID\<rparr>)) = None"
    using run by simp
  from emm_attach_run_procedure_returns [OF p6 this, of env]
  obtain rc w' tail where
        e7: "emm_attach_run_procedure env w6 = Inr (rc, w')"
    and o7: "out w' = out w6 @ tail"
    and r7: "filter is_attach_accept tail = []" "filter is_attach_abort tail = []"
    and s7: "emm_specific_proc (ctx w') = emm_specific_proc (ctx w6)"
    by (elim exE conjE)
  from o6 obtain d where d: "out w6 = out w4 @ d" "filter is_attach_accept d = []"
    "filter is_attach_abort d = []"
    by (elim exE conjE)
  have idn: "emm_proc_attach_request_identification env i wa = Inr (Inr wa)"
    by (rule emm_proc_attach_request_identification_accept_sent [OF pa acc])
  have eq: "emm_proc_attach_request_on env key uid i dup w = Inr (rc, w')"
    using emm_proc_attach_request_on_parts [OF gate smc wa_def dup'_def, where uid = uid]
      idn att rn e7
    by simp
  have o: "out w' = out w
              @ (if dup \<and> is_initial i
                 then [MME_API_DUPLICATE_ENB_UE_S1AP_ID_DETECTED key (mme_ue_s1ap_id (ue w))
                         REMOVE_NEW_CONTEXT]
                 else [])
              @ NAS_STOP_T3450 uid # EMM_SAP_SEND (EMMAS EMMAS_ESTABLISH_CNF est)
              # (if emm_sap_rc env (EMMAS EMMAS_ESTABLISH_CNF est) \<noteq> RETURNerror
                 then [NAS_STOP_T3450 (mme_ue_s1ap_id (ue w)),
                       NAS_START_T3450 (ue_id p) (time_out p)]
                 else [])
              @ NAS_START_T3450 uid (time_out p) # (d @ tail)"
    using o7 d(1) k4(1) o3 k2(1,2) oa by (simp add: p2_def)
  have pw: "get_nas_specific_procedure_attach (ctx w') = Some (p\<lparr>T3450 := NAS_TIMER_ACTIVE_ID\<rparr>)"
    using s7 p6 by (simp add: get_nas_specific_procedure_attach_def)
  have fr: "filter is_attach_accept (d @ tail) = []" "filter is_attach_abort (d @ tail) = []"
    using d r7 by simp_all
  have a: "as_ue_id est = mme_ue_s1ap_id (ue w) \<and> nas_msg est = esm_msg_out p"
    using a3 k2(2) by (simp add: p2_def)
  from eq a o fr pw show ?thesis
    by (intro exI [of _ rc] exI [of _ w'] exI [of _ est] exI [of _ "d @ tail"]) simp
qed

text \<open>
  What abnormal case d does once it is entered, that is for a running procedure whose
  counter \<^verbatim>\<open>attach_accept_sent\<close> is not zero and whose Attach Complete is not received; the
  emergency gate is passed and no security mode control runs. If the IEs differ from the
  stored ones, \<open>EMMREG_ATTACH_ABORT\<close> is sent for the old procedure and a fresh procedure for
  the new IEs is registered. If they do not differ, T3450 is stopped, the Attach Accept is
  sent again with the stored ESM message, T3450 is started, and the procedure is the old
  one with \<^verbatim>\<open>attach_accept_sent\<close> as it was.
\<close>

lemma abnormal_case_d:
  assumes "emm_proc_attach_request_context env key uid0 i s = Inr (Some (k, w), uid, dup)"
      and "\<not> (conf_eps_network_feature_support env
                AND EMERGENCY_BEARER_SERVICES_IN_S1_MODE_SUPPORTED env = 0
              \<and> type i = EMM_ATTACH_TYPE_EMERGENCY)"
      and "get_nas_common_procedure_smc (ctx w) = None"
      and "get_nas_specific_procedure_attach (ctx w) = Some p"
      and "is_nas_attach_accept_sent p" and "\<not> is_nas_attach_complete_received p"
  shows "(emm_attach_ies_have_changed i (ies p)
            \<and> (imsi i \<noteq> None \<or> guti i \<noteq> None \<or> imei i = None) \<longrightarrow>
          (\<exists>rc w' reg rest.
             emm_proc_attach_request env key uid0 i s = Inr (rc, leave s k w')
           \<and> out w' = out w
                @ (if dup \<and> is_initial i
                   then [MME_API_DUPLICATE_ENB_UE_S1AP_ID_DETECTED key (mme_ue_s1ap_id (ue w))
                           REMOVE_NEW_CONTEXT]
                   else [])
                @ EMM_SAP_SEND (EMMREG EMMREG_ATTACH_ABORT reg) # rest
           \<and> reg_ue_id reg = ue_id p \<and> reg_proc reg = PROC_ATTACH p
           \<and> notify reg \<and> free_proc reg
           \<and> filter is_attach_abort rest = [] \<and> filter is_attach_accept rest = []
           \<and> get_nas_specific_procedure_attach (ctx w')
               = Some ((new_attach_proc (mme_ue_s1ap_id (ue w)) i)
                         \<lparr>abort := CB_emm_attach_abort,
                          time_out := CB_emm_attach_t3450_handler\<rparr>)))
       \<and> (\<not> emm_attach_ies_have_changed i (ies p)
            \<and> originating_tai (ies p) \<noteq> None \<and> IS_EMM_CTXT_PRESENT_GUTI (ctx w)
            \<and> emm_fsm_state (ctx w) \<noteq> EMM_REGISTERED
            \<and> (imsi (ies p) \<noteq> None \<or> guti (ies p) \<noteq> None \<or> imei (ies p) = None) \<longrightarrow>
          (\<exists>rc w' est tail.
             emm_proc_attach_request env key uid0 i s = Inr (rc, leave s k w')
           \<and> as_ue_id est = mme_ue_s1ap_id (ue w) \<and> nas_msg est = esm_msg_out p
           \<and> out w' = out w
                @ (if dup \<and> is_initial i
                   then [MME_API_DUPLICATE_ENB_UE_S1AP_ID_DETECTED key (mme_ue_s1ap_id (ue w))
                           REMOVE_NEW_CONTEXT]
                   else [])
                @ NAS_STOP_T3450 uid # EMM_SAP_SEND (EMMAS EMMAS_ESTABLISH_CNF est)
                # (if emm_sap_rc env (EMMAS EMMAS_ESTABLISH_CNF est) \<noteq> RETURNerror
                   then [NAS_STOP_T3450 (mme_ue_s1ap_id (ue w)),
                         NAS_START_T3450 (ue_id p) (time_out p)]
                   else [])
                @ NAS_START_T3450 uid (time_out p) # tail
           \<and> filter is_attach_accept tail = [] \<and> filter is_attach_abort tail = []
           \<and> get_nas_specific_procedure_attach (ctx w')
               = Some (p\<lparr>T3450 := NAS_TIMER_ACTIVE_ID\<rparr>)))"
proof (intro conjI impI)
  assume a: "emm_attach_ies_have_changed i (ies p)
            \<and> (imsi i \<noteq> None \<or> guti i \<noteq> None \<or> imei i = None)"
  from assms(5,6) have acc: "attach_accept_sent p \<noteq> 0" and ncr: "\<not> attach_complete_received p"
    by (simp_all add: is_nas_attach_accept_sent_def is_nas_attach_complete_received_def)
  from abnormal_case_d_changed [OF assms(2,3,4) acc ncr conjunct1 [OF a] conjunct2 [OF a],
      of key uid dup]
  obtain rc w' reg rest where
    r: "emm_proc_attach_request_on env key uid i dup w = Inr (rc, w')"
       "out w' = out w
                @ (if dup \<and> is_initial i
                   then [MME_API_DUPLICATE_ENB_UE_S1AP_ID_DETECTED key (mme_ue_s1ap_id (ue w))
                           REMOVE_NEW_CONTEXT]
                   else [])
                @ EMM_SAP_SEND (EMMREG EMMREG_ATTACH_ABORT reg) # rest"
       "reg_ue_id reg = ue_id p \<and> reg_proc reg = PROC_ATTACH p \<and> notify reg \<and> free_proc reg"
       "filter is_attach_abort rest = [] \<and> filter is_attach_accept rest = []"
       "get_nas_specific_procedure_attach (ctx w')
               = Some ((new_attach_proc (mme_ue_s1ap_id (ue w)) i)
                         \<lparr>abort := CB_emm_attach_abort,
                          time_out := CB_emm_attach_t3450_handler\<rparr>)"
    by (elim exE conjE) simp
  have "emm_proc_attach_request env key uid0 i s = Inr (rc, leave s k w')"
    using assms(1) r(1) by (simp add: emm_proc_attach_request_def)
  with r(2-5) show "\<exists>rc w' reg rest.
             emm_proc_attach_request env key uid0 i s = Inr (rc, leave s k w')
           \<and> out w' = out w
                @ (if dup \<and> is_initial i
                   then [MME_API_DUPLICATE_ENB_UE_S1AP_ID_DETECTED key (mme_ue_s1ap_id (ue w))
                           REMOVE_NEW_CONTEXT]
                   else [])
                @ EMM_SAP_SEND (EMMREG EMMREG_ATTACH_ABORT reg) # rest
           \<and> reg_ue_id reg = ue_id p \<and> reg_proc reg = PROC_ATTACH p
           \<and> notify reg \<and> free_proc reg
           \<and> filter is_attach_abort rest = [] \<and> filter is_attach_accept rest = []
           \<and> get_nas_specific_procedure_attach (ctx w')
               = Some ((new_attach_proc (mme_ue_s1ap_id (ue w)) i)
                         \<lparr>abort := CB_emm_attach_abort,
                          time_out := CB_emm_attach_t3450_handler\<rparr>)"
    by (intro exI [of _ rc] exI [of _ w'] exI [of _ reg] exI [of _ rest]) simp
next
  assume a: "\<not> emm_attach_ies_have_changed i (ies p)
            \<and> originating_tai (ies p) \<noteq> None \<and> IS_EMM_CTXT_PRESENT_GUTI (ctx w)
            \<and> emm_fsm_state (ctx w) \<noteq> EMM_REGISTERED
            \<and> (imsi (ies p) \<noteq> None \<or> guti (ies p) \<noteq> None \<or> imei (ies p) = None)"
  from assms(5,6) have acc: "attach_accept_sent p \<noteq> 0" and ncr: "\<not> attach_complete_received p"
    by (simp_all add: is_nas_attach_accept_sent_def is_nas_attach_complete_received_def)
  from a obtain t where t: "originating_tai (ies p) = Some t" by auto
  from a have nch: "\<not> emm_attach_ies_have_changed i (ies p)"
    and gp: "IS_EMM_CTXT_PRESENT_GUTI (ctx w)"
    and st: "emm_fsm_state (ctx w) \<noteq> EMM_REGISTERED"
    and run: "imsi (ies p) \<noteq> None \<or> guti (ies p) \<noteq> None \<or> imei (ies p) = None"
    by simp_all
  from abnormal_case_d_unchanged [OF assms(2,3,4) acc ncr nch t gp st run, of key uid dup]
  obtain rc w' est tail where
    r: "emm_proc_attach_request_on env key uid i dup w = Inr (rc, w')"
       "as_ue_id est = mme_ue_s1ap_id (ue w) \<and> nas_msg est = esm_msg_out p"
       "out w' = out w
                @ (if dup \<and> is_initial i
                   then [MME_API_DUPLICATE_ENB_UE_S1AP_ID_DETECTED key (mme_ue_s1ap_id (ue w))
                           REMOVE_NEW_CONTEXT]
                   else [])
                @ NAS_STOP_T3450 uid # EMM_SAP_SEND (EMMAS EMMAS_ESTABLISH_CNF est)
                # (if emm_sap_rc env (EMMAS EMMAS_ESTABLISH_CNF est) \<noteq> RETURNerror
                   then [NAS_STOP_T3450 (mme_ue_s1ap_id (ue w)),
                         NAS_START_T3450 (ue_id p) (time_out p)]
                   else [])
                @ NAS_START_T3450 uid (time_out p) # tail"
       "filter is_attach_accept tail = [] \<and> filter is_attach_abort tail = []"
       "get_nas_specific_procedure_attach (ctx w') = Some (p\<lparr>T3450 := NAS_TIMER_ACTIVE_ID\<rparr>)"
    by (elim exE conjE) simp
  have "emm_proc_attach_request env key uid0 i s = Inr (rc, leave s k w')"
    using assms(1) r(1) by (simp add: emm_proc_attach_request_def)
  with r(2-5) show "\<exists>rc w' est tail.
             emm_proc_attach_request env key uid0 i s = Inr (rc, leave s k w')
           \<and> as_ue_id est = mme_ue_s1ap_id (ue w) \<and> nas_msg est = esm_msg_out p
           \<and> out w' = out w
                @ (if dup \<and> is_initial i
                   then [MME_API_DUPLICATE_ENB_UE_S1AP_ID_DETECTED key (mme_ue_s1ap_id (ue w))
                           REMOVE_NEW_CONTEXT]
                   else [])
                @ NAS_STOP_T3450 uid # EMM_SAP_SEND (EMMAS EMMAS_ESTABLISH_CNF est)
                # (if emm_sap_rc env (EMMAS EMMAS_ESTABLISH_CNF est) \<noteq> RETURNerror
                   then [NAS_STOP_T3450 (mme_ue_s1ap_id (ue w)),
                         NAS_START_T3450 (ue_id p) (time_out p)]
                   else [])
                @ NAS_START_T3450 uid (time_out p) # tail
           \<and> filter is_attach_accept tail = [] \<and> filter is_attach_abort tail = []
           \<and> get_nas_specific_procedure_attach (ctx w')
               = Some (p\<lparr>T3450 := NAS_TIMER_ACTIVE_ID\<rparr>)"
    by (intro exI [of _ rc] exI [of _ w'] exI [of _ est] exI [of _ tail]) simp
qed

lemmas attach_request_defs =
  emm_proc_attach_request_def emm_proc_attach_request_context_def
  mme_ue_context_exists_mme_ue_s1ap_id_def enter_def leave_def
  emm_proc_attach_request_on_def emm_proc_attach_request_collisions_def
  emm_proc_attach_request_identification_def emm_proc_attach_request_attach_def
  emm_proc_attach_request_run_def emm_proc_create_procedure_attach_request_def
  nas_new_attach_procedure_def emm_attach_run_procedure_def
  emm_start_attach_proc_authentication_def emm_proc_identification_def
  emm_proc_authentication_def is_nas_specific_procedure_attach_running_def
  is_nas_common_procedure_identification_running_def
  get_nas_common_procedure_smc_def get_nas_common_procedure_identification_def
  is_nas_attach_accept_sent_def is_nas_attach_complete_received_def
  is_nas_attach_reject_sent_def mme_api_duplicate_enb_ue_s1ap_id_detected_def

text \<open>
  Claim C1. Once an Attach Accept has been sent and no Attach Complete received, an Attach
  Request that repeats the IEs has T3450 stopped, the Accept resent and T3450 restarted.
  The function enters abnormal case d on \<^verbatim>\<open>is_nas_attach_accept_sent\<close>, which reads the counter
  \<^verbatim>\<open>attach_accept_sent\<close>, and only the T3450 handler increments that counter. So right after
  the first Accept (one Accept handed over, T3450 armed, no Complete, counter 0) the
  repetition falls under abnormal case e and is ignored: the function returns
  \<^verbatim>\<open>RETURNok\<close>, nothing is sent and no timer is touched. One expiry of T3450 later the same
  request is handled by case d: the Accept goes out again and T3450 is started.
\<close>

theorem repeated_request_after_first_accept_is_ignored:
  "emm_send_attach_accept env0 \<lparr>ue = ue_first, out = []\<rparr> = Inr (RETURNok, world_accept_sent)
   \<and> length (filter is_attach_accept (out world_accept_sent)) = 1
   \<and> map_option ies (get_nas_specific_procedure_attach (ctx world_accept_sent)) = Some ies0
   \<and> map_option T3450 (get_nas_specific_procedure_attach (ctx world_accept_sent))
       = Some NAS_TIMER_ACTIVE_ID
   \<and> map_option attach_complete_received
        (get_nas_specific_procedure_attach (ctx world_accept_sent)) = Some False
   \<and> map_option attach_accept_sent
        (get_nas_specific_procedure_attach (ctx world_accept_sent)) = Some 0
   \<and> emm_proc_attach_request env0 1 7 ies0
        \<lparr>mme_ue_contexts = [ue world_accept_sent], calls = []\<rparr>
       = Inr (RETURNok, \<lparr>mme_ue_contexts = [ue world_accept_sent], calls = []\<rparr>)
   \<and> emm_attach_t3450_handler env0 (world_accept_sent\<lparr>out := []\<rparr>) = Inr world_retransmitted
   \<and> \<not> isl (emm_proc_attach_request env0 1 7 ies0
              \<lparr>mme_ue_contexts = [ue world_retransmitted], calls = []\<rparr>)
   \<and> length (filter is_attach_accept
        (calls (snd (projr (emm_proc_attach_request env0 1 7 ies0
              \<lparr>mme_ue_contexts = [ue world_retransmitted], calls = []\<rparr>))))) = 1
   \<and> filter is_t3450_start
        (calls (snd (projr (emm_proc_attach_request env0 1 7 ies0
              \<lparr>mme_ue_contexts = [ue world_retransmitted], calls = []\<rparr>))))
       = [NAS_START_T3450 7 CB_emm_attach_t3450_handler,
          NAS_START_T3450 7 CB_emm_attach_t3450_handler]"
  by (simp add: world_retransmitted_def world_accept_sent_def emm_attach_t3450_handler_def
        ATTACH_COUNTER_MAX_def attach_request_defs emm_attach_ies_have_changed_refl
        model_defs fixture_defs Let_def)

subsection \<open>Counting the Attach Requests\<close>

text \<open>
  Claim C4. Each Attach Request processed for an existing context is counted once in
  \<^verbatim>\<open>num_attach_request\<close>, also in abnormal case d. In case d the counter is incremented on
  entering the case and again at the end of the function, which the case falls through
  to. Here the first Accept has gone out and T3450 has expired once, so that the counter
  \<^verbatim>\<open>attach_accept_sent\<close> is 1 and \<^verbatim>\<open>num_attach_request\<close> is 1; the next Attach Request takes
  \<^verbatim>\<open>num_attach_request\<close> to 3, with the same IEs and with changed IEs.
\<close>

theorem abnormal_case_d_counts_twice:
  "emm_attach_t3450_handler env0 (world_accept_sent\<lparr>out := []\<rparr>) = Inr world_retransmitted
   \<and> accept_counter world_retransmitted = Some 1
   \<and> map_option attach_complete_received
        (get_nas_specific_procedure_attach (ctx world_retransmitted)) = Some False
   \<and> num_attach_request (ctx world_retransmitted) = 1
   \<and> \<not> isl (emm_proc_attach_request env0 1 7 ies0
              \<lparr>mme_ue_contexts = [ue world_retransmitted], calls = []\<rparr>)
   \<and> map (\<lambda>c. num_attach_request (emm_context c))
        (mme_ue_contexts (snd (projr (emm_proc_attach_request env0 1 7 ies0
              \<lparr>mme_ue_contexts = [ue world_retransmitted], calls = []\<rparr>)))) = [3]
   \<and> \<not> isl (emm_proc_attach_request env0 1 7 (ies0\<lparr>ksi := 1\<rparr>)
              \<lparr>mme_ue_contexts = [ue world_retransmitted], calls = []\<rparr>)
   \<and> map (\<lambda>c. num_attach_request (emm_context c))
        (mme_ue_contexts (snd (projr (emm_proc_attach_request env0 1 7 (ies0\<lparr>ksi := 1\<rparr>)
              \<lparr>mme_ue_contexts = [ue world_retransmitted], calls = []\<rparr>)))) = [3]"
  by (simp add: world_retransmitted_def world_accept_sent_def emm_attach_t3450_handler_def
        ATTACH_COUNTER_MAX_def attach_request_defs emm_attach_ies_have_changed_iff
        emm_attach_abort_def esm_sap_send_def nas_delete_attach_procedure_def
        model_defs fixture_defs Let_def)

end
